theory Spec2Isabelle
  imports Complex_Main
begin

section \<open>The scroll-driven launch sequence of \<^verbatim>\<open>src/components/ThreeScene.tsx\<close>\<close>

text \<open>
  The component builds a three.js scene once and then runs \<^verbatim>\<open>animate\<close> on every frame.
  A frame reads the scroll percentage, runs one branch of the phase chain (which writes
  rocket, booster, fairing and satellite transforms into the retained scene graph and
  chooses an exhaust intensity and the telemetry record), advances the exhaust particle
  pool, computes a camera target and moves the camera a fraction of the way towards it.

  JavaScript numbers are modelled as \<^typ>\<open>real\<close>: rounding of IEEE doubles is outside the
  model. The scene graph is a record of the transforms that \<^verbatim>\<open>animate\<close> assigns, threaded
  through the frame function. \<^verbatim>\<open>Math.random\<close> is a stream \<open>rnd\<close> of numbers read through a
  cursor kept in the state. The size, colour and alpha attribute buffers are written for
  the renderer only and never read back; they, the drifting ground clouds, the spinning
  earth mesh and the look-at orientation of the camera are not part of the model. The
  telemetry record of a frame is the value that line 1070 hands to the UI callback, which
  it calls at most once in 16 ms.
\<close>

subsection \<open>Numeric helpers (lines 243-245)\<close>

definition lerp :: "real \<Rightarrow> real \<Rightarrow> real \<Rightarrow> real" where
  "lerp start finish alpha = start * (1 - alpha) + finish * alpha"

definition easeInOutCubic :: "real \<Rightarrow> real" where
  "easeInOutCubic t = (if t < 0.5 then 4 * t * t * t else 1 - (-2 * t + 2) ^ 3 / 2)"

definition easeInOutQuint :: "real \<Rightarrow> real" where
  "easeInOutQuint t =
     (if t < 0.5 then 16 * t * t * t * t * t else 1 - (-2 * t + 2) ^ 5 / 2)"

definition earthRadius :: real where
  "earthRadius = 50"

definition PARTICLE_COUNT :: nat where
  "PARTICLE_COUNT = 5001"

definition launchpadY :: real where
  "launchpadY = earthRadius + 3"

definition groundLaunchY :: real where
  "groundLaunchY = 0"

subsection \<open>Vectors\<close>

text \<open>
  \<^verbatim>\<open>THREE.Vector3\<close> with the methods the frame function calls. three.js is loaded from a
  CDN and is not part of the repository; \<open>vlerp\<close>, \<open>lerpVectors\<close> and \<open>addScaledVector\<close>
  follow the library's documented componentwise arithmetic.
\<close>

datatype vec3 = Vec3 (vx: real) (vy: real) (vz: real)

definition set_x :: "vec3 \<Rightarrow> real \<Rightarrow> vec3" where
  "set_x v c = Vec3 c (vy v) (vz v)"

definition set_y :: "vec3 \<Rightarrow> real \<Rightarrow> vec3" where
  "set_y v c = Vec3 (vx v) c (vz v)"

definition set_z :: "vec3 \<Rightarrow> real \<Rightarrow> vec3" where
  "set_z v c = Vec3 (vx v) (vy v) c"

definition vadd :: "vec3 \<Rightarrow> vec3 \<Rightarrow> vec3" where
  "vadd a b = Vec3 (vx a + vx b) (vy a + vy b) (vz a + vz b)"

definition addScaledVector :: "vec3 \<Rightarrow> vec3 \<Rightarrow> real \<Rightarrow> vec3" where
  "addScaledVector a v k = Vec3 (vx a + vx v * k) (vy a + vy v * k) (vz a + vz v * k)"

definition vlerp :: "vec3 \<Rightarrow> vec3 \<Rightarrow> real \<Rightarrow> vec3" where
  "vlerp a v alpha =
     Vec3 (vx a + (vx v - vx a) * alpha) (vy a + (vy v - vy a) * alpha)
          (vz a + (vz v - vz a) * alpha)"

definition lerpVectors :: "vec3 \<Rightarrow> vec3 \<Rightarrow> real \<Rightarrow> vec3" where
  "lerpVectors v1 v2 alpha =
     Vec3 (vx v1 + (vx v2 - vx v1) * alpha) (vy v1 + (vy v2 - vy v1) * alpha)
          (vz v1 + (vz v2 - vz v1) * alpha)"

definition distanceTo :: "vec3 \<Rightarrow> vec3 \<Rightarrow> real" where
  "distanceTo a b = sqrt ((vx a - vx b)\<^sup>2 + (vy a - vy b)\<^sup>2 + (vz a - vz b)\<^sup>2)"

definition vlength :: "vec3 \<Rightarrow> real" where
  "vlength a = sqrt ((vx a)\<^sup>2 + (vy a)\<^sup>2 + (vz a)\<^sup>2)"

subsection \<open>The exhaust particle pool (lines 667-753)\<close>

text \<open>
  A pool entry as built at lines 681-687; its \<^verbatim>\<open>size\<close> field is never read or assigned
  afterwards and is left out.
\<close>

record particle =
  position :: vec3
  velocity :: vec3
  age :: real
  lifetime :: real

text \<open>
  \<open>particles\<close> is the array of particle objects, \<open>positions\<close> the \<^verbatim>\<open>Float32Array\<close> behind the
  position attribute (three slots for each particle) and \<open>cursor\<close> the number of
  \<^verbatim>\<open>Math.random\<close> calls made so far.
\<close>

record exhaust =
  particles :: "particle list"
  positions :: "real list"
  cursor :: nat

definition dead_particle :: particle where
  "dead_particle = \<lparr>position = Vec3 0 0 0, velocity = Vec3 0 0 0, age = 999, lifetime = 0\<rparr>"

text \<open>Lines 680-689: every particle starts dead and its \<open>y\<close> slot holds the sentinel.\<close>

definition initial_exhaust :: exhaust where
  "initial_exhaust =
     \<lparr>particles = replicate PARTICLE_COUNT dead_particle,
      positions = concat (replicate PARTICLE_COUNT [0, -999, 0]),
      cursor = 0\<rparr>"

text \<open>Lines 720-723, the six draws in the order JavaScript evaluates them.\<close>

definition respawn :: "(nat \<Rightarrow> real) \<Rightarrow> nat \<Rightarrow> particle \<Rightarrow> particle" where
  "respawn rnd c q =
     q\<lparr>age := 0,
       lifetime := lerp 0.8 1.5 (rnd (c + 1)),
       position := Vec3 ((rnd (c + 2) - 0.5) * 1.5) 0 ((rnd (c + 3) - 0.5) * 1.5),
       velocity := Vec3 ((rnd (c + 4) - 0.5) * 8) (lerp (-50) (-80) (rnd (c + 5)))
                        ((rnd (c + 6) - 0.5) * 8)\<rparr>"

text \<open>Lines 730-731: the position moves with the old velocity, then the drag applies.\<close>

definition integrate :: "real \<Rightarrow> particle \<Rightarrow> particle" where
  "integrate deltaTime q =
     q\<lparr>position := addScaledVector (position q) (velocity q) deltaTime,
       velocity := set_y (velocity q) (vy (velocity q) * 0.99)\<rparr>"

text \<open>
  Lines 735-737. The buffer is a \<^verbatim>\<open>Float32Array\<close> (line 670), so each store keeps the
  coordinate rounded to single precision. The rounding is part of the JavaScript run
  time, not of the repository, and is the parameter \<open>fround\<close> of the model.
\<close>

definition write_position ::
  "(real \<Rightarrow> real) \<Rightarrow> nat \<Rightarrow> vec3 \<Rightarrow> real list \<Rightarrow> real list" where
  "write_position fround i v buf =
     buf[i * 3 := fround (vx v), i * 3 + 1 := fround (vy v), i * 3 + 2 := fround (vz v)]"

text \<open>
  The body of the loop at lines 714-747 for index \<open>i\<close>. Only the branch that hides the
  particle ends with \<^verbatim>\<open>continue\<close>; a particle that has just been respawned falls through
  to the integration below the \<^verbatim>\<open>if\<close>. The sentinel \<open>-999\<close> is a single-precision number and
  is stored as it is. The read \<open>particles e ! i\<close> is in range for every
  pool the program builds (lemmas \<open>initial_lengths\<close> and \<open>advance_all_lengths\<close> below); a
  write to the typed array outside its range would be ignored, as \<open>list_update\<close> does.
\<close>

definition updateParticle ::
  "(nat \<Rightarrow> real) \<Rightarrow> (real \<Rightarrow> real) \<Rightarrow> real \<Rightarrow> real \<Rightarrow> nat \<Rightarrow> exhaust \<Rightarrow> exhaust" where
  "updateParticle rnd fround deltaTime intensity i e =
     (let q = (particles e ! i)\<lparr>age := age (particles e ! i) + deltaTime\<rparr> in
      if age q > lifetime q then
        if rnd (cursor e) < intensity then
          let q' = integrate deltaTime (respawn rnd (cursor e) q) in
          e\<lparr>particles := (particles e)[i := q'],
            positions := write_position fround i (position q') (positions e),
            cursor := cursor e + 7\<rparr>
        else
          e\<lparr>particles := (particles e)[i := q],
            positions := (positions e)[i * 3 + 1 := -999],
            cursor := cursor e + 1\<rparr>
      else
        let q' = integrate deltaTime q in
        e\<lparr>particles := (particles e)[i := q'],
          positions := write_position fround i (position q') (positions e)\<rparr>)"

definition updateExhaust ::
  "(nat \<Rightarrow> real) \<Rightarrow> (real \<Rightarrow> real) \<Rightarrow> real \<Rightarrow> real \<Rightarrow> exhaust \<Rightarrow> exhaust" where
  "updateExhaust rnd fround deltaTime intensity e =
     fold (updateParticle rnd fround deltaTime intensity) [0..<PARTICLE_COUNT] e"

subsection \<open>The retained scene (lines 640-664, 756-761)\<close>

record MissionData =
  phase :: string
  altitude :: real
  mission_velocity :: real

datatype subject = RocketGroup | SatelliteGroup

datatype CameraAngle = cinematic | follow | wide

text \<open>
  The transforms and flags that \<^verbatim>\<open>animate\<close> reads or assigns. Booster and fairing
  transforms are local to the rocket group, as in the scene graph.
\<close>

record scene =
  rocketGroup_position :: vec3
  booster0_position :: vec3
  booster1_position :: vec3
  booster0_rotation_z :: real
  booster1_rotation_z :: real
  fairingL_position_x :: real
  fairingL_rotation_z :: real
  fairingR_position_x :: real
  fairingR_rotation_z :: real
  satelliteGroup_visible :: bool
  satelliteGroup_position :: vec3
  satelliteGroup_rotation_x :: real
  satelliteGroup_rotation_y :: real
  solarPanel0_rotation_y :: real
  solarPanel1_rotation_y :: real
  groundGroup_visible :: bool
  earthGroup_visible :: bool
  stars_visible :: bool
  orbitTime :: real
  camera_position :: vec3
  exhaustSystem :: exhaust

text \<open>The scene as the mount effect leaves it before the first frame.\<close>

definition initial_scene :: scene where
  "initial_scene =
     \<lparr>rocketGroup_position = Vec3 0 0 0,
      booster0_position = Vec3 (-3.5) 7 0,
      booster1_position = Vec3 3.5 7 0,
      booster0_rotation_z = 0,
      booster1_rotation_z = 0,
      fairingL_position_x = 0,
      fairingL_rotation_z = 0,
      fairingR_position_x = 0,
      fairingR_rotation_z = 0,
      satelliteGroup_visible = False,
      satelliteGroup_position = Vec3 0 0 0,
      satelliteGroup_rotation_x = 0,
      satelliteGroup_rotation_y = 0,
      solarPanel0_rotation_y = pi / 2,
      solarPanel1_rotation_y = - pi / 2,
      groundGroup_visible = True,
      earthGroup_visible = True,
      stars_visible = True,
      orbitTime = 0,
      camera_position = Vec3 0 100 300,
      exhaustSystem = initial_exhaust\<rparr>"

text \<open>What the phase chain leaves in the locals of \<^verbatim>\<open>animate\<close>, next to the scene.\<close>

record phase_out =
  scene_after :: scene
  exhaustIntensity :: real
  missionData :: MissionData
  primarySubject :: subject

definition set_visible :: "bool \<Rightarrow> bool \<Rightarrow> bool \<Rightarrow> scene \<Rightarrow> scene" where
  "set_visible g e st s = s\<lparr>groundGroup_visible := g, earthGroup_visible := e, stars_visible := st\<rparr>"

definition set_rocket_y :: "real \<Rightarrow> scene \<Rightarrow> scene" where
  "set_rocket_y c s = s\<lparr>rocketGroup_position := set_y (rocketGroup_position s) c\<rparr>"

subsection \<open>The animation phases (lines 862-999)\<close>

text \<open>\<^verbatim>\<open>p <= 0.05\<close>, lines 864-871.\<close>

definition phase_pre_launch :: "scene \<Rightarrow> phase_out" where
  "phase_pre_launch s =
     \<lparr>scene_after = set_visible True False False (set_rocket_y groundLaunchY s),
      exhaustIntensity = 0,
      missionData = \<lparr>phase = ''Pre-Launch Countdown'', altitude = 0, mission_velocity = 0\<rparr>,
      primarySubject = RocketGroup\<rparr>"

text \<open>\<^verbatim>\<open>p <= 0.10\<close>, lines 872-880.\<close>

definition phase_ignition :: "real \<Rightarrow> scene \<Rightarrow> phase_out" where
  "phase_ignition p s =
     (let phaseProgress = (p - 0.05) / 0.05 in
      \<lparr>scene_after = set_visible True False False (set_rocket_y groundLaunchY s),
       exhaustIntensity = lerp 0 0.3 phaseProgress,
       missionData = \<lparr>phase = ''Ignition Sequence'', altitude = 0, mission_velocity = 0\<rparr>,
       primarySubject = RocketGroup\<rparr>)"

text \<open>\<^verbatim>\<open>p <= 0.35\<close>, lines 881-890.\<close>

definition phase_ground_liftoff :: "real \<Rightarrow> scene \<Rightarrow> phase_out" where
  "phase_ground_liftoff p s =
     (let phaseProgress = easeInOutCubic ((p - 0.10) / 0.25);
          rocketY = lerp groundLaunchY (groundLaunchY + 50) phaseProgress in
      \<lparr>scene_after = set_visible True False False (set_rocket_y rocketY s),
       exhaustIntensity = min 0.7 (phaseProgress * 1.2),
       missionData = \<lparr>phase = ''Ground Liftoff'', altitude = rocketY * 2,
                      mission_velocity = lerp 0 0.18 phaseProgress\<rparr>,
       primarySubject = RocketGroup\<rparr>)"

text \<open>\<^verbatim>\<open>p <= 0.50\<close>, lines 891-902.\<close>

definition phase_ascending :: "real \<Rightarrow> scene \<Rightarrow> phase_out" where
  "phase_ascending p s =
     (let phaseProgress = easeInOutQuint ((p - 0.35) / 0.15);
          rocketY = lerp (groundLaunchY + 50) launchpadY phaseProgress;
          fadeOut = max 0 (min 1 ((phaseProgress - 0.5) / 0.35));
          fadeIn = max 0 (min 1 ((phaseProgress - 0.05) / 0.5)) in
      \<lparr>scene_after =
         set_visible (fadeOut < 0.98) (fadeIn > 0.02) (fadeIn > 0.12) (set_rocket_y rocketY s),
       exhaustIntensity = lerp 0.45 0.08 phaseProgress,
       missionData = \<lparr>phase = ''Ascending to Orbit'', altitude = rocketY * 5,
                      mission_velocity = lerp 0.18 0.9 phaseProgress\<rparr>,
       primarySubject = RocketGroup\<rparr>)"

text \<open>\<^verbatim>\<open>p <= 0.53\<close>, lines 905-911.\<close>

definition phase_orbital_approach :: "scene \<Rightarrow> phase_out" where
  "phase_orbital_approach s =
     \<lparr>scene_after = set_visible False True True (set_rocket_y launchpadY s),
      exhaustIntensity = 0,
      missionData = \<lparr>phase = ''Orbital Approach'', altitude = 0, mission_velocity = 0\<rparr>,
      primarySubject = RocketGroup\<rparr>"

text \<open>\<^verbatim>\<open>p <= 0.58\<close>, lines 912-918.\<close>

definition phase_launch_preparation :: "real \<Rightarrow> scene \<Rightarrow> phase_out" where
  "phase_launch_preparation p s =
     \<lparr>scene_after = set_visible False True True (set_rocket_y launchpadY s),
      exhaustIntensity = lerp 0 0.1 ((p - 0.53) / 0.05),
      missionData = \<lparr>phase = ''Launch Preparation'', altitude = 0, mission_velocity = 0\<rparr>,
      primarySubject = RocketGroup\<rparr>"

text \<open>\<^verbatim>\<open>p <= 0.72\<close>, lines 919-926.\<close>

definition phase_orbital_liftoff :: "real \<Rightarrow> scene \<Rightarrow> phase_out" where
  "phase_orbital_liftoff p s =
     (let phaseProgress = easeInOutCubic ((p - 0.58) / 0.14);
          rocketY = lerp launchpadY (launchpadY + 250) phaseProgress in
      \<lparr>scene_after = set_visible False True True (set_rocket_y rocketY s),
       exhaustIntensity = min 1 (phaseProgress * 5),
       missionData = \<lparr>phase = ''Orbital Liftoff & Ascent'',
                      altitude = (rocketY - earthRadius) * 5,
                      mission_velocity = lerp 0 7.5 phaseProgress\<rparr>,
       primarySubject = RocketGroup\<rparr>)"

text \<open>
  \<^verbatim>\<open>p <= 0.84\<close>, lines 927-955. Past the \<open>stageSep\<close> threshold the boosters' \<open>x\<close>, \<open>y\<close> and
  roll are assigned and their \<open>z\<close> is left alone; before it the whole position is set.
\<close>

definition stageSep :: real where
  "stageSep = 0.3"

definition move_boosters :: "real \<Rightarrow> scene \<Rightarrow> scene" where
  "move_boosters phaseProgress s =
     (if phaseProgress > stageSep then
        let sepProg = (phaseProgress - stageSep) / (1 - stageSep) in
        s\<lparr>booster0_position :=
             set_y (set_x (booster0_position s) (lerp (-3.5) (-20 - sepProg * 30) sepProg))
                   (lerp 0 (-10) sepProg),
          booster1_position :=
             set_y (set_x (booster1_position s) (lerp 3.5 (20 + sepProg * 30) sepProg))
                   (lerp 0 (-10) sepProg),
          booster0_rotation_z := lerp 0 (-0.3) sepProg,
          booster1_rotation_z := lerp 0 0.3 sepProg\<rparr>
      else
        s\<lparr>booster0_position := Vec3 (-3.5) 0 (-2),
          booster1_position := Vec3 3.5 0 (-2),
          booster0_rotation_z := 0,
          booster1_rotation_z := 0\<rparr>)"

definition phase_booster_separation :: "real \<Rightarrow> scene \<Rightarrow> phase_out" where
  "phase_booster_separation p s =
     (let phaseProgress = easeInOutCubic ((p - 0.72) / 0.12);
          rocketY = lerp (launchpadY + 250) (launchpadY + 500) phaseProgress in
      \<lparr>scene_after =
         move_boosters phaseProgress (set_visible False True True (set_rocket_y rocketY s)),
       exhaustIntensity =
         (if phaseProgress > stageSep
          then lerp 1 0.7 ((phaseProgress - stageSep) / (1 - stageSep)) else 1),
       missionData =
         \<lparr>phase = (if phaseProgress > stageSep then ''Booster Separation'' else ''Orbital Ascent''),
          altitude = (rocketY - earthRadius) * 5,
          mission_velocity = lerp 7.5 9 phaseProgress\<rparr>,
       primarySubject = RocketGroup\<rparr>)"

text \<open>
  \<^verbatim>\<open>p <= 0.94\<close>, lines 956-972. The satellite is shown and parked 30 units above the rocket
  only on a frame that finds it hidden.
\<close>

definition reveal_satellite :: "scene \<Rightarrow> scene" where
  "reveal_satellite s =
     (if \<not> satelliteGroup_visible s then
        s\<lparr>satelliteGroup_visible := True,
          satelliteGroup_position :=
            set_y (rocketGroup_position s) (vy (rocketGroup_position s) + 30)\<rparr>
      else s)"

definition phase_fairing_separation :: "real \<Rightarrow> scene \<Rightarrow> phase_out" where
  "phase_fairing_separation p s =
     (let phaseProgress = easeInOutCubic ((p - 0.84) / 0.10);
          rocketY = lerp (launchpadY + 500) (launchpadY + 600) phaseProgress;
          s1 = set_visible False True True (set_rocket_y rocketY s);
          s2 = s1\<lparr>fairingL_position_x := lerp 0 (-5) phaseProgress,
                  fairingL_rotation_z := lerp 0 (-0.2) phaseProgress,
                  fairingR_position_x := lerp 0 5 phaseProgress,
                  fairingR_rotation_z := lerp 0 0.2 phaseProgress\<rparr> in
      \<lparr>scene_after = reveal_satellite s2,
       exhaustIntensity = 0,
       missionData = \<lparr>phase = ''Fairing Separation'',
                      altitude = (rocketY - earthRadius) * 5,
                      mission_velocity = lerp 15 27.6 phaseProgress\<rparr>,
       primarySubject = SatelliteGroup\<rparr>)"

text \<open>
  The last branch, lines 973-999. It advances the orbit accumulator, places the
  satellite from it, and assigns neither the visibility flags nor \<open>exhaustIntensity\<close>,
  which keeps the 0 it was declared with at line 853.
\<close>

definition phase_orbital_operations :: "real \<Rightarrow> real \<Rightarrow> scene \<Rightarrow> phase_out" where
  "phase_orbital_operations p deltaTime s =
     (let phaseProgress = easeInOutCubic ((p - 0.94) / 0.06);
          rocketY = lerp (launchpadY + 600) (launchpadY + 580) phaseProgress;
          orbitTime' = orbitTime s + deltaTime * 0.5;
          orbitRadius = earthRadius + 75;
          orbitAngle = orbitTime';
          orbitInclination = pi / 8;
          altitudeKM = (orbitRadius - earthRadius) * 5 in
      \<lparr>scene_after =
         (set_rocket_y rocketY s)
           \<lparr>orbitTime := orbitTime',
            satelliteGroup_position :=
              Vec3 (cos orbitAngle * orbitRadius)
                   (sin orbitAngle * orbitRadius * sin orbitInclination)
                   (sin orbitAngle * orbitRadius * cos orbitInclination),
            satelliteGroup_rotation_y := orbitAngle + pi / 2,
            satelliteGroup_rotation_x := sin orbitAngle * 0.15,
            solarPanel0_rotation_y := lerp (pi / 2) 0 (min 1 (phaseProgress * 3)),
            solarPanel1_rotation_y := lerp (- pi / 2) 0 (min 1 (phaseProgress * 3))\<rparr>,
       exhaustIntensity = 0,
       missionData = \<lparr>phase = ''Orbital Operations'', altitude = altitudeKM,
                      mission_velocity = 27.6\<rparr>,
       primarySubject = SatelliteGroup\<rparr>)"

text \<open>The \<^verbatim>\<open>if\<close>/\<^verbatim>\<open>else if\<close> chain that selects the phase.\<close>

definition animation_phases :: "real \<Rightarrow> real \<Rightarrow> scene \<Rightarrow> phase_out" where
  "animation_phases p deltaTime s =
     (if p \<le> 0.05 then phase_pre_launch s
      else if p \<le> 0.10 then phase_ignition p s
      else if p \<le> 0.35 then phase_ground_liftoff p s
      else if p \<le> 0.50 then phase_ascending p s
      else if p \<le> 0.53 then phase_orbital_approach s
      else if p \<le> 0.58 then phase_launch_preparation p s
      else if p \<le> 0.72 then phase_orbital_liftoff p s
      else if p \<le> 0.84 then phase_booster_separation p s
      else if p \<le> 0.94 then phase_fairing_separation p s
      else phase_orbital_operations p deltaTime s)"

subsection \<open>Camera control and the frame function (lines 833-1073)\<close>

definition subject_position :: "subject \<Rightarrow> scene \<Rightarrow> vec3" where
  "subject_position sub s =
     (case sub of RocketGroup \<Rightarrow> rocketGroup_position s
                | SatelliteGroup \<Rightarrow> satelliteGroup_position s)"

text \<open>Lines 1042-1059, the cinematic keyframes past \<open>p = 0.51\<close>.\<close>

definition cinematic_target :: "real \<Rightarrow> scene \<Rightarrow> vec3 \<times> vec3" where
  "cinematic_target p s =
     (if p \<le> 0.58 then (Vec3 0 (launchpadY + 25) 60, Vec3 0 (launchpadY + 20) 0)
      else if p \<le> 0.72 then
        let phaseProgress = easeInOutCubic ((p - 0.58) / 0.14);
            camAngle = phaseProgress * pi * 0.5 in
        (Vec3 (sin camAngle * 30) (vy (rocketGroup_position s) + 15) (60 + cos camAngle * 15),
         Vec3 0 (vy (rocketGroup_position s)) 0)
      else if p \<le> 0.84 then
        (Vec3 65 (vy (rocketGroup_position s) + 35) 65, rocketGroup_position s)
      else if p \<le> 0.94 then
        (Vec3 (-20) (vy (satelliteGroup_position s) + 10) 40, satelliteGroup_position s)
      else
        let camOrbitRadius = 180;
            camAngleOffset = orbitTime s * 0.3;
            camElevation = 70 in
        (Vec3 (cos camAngleOffset * camOrbitRadius) camElevation
              (sin camAngleOffset * camOrbitRadius),
         Vec3 0 0 0))"

text \<open>
  Lines 1004-1062. \<open>localToWorld\<close> stands for the library call
  \<^verbatim>\<open>primarySubject.localToWorld(offset)\<close>, which applies the subject's world matrix and is
  a parameter of the model.
\<close>

definition camera_control ::
  "(subject \<Rightarrow> vec3 \<Rightarrow> vec3) \<Rightarrow> CameraAngle \<Rightarrow> real \<Rightarrow> subject \<Rightarrow> scene \<Rightarrow> vec3 \<times> vec3" where
  "camera_control localToWorld currentCameraAngle p sub s =
     (if p \<le> 0.05 then
        (lerpVectors (Vec3 100 20 100) (Vec3 85 18 85) (easeInOutCubic (p / 0.05)),
         Vec3 0 12 0)
      else if p \<le> 0.10 then
        (lerpVectors (Vec3 85 18 85) (Vec3 70 20 70) (easeInOutCubic ((p - 0.05) / 0.05)),
         Vec3 0 12 0)
      else if p \<le> 0.35 then
        let phaseProgress = easeInOutCubic ((p - 0.10) / 0.25) in
        (lerpVectors (Vec3 70 20 70) (Vec3 65 38 65) phaseProgress,
         Vec3 0 (lerp 12 33 phaseProgress) 0)
      else if p \<le> 0.38 then
        let phaseProgress = easeInOutQuint ((p - 0.35) / 0.03) in
        (lerpVectors (Vec3 65 38 65) (Vec3 58 60 95) phaseProgress,
         lerpVectors (Vec3 0 33 0) (Vec3 0 31 0) phaseProgress)
      else if p \<le> 0.42 then
        let phaseProgress = easeInOutQuint ((p - 0.38) / 0.04) in
        (lerpVectors (Vec3 58 60 95) (Vec3 42 90 140) phaseProgress,
         lerpVectors (Vec3 0 31 0) (Vec3 0 28 0) phaseProgress)
      else if p \<le> 0.46 then
        let phaseProgress = easeInOutQuint ((p - 0.42) / 0.04) in
        (lerpVectors (Vec3 42 90 140) (Vec3 25 115 200) phaseProgress,
         lerpVectors (Vec3 0 28 0) (Vec3 0 23 0) phaseProgress)
      else if p \<le> 0.51 then
        let phaseProgress = easeInOutQuint ((p - 0.46) / 0.05) in
        (lerpVectors (Vec3 25 115 200) (Vec3 0 (launchpadY + 25) 60) phaseProgress,
         lerpVectors (Vec3 0 23 0) (Vec3 0 (launchpadY + 20) 0) phaseProgress)
      else
        (case currentCameraAngle of
           cinematic \<Rightarrow> cinematic_target p s
         | follow \<Rightarrow> (localToWorld sub (Vec3 0 20 (-70)), subject_position sub s)
         | wide \<Rightarrow> (vadd (subject_position sub s) (Vec3 180 180 180), subject_position sub s)))"

text \<open>Lines 1064-1065: the camera moves a fixed fraction of the way to its target.\<close>

definition lerpFactor :: "real \<Rightarrow> real" where
  "lerpFactor p = (if p \<le> 0.51 then 0.012 else 0.04)"

definition smooth_camera :: "real \<Rightarrow> vec3 \<Rightarrow> vec3 \<Rightarrow> vec3" where
  "smooth_camera p targetCamPos cam = vlerp cam targetCamPos (lerpFactor p)"

record frame_out =
  frame_scene :: scene
  frame_missionData :: MissionData
  frame_exhaustIntensity :: real
  frame_targetCamPos :: vec3
  frame_targetLookAt :: vec3

text \<open>
  One call of \<^verbatim>\<open>animate\<close>. \<open>percent\<close> is \<^verbatim>\<open>scrollState.percent\<close>, \<open>deltaTime\<close> the clock's delta
  and \<open>currentCameraAngle\<close> the value of \<^verbatim>\<open>cameraAngleRef.current\<close>. Line 851 divides the
  percentage by 100 and uses the quotient as it is.
\<close>

definition animate ::
  "(nat \<Rightarrow> real) \<Rightarrow> (real \<Rightarrow> real) \<Rightarrow> (subject \<Rightarrow> vec3 \<Rightarrow> vec3) \<Rightarrow> CameraAngle \<Rightarrow> real \<Rightarrow> real \<Rightarrow> scene \<Rightarrow> frame_out" where
  "animate rnd fround localToWorld currentCameraAngle deltaTime percent s =
     (let p = percent / 100;
          r = animation_phases p deltaTime s;
          s1 = scene_after r;
          s2 = s1\<lparr>exhaustSystem :=
                   updateExhaust rnd fround deltaTime (exhaustIntensity r) (exhaustSystem s1)\<rparr>;
          target = camera_control localToWorld currentCameraAngle p (primarySubject r) s2;
          s3 = s2\<lparr>camera_position := smooth_camera p (fst target) (camera_position s2)\<rparr> in
      \<lparr>frame_scene = s3,
       frame_missionData = missionData r,
       frame_exhaustIntensity = exhaustIntensity r,
       frame_targetCamPos = fst target,
       frame_targetLookAt = snd target\<rparr>)"

text \<open>A run of frames: each entry gives the frame's clock delta and scroll percentage.\<close>

fun frames ::
  "(nat \<Rightarrow> real) \<Rightarrow> (real \<Rightarrow> real) \<Rightarrow> (subject \<Rightarrow> vec3 \<Rightarrow> vec3) \<Rightarrow> CameraAngle \<Rightarrow> (real \<times> real) list \<Rightarrow> scene \<Rightarrow> scene" where
  "frames rnd fround localToWorld mode [] s = s"
| "frames rnd fround localToWorld mode ((deltaTime, percent) # rest) s =
     frames rnd fround localToWorld mode rest
       (frame_scene (animate rnd fround localToWorld mode deltaTime percent s))"

subsection \<open>Faults\<close>

text \<open>
  Arithmetic on JavaScript numbers never raises and a write outside a typed array is
  ignored. The transforms that \<^verbatim>\<open>animate\<close> assigns belong to objects that the mount effect
  has built (lines 640-664), so the one operation of a frame that can raise is the read
  \<^verbatim>\<open>p.age\<close> at line 716 when \<^verbatim>\<open>particles[i]\<close> is \<^verbatim>\<open>undefined\<close>, a \<^verbatim>\<open>TypeError\<close>. The checked
  variants below return that fault as a value and stop at it, as the exception leaves
  the loop and the frame.
\<close>

datatype fault = TypeError

definition updateParticle_checked ::
  "(nat \<Rightarrow> real) \<Rightarrow> (real \<Rightarrow> real) \<Rightarrow> real \<Rightarrow> real \<Rightarrow> nat \<Rightarrow> exhaust \<Rightarrow> fault + exhaust" where
  "updateParticle_checked rnd fround deltaTime intensity i e =
     (if i < length (particles e) then Inr (updateParticle rnd fround deltaTime intensity i e)
      else Inl TypeError)"

fun updateExhaust_from ::
  "(nat \<Rightarrow> real) \<Rightarrow> (real \<Rightarrow> real) \<Rightarrow> real \<Rightarrow> real \<Rightarrow> nat list \<Rightarrow> exhaust \<Rightarrow> fault + exhaust" where
  "updateExhaust_from rnd fround deltaTime intensity [] e = Inr e"
| "updateExhaust_from rnd fround deltaTime intensity (i # rest) e =
     (case updateParticle_checked rnd fround deltaTime intensity i e of
        Inl f \<Rightarrow> Inl f
      | Inr e' \<Rightarrow> updateExhaust_from rnd fround deltaTime intensity rest e')"

definition updateExhaust_checked ::
  "(nat \<Rightarrow> real) \<Rightarrow> (real \<Rightarrow> real) \<Rightarrow> real \<Rightarrow> real \<Rightarrow> exhaust \<Rightarrow> fault + exhaust" where
  "updateExhaust_checked rnd fround deltaTime intensity e =
     updateExhaust_from rnd fround deltaTime intensity [0..<PARTICLE_COUNT] e"

definition animate_checked ::
  "(nat \<Rightarrow> real) \<Rightarrow> (real \<Rightarrow> real) \<Rightarrow> (subject \<Rightarrow> vec3 \<Rightarrow> vec3) \<Rightarrow> CameraAngle \<Rightarrow> real \<Rightarrow> real \<Rightarrow> scene
     \<Rightarrow> fault + frame_out" where
  "animate_checked rnd fround localToWorld currentCameraAngle deltaTime percent s =
     (let p = percent / 100;
          r = animation_phases p deltaTime s;
          s1 = scene_after r in
      case updateExhaust_checked rnd fround deltaTime (exhaustIntensity r) (exhaustSystem s1) of
        Inl f \<Rightarrow> Inl f
      | Inr x \<Rightarrow>
          let s2 = s1\<lparr>exhaustSystem := x\<rparr>;
              target = camera_control localToWorld currentCameraAngle p (primarySubject r) s2;
              s3 = s2\<lparr>camera_position := smooth_camera p (fst target) (camera_position s2)\<rparr> in
          Inr \<lparr>frame_scene = s3,
               frame_missionData = missionData r,
               frame_exhaustIntensity = exhaustIntensity r,
               frame_targetCamPos = fst target,
               frame_targetLookAt = snd target\<rparr>)"

subsection \<open>Notions used to state the properties\<close>

text \<open>
  A particle is dead when the test of line 718 succeeds for it. \<open>advance_all\<close> runs
  \<open>updateExhaust\<close> once for each pair of a clock delta and an intensity.
\<close>

definition dead :: "particle \<Rightarrow> bool" where
  "dead q = (age q > lifetime q)"

definition alive_count :: "exhaust \<Rightarrow> nat" where
  "alive_count e = length (filter (\<lambda>q. \<not> dead q) (particles e))"

fun advance_all ::
  "(nat \<Rightarrow> real) \<Rightarrow> (real \<Rightarrow> real) \<Rightarrow> (real \<times> real) list \<Rightarrow> exhaust \<Rightarrow> exhaust" where
  "advance_all rnd fround [] e = e"
| "advance_all rnd fround ((deltaTime, intensity) # rest) e =
     advance_all rnd fround rest (updateExhaust rnd fround deltaTime intensity e)"

text \<open>
  The shape every pool of the program has: the two arrays keep their construction
  sizes, no age is negative and every lifetime is one that a respawn can draw or the
  initial 0.
\<close>

definition particle_ok :: "particle \<Rightarrow> bool" where
  "particle_ok q = (0 \<le> age q \<and> 0 \<le> lifetime q \<and> lifetime q < 1.5)"

definition pool_ok :: "exhaust \<Rightarrow> bool" where
  "pool_ok e =
     (length (particles e) = PARTICLE_COUNT \<and> length (positions e) = 3 * PARTICLE_COUNT
      \<and> list_all particle_ok (particles e))"

text \<open>The camera position after a run of frames that all aim at the same target.\<close>

fun camera_frames :: "real list \<Rightarrow> vec3 \<Rightarrow> vec3 \<Rightarrow> vec3" where
  "camera_frames [] targetCamPos cam = cam"
| "camera_frames (p # ps) targetCamPos cam =
     camera_frames ps targetCamPos (smooth_camera p targetCamPos cam)"

text \<open>
  The height that the phase chain assigns to the rocket group, branch by branch; lemma
  \<open>rocket_y_after_phases\<close> shows that it is what \<open>animation_phases\<close> leaves in the scene.
\<close>

definition rocket_height :: "real \<Rightarrow> real" where
  "rocket_height p =
     (if p \<le> 0.05 then groundLaunchY
      else if p \<le> 0.10 then groundLaunchY
      else if p \<le> 0.35 then lerp groundLaunchY (groundLaunchY + 50) (easeInOutCubic ((p - 0.10) / 0.25))
      else if p \<le> 0.50 then lerp (groundLaunchY + 50) launchpadY (easeInOutQuint ((p - 0.35) / 0.15))
      else if p \<le> 0.53 then launchpadY
      else if p \<le> 0.58 then launchpadY
      else if p \<le> 0.72 then lerp launchpadY (launchpadY + 250) (easeInOutCubic ((p - 0.58) / 0.14))
      else if p \<le> 0.84 then lerp (launchpadY + 250) (launchpadY + 500) (easeInOutCubic ((p - 0.72) / 0.12))
      else if p \<le> 0.94 then lerp (launchpadY + 500) (launchpadY + 600) (easeInOutCubic ((p - 0.84) / 0.10))
      else lerp (launchpadY + 600) (launchpadY + 580) (easeInOutCubic ((p - 0.94) / 0.06)))"

text \<open>
  The value that the fairing-separation branch gives a fairing coordinate whose end
  value is \<open>c\<close>, extended by the rest value 0 below the branch (lemma \<open>fairings_of_frame\<close>).
\<close>

definition fairing_ramp :: "real \<Rightarrow> real \<Rightarrow> real" where
  "fairing_ramp c p = (if p \<le> 0.84 then 0 else lerp 0 c (easeInOutCubic ((p - 0.84) / 0.10)))"

text \<open>
  What one pass of the loop body does to a particle, given the cursor \<open>c\<close> at which the
  pass starts to draw, and the loop run for the first \<open>n\<close> indices only. Lemmas
  \<open>updateExhaust_loop\<close> and \<open>exhaust_loop_particle\<close> tie both to \<open>updateExhaust\<close>.
\<close>

definition expired :: "real \<Rightarrow> particle \<Rightarrow> bool" where
  "expired deltaTime q = (age q + deltaTime > lifetime q)"

definition particle_after :: "(nat \<Rightarrow> real) \<Rightarrow> real \<Rightarrow> real \<Rightarrow> nat \<Rightarrow> particle \<Rightarrow> particle" where
  "particle_after rnd deltaTime intensity c q =
     (if expired deltaTime q then
        if rnd c < intensity then integrate deltaTime (respawn rnd c (q\<lparr>age := age q + deltaTime\<rparr>))
        else q\<lparr>age := age q + deltaTime\<rparr>
      else integrate deltaTime (q\<lparr>age := age q + deltaTime\<rparr>))"

definition exhaust_loop ::
  "(nat \<Rightarrow> real) \<Rightarrow> (real \<Rightarrow> real) \<Rightarrow> real \<Rightarrow> real \<Rightarrow> nat \<Rightarrow> exhaust \<Rightarrow> exhaust" where
  "exhaust_loop rnd fround deltaTime intensity n e = fold (updateParticle rnd fround deltaTime intensity) [0..<n] e"

section \<open>Properties\<close>

subsection \<open>Easing and interpolation stay between their end points\<close>

lemma cube_range: fixes u :: real assumes "0 \<le> u" "u \<le> 1" shows "0 \<le> u ^ 3 \<and> u ^ 3 \<le> 1"
  using assms by (simp add: power_le_one)

lemma quint_range: fixes u :: real assumes "0 \<le> u" "u \<le> 1" shows "0 \<le> u ^ 5 \<and> u ^ 5 \<le> 1"
  using assms by (simp add: power_le_one)

lemma easeInOutCubic_range:
  assumes "0 \<le> t" "t \<le> 1"
  shows "0 \<le> easeInOutCubic t \<and> easeInOutCubic t \<le> 1"
proof (cases "t < 0.5")
  case True
  have "t ^ 3 \<le> (1/2) ^ 3" using True assms by (intro power_mono) auto
  then have "4 * t * t * t \<le> 1" by (simp add: power3_eq_cube)
  moreover have "0 \<le> 4 * t * t * t" using assms by simp
  ultimately show ?thesis using True by (simp add: easeInOutCubic_def)
next
  case False
  have "0 \<le> (-2 * t + 2) ^ 3 \<and> (-2 * t + 2) ^ 3 \<le> 1"
    using False assms by (intro cube_range) auto
  then show ?thesis using False by (simp add: easeInOutCubic_def)
qed

lemma easeInOutQuint_range:
  assumes "0 \<le> t" "t \<le> 1"
  shows "0 \<le> easeInOutQuint t \<and> easeInOutQuint t \<le> 1"
proof (cases "t < 0.5")
  case True
  have "t ^ 5 \<le> (1/2) ^ 5" using True assms by (intro power_mono) auto
  then have "16 * t * t * t * t * t \<le> 1" by (simp add: power_def)
  moreover have "0 \<le> 16 * t * t * t * t * t " using assms by simp
  ultimately show ?thesis using True by (simp add: easeInOutQuint_def)
next
  case False
  have "0 \<le> (-2 * t + 2) ^ 5 \<and> (-2 * t + 2) ^ 5 \<le> 1"
    using False assms by (intro quint_range) auto
  then show ?thesis using False by (simp add: easeInOutQuint_def)
qed

lemma lerp_between:
  assumes "0 \<le> t" "t \<le> 1" "a \<le> b"
  shows "a \<le> lerp a b t \<and> lerp a b t \<le> b"
proof -
  have "lerp a b t = a + (b - a) * t" by (simp add: lerp_def algebra_simps)
  moreover have "0 \<le> (b - a) * t" using assms by simp
  moreover have "(b - a) * t \<le> (b - a) * 1" using assms by (intro mult_left_mono) auto
  ultimately show ?thesis by simp
qed

lemma lerp_between_rev:
  assumes "0 \<le> t" "t \<le> 1" "b \<le> a"
  shows "b \<le> lerp a b t \<and> lerp a b t \<le> a"
proof -
  have "lerp a b t = a - (a - b) * t" by (simp add: lerp_def algebra_simps)
  moreover have "0 \<le> (a - b) * t" using assms by simp
  moreover have "(a - b) * t \<le> (a - b) * 1" using assms by (intro mult_left_mono) auto
  ultimately show ?thesis by simp
qed

subsection \<open>Exhaust intensity chosen by the phase chain\<close>

lemma exhaust_pre: "exhaustIntensity (phase_pre_launch s) = 0"
  by (simp add: phase_pre_launch_def)

lemma exhaust_ignition:
  assumes "0.05 < p" "p \<le> 0.10"
  shows "0 \<le> exhaustIntensity (phase_ignition p s) \<and> exhaustIntensity (phase_ignition p s) \<le> 0.3"
proof -
  have "0 \<le> (p - 0.05) / 0.05 \<and> (p - 0.05) / 0.05 \<le> 1" using assms by simp
  then show ?thesis using lerp_between[of "(p - 0.05) / 0.05" 0 "0.3"]
    by (simp add: phase_ignition_def Let_def)
qed

lemma exhaust_ground_liftoff:
  assumes "0.10 < p" "p \<le> 0.35"
  shows "0 \<le> exhaustIntensity (phase_ground_liftoff p s) \<and> exhaustIntensity (phase_ground_liftoff p s) \<le> 0.7"
proof -
  have "0 \<le> (p - 0.10) / 0.25 \<and> (p - 0.10) / 0.25 \<le> 1" using assms by simp
  then have "0 \<le> easeInOutCubic ((p - 0.10) / 0.25)" using easeInOutCubic_range by blast
  then show ?thesis by (simp add: phase_ground_liftoff_def Let_def)
qed

lemma exhaust_ascending:
  assumes "0.35 < p" "p \<le> 0.50"
  shows "0.08 \<le> exhaustIntensity (phase_ascending p s) \<and> exhaustIntensity (phase_ascending p s) \<le> 0.45"
proof -
  have "0 \<le> (p - 0.35) / 0.15 \<and> (p - 0.35) / 0.15 \<le> 1" using assms by simp
  then have "0 \<le> easeInOutQuint ((p - 0.35) / 0.15) \<and> easeInOutQuint ((p - 0.35) / 0.15) \<le> 1" using easeInOutQuint_range by blast
  then show ?thesis using lerp_between_rev[of "easeInOutQuint ((p - 0.35) / 0.15)" "0.08" "0.45"]
   by (simp add: phase_ascending_def Let_def)
qed

lemma exhaust_launch_preparation:
  assumes "0.53 < p" "p \<le> 0.58"
  shows "0 \<le> exhaustIntensity (phase_launch_preparation p s) \<and> exhaustIntensity (phase_launch_preparation p s) \<le> 0.1"
proof -
  have "0 \<le> (p - 0.53) / 0.05 \<and> (p - 0.53) / 0.05 \<le> 1" using assms by simp
  then show ?thesis using lerp_between[of "(p - 0.53) / 0.05" 0 "0.1"]
    by (simp add: phase_launch_preparation_def Let_def)
qed

lemma exhaust_orbital_liftoff:
  assumes "0.58 < p" "p \<le> 0.72"
  shows "0 \<le> exhaustIntensity (phase_orbital_liftoff p s) \<and> exhaustIntensity (phase_orbital_liftoff p s) \<le> 1"
proof -
  have "0 \<le> (p - 0.58) / 0.14 \<and> (p - 0.58) / 0.14 \<le> 1" using assms by simp
  then have "0 \<le> easeInOutCubic ((p - 0.58) / 0.14)" using easeInOutCubic_range by blast
  then show ?thesis by (simp add: phase_orbital_liftoff_def Let_def)
qed

lemma exhaust_booster_separation:
  assumes "0.72 < p" "p \<le> 0.84"
  shows "0.7 \<le> exhaustIntensity (phase_booster_separation p s) \<and> exhaustIntensity (phase_booster_separation p s) \<le> 1"
proof -
  let ?e = "easeInOutCubic ((p - 0.72) / 0.12)"
  have "0 \<le> (p - 0.72) / 0.12 \<and> (p - 0.72) / 0.12 \<le> 1" using assms by simp
  then have r: "0 \<le> ?e \<and> ?e \<le> 1" using easeInOutCubic_range by blast
  show ?thesis
  proof (cases "?e > stageSep")
    case True
    then have "0 \<le> (?e - stageSep) / (1 - stageSep) \<and> (?e - stageSep) / (1 - stageSep) \<le> 1"
      using r by (simp add: stageSep_def)
    then show ?thesis using True lerp_between_rev[of "(?e - stageSep) / (1 - stageSep)" "0.7" 1]
      by (simp add: phase_booster_separation_def Let_def)
  next
    case False
    then show ?thesis by (simp add: phase_booster_separation_def Let_def)
  qed
qed

lemma exhaust_late: "exhaustIntensity (phase_fairing_separation p s) = 0" "exhaustIntensity (phase_orbital_operations p dt s) = 0"
  "exhaustIntensity (phase_orbital_approach s) = 0"
  by (simp_all add: phase_fairing_separation_def phase_orbital_operations_def phase_orbital_approach_def Let_def)

lemma exhaust_intensity_bounds:
  "0 \<le> exhaustIntensity (animation_phases p deltaTime s)
   \<and> exhaustIntensity (animation_phases p deltaTime s) \<le> 1
   \<and> (p \<le> 0.05 \<longrightarrow> exhaustIntensity (animation_phases p deltaTime s) = 0)
   \<and> (0.05 < p \<and> p \<le> 0.35 \<longrightarrow> exhaustIntensity (animation_phases p deltaTime s) \<le> 0.7)
   \<and> (0.50 < p \<and> p \<le> 0.53 \<longrightarrow> exhaustIntensity (animation_phases p deltaTime s) = 0)
   \<and> (0.72 < p \<and> p \<le> 0.84 \<and> easeInOutCubic ((p - 0.72) / 0.12) \<le> stageSep
        \<longrightarrow> exhaustIntensity (animation_phases p deltaTime s) = 1)
   \<and> (0.72 < p \<and> p \<le> 0.84 \<and> easeInOutCubic ((p - 0.72) / 0.12) > stageSep
        \<longrightarrow> exhaustIntensity (animation_phases p deltaTime s)
              = lerp 1 0.7 ((easeInOutCubic ((p - 0.72) / 0.12) - stageSep) / (1 - stageSep))
            \<and> 0.7 \<le> exhaustIntensity (animation_phases p deltaTime s))
   \<and> (p > 0.84 \<longrightarrow> exhaustIntensity (animation_phases p deltaTime s) = 0)"
proof -
  consider "p \<le> 0.05" | "0.05 < p" "p \<le> 0.10" | "0.10 < p" "p \<le> 0.35" | "0.35 < p" "p \<le> 0.50"
    | "0.50 < p" "p \<le> 0.53" | "0.53 < p" "p \<le> 0.58" | "0.58 < p" "p \<le> 0.72" | "0.72 < p" "p \<le> 0.84"
    | "0.84 < p" "p \<le> 0.94" | "0.94 < p" by linarith
  then show ?thesis
  proof cases
    case 1 then show ?thesis by (simp add: animation_phases_def exhaust_pre)
  next
    case 2 then show ?thesis using exhaust_ignition[of p s] by (simp add: animation_phases_def)
  next
    case 3 then show ?thesis using exhaust_ground_liftoff[of p s] by (simp add: animation_phases_def)
  next
    case 4 then show ?thesis using exhaust_ascending[of p s] by (simp add: animation_phases_def)
  next
    case 5 then show ?thesis by (simp add: animation_phases_def exhaust_late)
  next
    case 6 then show ?thesis using exhaust_launch_preparation[of p s] by (simp add: animation_phases_def)
  next
    case 7 then show ?thesis using exhaust_orbital_liftoff[of p s] by (simp add: animation_phases_def)
  next
    case 8
    have sel: "animation_phases p deltaTime s = phase_booster_separation p s"
      using 8 by (simp add: animation_phases_def)
    have val: "exhaustIntensity (phase_booster_separation p s) =
        (if easeInOutCubic ((p - 0.72) / 0.12) > stageSep
          then lerp 1 0.7 ((easeInOutCubic ((p - 0.72) / 0.12) - stageSep) / (1 - stageSep)) else 1)"
      by (simp only: phase_booster_separation_def Let_def phase_out.simps)
    have rng: "0.7 \<le> exhaustIntensity (phase_booster_separation p s) \<and> exhaustIntensity (phase_booster_separation p s) \<le> 1"
      using 8 by (rule exhaust_booster_separation)
    have a: "\<not> p \<le> 0.05" "\<not> p \<le> 0.35" "\<not> p \<le> 0.53" "\<not> p > 0.84" using 8 by simp_all
    show ?thesis unfolding sel using rng a val by auto
  next
    case 9 then show ?thesis by (simp add: animation_phases_def exhaust_late)
  next
    case 10 then show ?thesis by (simp add: animation_phases_def exhaust_late)
  qed
qed

lemma exhaust_formulas:
  "0.05 < p \<and> p \<le> 0.10 \<longrightarrow>
      exhaustIntensity (animation_phases p deltaTime s) = lerp 0 0.3 ((p - 0.05) / 0.05)"
  "0.10 < p \<and> p \<le> 0.35 \<longrightarrow>
      exhaustIntensity (animation_phases p deltaTime s)
        = min 0.7 (easeInOutCubic ((p - 0.10) / 0.25) * 1.2)"
  "0.35 < p \<and> p \<le> 0.50 \<longrightarrow>
      exhaustIntensity (animation_phases p deltaTime s)
        = lerp 0.45 0.08 (easeInOutQuint ((p - 0.35) / 0.15))"
  "0.53 < p \<and> p \<le> 0.58 \<longrightarrow>
      exhaustIntensity (animation_phases p deltaTime s) = lerp 0 0.1 ((p - 0.53) / 0.05)"
  "0.58 < p \<and> p \<le> 0.72 \<longrightarrow>
      exhaustIntensity (animation_phases p deltaTime s)
        = min 1 (easeInOutCubic ((p - 0.58) / 0.14) * 5)"
  by (simp_all add: animation_phases_def phase_ignition_def phase_ground_liftoff_def
      phase_ascending_def phase_launch_preparation_def phase_orbital_liftoff_def Let_def)

subsection \<open>The rocket height is continuous in the progress value\<close>

lemma continuous_if_le:
  fixes g h :: "real \<Rightarrow> real"
  assumes "continuous_on UNIV g" "continuous_on UNIV h" "g a = h a"
  shows "continuous_on UNIV (\<lambda>x. if x \<le> a then g x else h x)"
proof -
  have "continuous_on ({..a} \<union> {a..}) (\<lambda>x. if x \<le> a then g x else h x)"
  proof (rule continuous_on_If)
    show "closed {..a}" "closed {a..}" by simp_all
    show "continuous_on {..a} g" "continuous_on {a..} h"
      using assms continuous_on_subset by blast+
    show "\<And>x. x \<in> {..a} \<Longrightarrow> \<not> x \<le> a \<Longrightarrow> g x = h x" by simp
    show "\<And>x. x \<in> {a..} \<Longrightarrow> x \<le> a \<Longrightarrow> g x = h x" using assms(3) by auto
  qed
  moreover have "{..a} \<union> {a..} = (UNIV :: real set)" by auto
  ultimately show ?thesis by simp
qed

lemma continuous_if_less:
  fixes g h :: "real \<Rightarrow> real"
  assumes "continuous_on UNIV g" "continuous_on UNIV h" "g a = h a"
  shows "continuous_on UNIV (\<lambda>x. if x < a then g x else h x)"
proof -
  have eq: "(\<lambda>x. if x < a then g x else h x) = (\<lambda>x. if x \<le> a then g x else h x)"
    using assms(3) by (auto simp: fun_eq_iff)
  show ?thesis unfolding eq by (rule continuous_if_le[OF assms])
qed

lemma continuous_easeInOutCubic: "continuous_on UNIV easeInOutCubic"
proof -
  have eq: "easeInOutCubic = (\<lambda>t::real. if t < 0.5 then 4 * t * t * t else 1 - (-2 * t + 2) ^ 3 / 2)"
    by (rule ext) (simp only: easeInOutCubic_def)
  show ?thesis unfolding eq
  proof (rule continuous_if_less)
    show "continuous_on UNIV (\<lambda>t::real. 4 * t * t * t)" by (intro continuous_intros)
    show "continuous_on UNIV (\<lambda>t::real. 1 - (-2 * t + 2) ^ 3 / 2)"
      unfolding divide_inverse by (intro continuous_intros)
    show "4 * 0.5 * 0.5 * 0.5 = 1 - (- 2 * 0.5 + 2) ^ 3 / (2::real)" by simp
  qed
qed

lemma continuous_easeInOutQuint: "continuous_on UNIV easeInOutQuint"
proof -
  have eq: "easeInOutQuint = (\<lambda>t::real. if t < 0.5 then 16 * t * t * t * t * t else 1 - (-2 * t + 2) ^ 5 / 2)"
    by (rule ext) (simp only: easeInOutQuint_def)
  show ?thesis unfolding eq
  proof (rule continuous_if_less)
    show "continuous_on UNIV (\<lambda>t::real. 16 * t * t * t * t * t)" by (intro continuous_intros)
    show "continuous_on UNIV (\<lambda>t::real. 1 - (-2 * t + 2) ^ 5 / 2)"
      unfolding divide_inverse by (intro continuous_intros)
    show "16 * 0.5 * 0.5 * 0.5 * 0.5 * 0.5 = 1 - (- 2 * 0.5 + 2) ^ 5 / (2::real)" by simp
  qed
qed

lemma continuous_cubic_ramp:
  "continuous_on UNIV (\<lambda>p. lerp a b (easeInOutCubic ((p - c) / d)))"
proof -
  have "continuous_on UNIV (\<lambda>p. easeInOutCubic ((p - c) / d))"
    unfolding divide_inverse
    by (rule continuous_on_compose2[OF continuous_easeInOutCubic]) (intro continuous_intros, simp)
  then show ?thesis unfolding lerp_def by (intro continuous_intros)
qed

lemma continuous_quint_ramp:
  "continuous_on UNIV (\<lambda>p. lerp a b (easeInOutQuint ((p - c) / d)))"
proof -
  have "continuous_on UNIV (\<lambda>p. easeInOutQuint ((p - c) / d))"
    unfolding divide_inverse
    by (rule continuous_on_compose2[OF continuous_easeInOutQuint]) (intro continuous_intros, simp)
  then show ?thesis unfolding lerp_def by (intro continuous_intros)
qed

lemma ease_ends: "easeInOutCubic 0 = 0" "easeInOutCubic 1 = 1" "easeInOutQuint 0 = 0" "easeInOutQuint 1 = 1"
  by (simp_all add: easeInOutCubic_def easeInOutQuint_def)

lemma lerp_ends: "lerp a b 0 = a" "lerp a b 1 = b"
  by (simp_all add: lerp_def)

lemma rocket_y_after_phases:
  "vy (rocketGroup_position (scene_after (animation_phases p deltaTime s))) = rocket_height p"
  by (simp add: animation_phases_def rocket_height_def phase_pre_launch_def phase_ignition_def
      phase_ground_liftoff_def phase_ascending_def phase_orbital_approach_def
      phase_launch_preparation_def phase_orbital_liftoff_def phase_booster_separation_def
      phase_fairing_separation_def phase_orbital_operations_def Let_def set_visible_def
      set_rocket_y_def set_y_def move_boosters_def reveal_satellite_def)

lemma continuous_rocket_height: "continuous_on UNIV rocket_height"
  unfolding rocket_height_def
  apply (intro continuous_if_le continuous_cubic_ramp continuous_quint_ramp continuous_on_const)
  apply (simp_all add: ease_ends lerp_ends)
  done

subsection \<open>What a frame leaves in the scene\<close>

lemmas phase_defs = phase_pre_launch_def phase_ignition_def
      phase_ground_liftoff_def phase_ascending_def phase_orbital_approach_def
      phase_launch_preparation_def phase_orbital_liftoff_def phase_booster_separation_def
      phase_fairing_separation_def phase_orbital_operations_def Let_def set_visible_def
      set_rocket_y_def set_y_def set_x_def move_boosters_def reveal_satellite_def

lemma animate_scene:
  "frame_scene (animate rnd fround localToWorld mode deltaTime percent s) =
     (scene_after (animation_phases (percent / 100) deltaTime s))
       \<lparr>exhaustSystem := updateExhaust rnd fround deltaTime
            (exhaustIntensity (animation_phases (percent / 100) deltaTime s))
            (exhaustSystem (scene_after (animation_phases (percent / 100) deltaTime s))),
        camera_position := smooth_camera (percent / 100)
            (frame_targetCamPos (animate rnd fround localToWorld mode deltaTime percent s))
            (camera_position (scene_after (animation_phases (percent / 100) deltaTime s)))\<rparr>"
  by (simp add: animate_def Let_def)

lemma animate_outputs:
  "frame_missionData (animate rnd fround localToWorld mode deltaTime percent s) =
     missionData (animation_phases (percent / 100) deltaTime s)"
  "frame_exhaustIntensity (animate rnd fround localToWorld mode deltaTime percent s) =
     exhaustIntensity (animation_phases (percent / 100) deltaTime s)"
  by (simp_all add: animate_def Let_def)

subsection \<open>The exhaust intensity of a frame\<close>

text \<open>
  C4. For every progress value the phase chain chooses an exhaust intensity between 0 and
  1, and that value is the intensity of the frame. It is 0 in the pre-launch and
  orbital-approach phases. In ignition it is the ramp \<open>lerp 0 0.3\<close> of the phase progress,
  in ground liftoff the eased progress times 1.2 clamped to 0.7, in the ascent to orbit
  the ramp \<open>lerp 0.45 0.08\<close> of the eased progress, in launch preparation the ramp
  \<open>lerp 0 0.1\<close>, and in orbital liftoff the eased progress times 5 clamped to 1; so it is at
  most 0.7 through ignition and ground liftoff. In the powered ascent it is exactly 1
  before the \<open>stageSep\<close> threshold and ramped down from 1 towards 0.7 after the threshold,
  and it is exactly 0 for every \<open>p > 0.84\<close> (fairing separation and orbital operations).
\<close>

theorem exhaust_intensity_policy:
  "0 \<le> exhaustIntensity (animation_phases p deltaTime s)
   \<and> exhaustIntensity (animation_phases p deltaTime s) \<le> 1
   \<and> (p \<le> 0.05 \<longrightarrow> exhaustIntensity (animation_phases p deltaTime s) = 0)
   \<and> (0.05 < p \<and> p \<le> 0.35 \<longrightarrow> exhaustIntensity (animation_phases p deltaTime s) \<le> 0.7)
   \<and> (0.50 < p \<and> p \<le> 0.53 \<longrightarrow> exhaustIntensity (animation_phases p deltaTime s) = 0)
   \<and> (0.72 < p \<and> p \<le> 0.84 \<and> easeInOutCubic ((p - 0.72) / 0.12) \<le> stageSep
        \<longrightarrow> exhaustIntensity (animation_phases p deltaTime s) = 1)
   \<and> (0.72 < p \<and> p \<le> 0.84 \<and> easeInOutCubic ((p - 0.72) / 0.12) > stageSep
        \<longrightarrow> exhaustIntensity (animation_phases p deltaTime s)
              = lerp 1 0.7 ((easeInOutCubic ((p - 0.72) / 0.12) - stageSep) / (1 - stageSep))
            \<and> 0.7 \<le> exhaustIntensity (animation_phases p deltaTime s))
   \<and> (p > 0.84 \<longrightarrow> exhaustIntensity (animation_phases p deltaTime s) = 0)
   \<and> (0.05 < p \<and> p \<le> 0.10 \<longrightarrow>
        exhaustIntensity (animation_phases p deltaTime s) = lerp 0 0.3 ((p - 0.05) / 0.05))
   \<and> (0.10 < p \<and> p \<le> 0.35 \<longrightarrow>
        exhaustIntensity (animation_phases p deltaTime s)
          = min 0.7 (easeInOutCubic ((p - 0.10) / 0.25) * 1.2))
   \<and> (0.35 < p \<and> p \<le> 0.50 \<longrightarrow>
        exhaustIntensity (animation_phases p deltaTime s)
          = lerp 0.45 0.08 (easeInOutQuint ((p - 0.35) / 0.15)))
   \<and> (0.53 < p \<and> p \<le> 0.58 \<longrightarrow>
        exhaustIntensity (animation_phases p deltaTime s) = lerp 0 0.1 ((p - 0.53) / 0.05))
   \<and> (0.58 < p \<and> p \<le> 0.72 \<longrightarrow>
        exhaustIntensity (animation_phases p deltaTime s)
          = min 1 (easeInOutCubic ((p - 0.58) / 0.14) * 5))
   \<and> frame_exhaustIntensity (animate rnd fround localToWorld mode deltaTime (100 * p) s)
       = exhaustIntensity (animation_phases p deltaTime s)"
proof -
  have fr: "frame_exhaustIntensity (animate rnd fround localToWorld mode deltaTime (100 * p) s)
       = exhaustIntensity (animation_phases p deltaTime s)"
    by (simp add: animate_outputs)
  show ?thesis
    using exhaust_intensity_bounds[of p deltaTime s] exhaust_formulas[of p deltaTime s] fr
    by blast
qed

theorem exhaust_intensity_policy_witness:
  "exhaustIntensity (animation_phases 0 0 initial_scene) = 0
   \<and> exhaustIntensity (animation_phases 0.075 0 initial_scene) = 0.15
   \<and> exhaustIntensity (animation_phases 0.225 0 initial_scene) = 0.6
   \<and> exhaustIntensity (animation_phases 0.425 0 initial_scene) = 0.265
   \<and> exhaustIntensity (animation_phases 0.52 0 initial_scene) = 0
   \<and> exhaustIntensity (animation_phases 0.555 0 initial_scene) = 0.05
   \<and> exhaustIntensity (animation_phases 0.65 0 initial_scene) = 1
   \<and> exhaustIntensity (animation_phases 0.73 0 initial_scene) = 1
   \<and> 0.7 \<le> exhaustIntensity (animation_phases 0.8 0 initial_scene)
   \<and> exhaustIntensity (animation_phases 0.9 0 initial_scene) = 0"
  using exhaust_intensity_policy [where p=0 and deltaTime=0 and s=initial_scene]
    exhaust_intensity_policy [where p="0.075" and deltaTime=0 and s=initial_scene]
    exhaust_intensity_policy [where p="0.225" and deltaTime=0 and s=initial_scene]
    exhaust_intensity_policy [where p="0.425" and deltaTime=0 and s=initial_scene]
    exhaust_intensity_policy [where p="0.52" and deltaTime=0 and s=initial_scene]
    exhaust_intensity_policy [where p="0.555" and deltaTime=0 and s=initial_scene]
    exhaust_intensity_policy [where p="0.65" and deltaTime=0 and s=initial_scene]
    exhaust_intensity_policy [where p="0.73" and deltaTime=0 and s=initial_scene]
    exhaust_intensity_policy [where p="0.8" and deltaTime=0 and s=initial_scene]
    exhaust_intensity_policy [where p="0.9" and deltaTime=0 and s=initial_scene]
  by (simp add: easeInOutCubic_def easeInOutQuint_def stageSep_def power3_eq_cube lerp_def)

subsection \<open>Telemetry altitude\<close>

lemma altitude_at_half:
  "altitude (missionData (animation_phases 0.50 deltaTime s)) = (earthRadius + 3) * 5"
  by (simp add: animation_phases_def phase_ascending_def Let_def easeInOutQuint_def lerp_def
      launchpadY_def groundLaunchY_def)

lemma altitude_after_half:
  assumes "0.50 < p" "p \<le> 0.58"
  shows "altitude (missionData (animation_phases p deltaTime s)) = 0"
  using assms by (simp add: animation_phases_def phase_orbital_approach_def phase_launch_preparation_def)

text \<open>
  C10, amended. The reported altitude is not monotone in progress. At the end of the
  phase ``Ascending to Orbit'' (\<open>p = 0.50\<close>) it is the rocket height times 5, that is
  \<open>(earthRadius + 3) * 5 = 265\<close> with \<open>earthRadius = 50\<close>, and for every \<open>p\<close> in the
  following phases ``Orbital Approach'' and ``Launch Preparation'' (\<open>0.50 < p \<le> 0.58\<close>) it
  is exactly 0, so there are \<open>p1 < p2\<close> in range with a larger altitude at \<open>p1\<close>.
\<close>

theorem altitude_not_monotone:
  "altitude (frame_missionData (animate rnd fround localToWorld mode deltaTime 50 s)) = (earthRadius + 3) * 5
   \<and> (earthRadius + 3) * 5 = 265
   \<and> (50 < percent \<and> percent \<le> 58 \<longrightarrow>
        altitude (frame_missionData (animate rnd fround localToWorld mode deltaTime percent s)) = 0)
   \<and> (\<exists>p1 p2. 0 \<le> p1 \<and> p1 < p2 \<and> p2 \<le> 100
        \<and> altitude (frame_missionData (animate rnd fround localToWorld mode deltaTime p1 s))
          > altitude (frame_missionData (animate rnd fround localToWorld mode deltaTime p2 s)))"
proof -
  have a: "altitude (frame_missionData (animate rnd fround localToWorld mode deltaTime 50 s)) = (earthRadius + 3) * 5"
    using altitude_at_half[of deltaTime s] by (simp add: animate_outputs)
  have b: "(earthRadius + 3) * 5 = 265" by (simp add: earthRadius_def)
  have c: "altitude (frame_missionData (animate rnd fround localToWorld mode deltaTime percent s)) = 0"
    if "50 < percent" "percent \<le> 58" for percent
    using that altitude_after_half[of "percent / 100" deltaTime s] by (simp add: animate_outputs)
  have "altitude (frame_missionData (animate rnd fround localToWorld mode deltaTime 50 s))
          > altitude (frame_missionData (animate rnd fround localToWorld mode deltaTime 55 s))"
    using a b c[of 55] by simp
  then have d: "\<exists>p1 p2. 0 \<le> p1 \<and> p1 < p2 \<and> p2 \<le> 100
        \<and> altitude (frame_missionData (animate rnd fround localToWorld mode deltaTime p1 s))
          > altitude (frame_missionData (animate rnd fround localToWorld mode deltaTime p2 s))"
    by (intro exI[of _ 50] exI[of _ 55]) simp
  show ?thesis using a b c d by blast
qed

theorem altitude_not_monotone_witness:
  "altitude (frame_missionData (animate (\<lambda>n. 0) (\<lambda>x. x) (\<lambda>sub v. v) cinematic 0 50 initial_scene)) = 265
   \<and> altitude (frame_missionData (animate (\<lambda>n. 0) (\<lambda>x. x) (\<lambda>sub v. v) cinematic 0 55 initial_scene)) = 0"
  using altitude_not_monotone [of "\<lambda>n. 0" "\<lambda>x. x" "\<lambda>sub v. v" cinematic 0 initial_scene 55]
  by (simp add: earthRadius_def)

text \<open>The value 2515 would need an earth radius of 500; the scene is built with 50.\<close>

theorem altitude_at_half_is_not_2515:
  "altitude (frame_missionData (animate (\<lambda>n. 0) (\<lambda>x. x) (\<lambda>sub v. v) cinematic 0 50 initial_scene)) \<noteq> 2515"
  by (simp add: animate_outputs animation_phases_def phase_ascending_def Let_def easeInOutQuint_def lerp_def
      launchpadY_def groundLaunchY_def earthRadius_def)

subsection \<open>The satellite on its orbit\<close>

lemma orbit_position:
  assumes "0.94 < p"
  shows "satelliteGroup_position (scene_after (animation_phases p deltaTime s)) =
     Vec3 (cos (orbitTime s + deltaTime * 0.5) * (earthRadius + 75))
          (sin (orbitTime s + deltaTime * 0.5) * (earthRadius + 75) * sin (pi / 8))
          (sin (orbitTime s + deltaTime * 0.5) * (earthRadius + 75) * cos (pi / 8))"
  using assms by (simp add: animation_phases_def phase_orbital_operations_def Let_def set_rocket_y_def)

lemma orbit_radius:
  "vlength (Vec3 (cos a * r) (sin a * r * sin i) (sin a * r * cos i)) = \<bar>r\<bar>"
proof -
  have "(sin a * r * sin i)\<^sup>2 + (sin a * r * cos i)\<^sup>2 = (sin a * r)\<^sup>2 * ((sin i)\<^sup>2 + (cos i)\<^sup>2)"
    by algebra
  then have "(sin a * r * sin i)\<^sup>2 + (sin a * r * cos i)\<^sup>2 = (sin a * r)\<^sup>2"
    by simp
  then have "(cos a * r)\<^sup>2 + (sin a * r * sin i)\<^sup>2 + (sin a * r * cos i)\<^sup>2
      = (cos a * r)\<^sup>2 + (sin a * r)\<^sup>2"
    by simp
  also have "\<dots> = r\<^sup>2 * ((cos a)\<^sup>2 + (sin a)\<^sup>2)"
    by algebra
  also have "\<dots> = r\<^sup>2" by simp
  finally show ?thesis by (simp add: vlength_def)
qed








subsection \<open>Camera smoothing\<close>

lemma lerpFactor_range: "0 < 1 - lerpFactor p \<and> 1 - lerpFactor p \<le> 0.988 \<and> 1 - lerpFactor p < 1"
  by (simp add: lerpFactor_def)

lemma smooth_camera_offset:
  "vx targetCamPos - vx (smooth_camera p targetCamPos cam) = (1 - lerpFactor p) * (vx targetCamPos - vx cam)"
  "vy targetCamPos - vy (smooth_camera p targetCamPos cam) = (1 - lerpFactor p) * (vy targetCamPos - vy cam)"
  "vz targetCamPos - vz (smooth_camera p targetCamPos cam) = (1 - lerpFactor p) * (vz targetCamPos - vz cam)"
  by (simp_all add: smooth_camera_def vlerp_def algebra_simps)

lemma distance_after_smoothing:
  "distanceTo (smooth_camera p targetCamPos cam) targetCamPos
     = (1 - lerpFactor p) * distanceTo cam targetCamPos"
proof -
  let ?k = "1 - lerpFactor p"
  have k: "0 \<le> ?k" using lerpFactor_range[of p] by simp
  have "(vx (smooth_camera p targetCamPos cam) - vx targetCamPos)\<^sup>2
        + (vy (smooth_camera p targetCamPos cam) - vy targetCamPos)\<^sup>2
        + (vz (smooth_camera p targetCamPos cam) - vz targetCamPos)\<^sup>2
      = ?k\<^sup>2 * ((vx cam - vx targetCamPos)\<^sup>2 + (vy cam - vy targetCamPos)\<^sup>2
                  + (vz cam - vz targetCamPos)\<^sup>2)"
    unfolding smooth_camera_def vlerp_def vec3.sel by algebra
  then show ?thesis using k by (simp add: distanceTo_def real_sqrt_mult)
qed

lemma distanceTo_nonneg: "0 \<le> distanceTo a b"
  by (simp add: distanceTo_def)

lemma camera_frames_bound:
  "distanceTo (camera_frames ps targetCamPos cam) targetCamPos
     \<le> 0.988 ^ length ps * distanceTo cam targetCamPos"
proof (induction ps arbitrary: cam)
  case Nil
  then show ?case by simp
next
  case (Cons p ps)
  have "distanceTo (camera_frames (p # ps) targetCamPos cam) targetCamPos
        \<le> 0.988 ^ length ps * distanceTo (smooth_camera p targetCamPos cam) targetCamPos"
    using Cons.IH by simp
  also have "\<dots> = 0.988 ^ length ps * ((1 - lerpFactor p) * distanceTo cam targetCamPos)"
    by (simp only: distance_after_smoothing)
  also have "\<dots> \<le> 0.988 ^ length ps * (0.988 * distanceTo cam targetCamPos)"
    using lerpFactor_range[of p] distanceTo_nonneg[of cam targetCamPos]
    by (intro mult_left_mono mult_right_mono) simp_all
  finally show ?case by simp
qed

lemma camera_frames_converge:
  "(\<lambda>n. distanceTo (camera_frames (map ps [0..<n]) targetCamPos cam) targetCamPos) \<longlonglongrightarrow> 0"
proof (rule real_tendsto_sandwich)
  show "\<forall>\<^sub>F n in sequentially. 0 \<le> distanceTo (camera_frames (map ps [0..<n]) targetCamPos cam) targetCamPos"
    by (simp add: distanceTo_nonneg)
  show "\<forall>\<^sub>F n in sequentially. distanceTo (camera_frames (map ps [0..<n]) targetCamPos cam) targetCamPos
          \<le> 0.988 ^ n * distanceTo cam targetCamPos"
    using camera_frames_bound[of "map ps [0..<n]" targetCamPos cam for n] by simp
  show "(\<lambda>n. 0::real) \<longlonglongrightarrow> 0" by simp
  have "(\<lambda>n. (0.988::real) ^ n * distanceTo cam targetCamPos) \<longlonglongrightarrow> 0 * distanceTo cam targetCamPos"
    by (intro tendsto_intros LIMSEQ_power_zero) simp
  then show "(\<lambda>n. (0.988::real) ^ n * distanceTo cam targetCamPos) \<longlonglongrightarrow> 0" by simp
qed

lemma camera_untouched_by_phases:
  "camera_position (scene_after (animation_phases p deltaTime s)) = camera_position s"
  by (simp add: animation_phases_def phase_defs)

text \<open>
  C8. A frame moves the camera by linear interpolation towards its target with factor
  0.012 for \<open>p \<le> 0.51\<close> and 0.04 otherwise. With the target held fixed this scales the
  distance to the target by the constant 0.988 or 0.96, so the distance never grows;
  the remaining offset keeps its direction, so the camera never passes the target;
  after any run of frames the distance is at most \<open>0.988 ^ n\<close> times the initial one and
  it tends to 0 along every sequence of progress values.
\<close>

theorem camera_smoothing_converges:
  "camera_position (frame_scene (animate rnd fround localToWorld mode deltaTime percent s))
     = smooth_camera (percent / 100)
         (frame_targetCamPos (animate rnd fround localToWorld mode deltaTime percent s)) (camera_position s)
   \<and> distanceTo (smooth_camera p targetCamPos cam) targetCamPos
       = (1 - lerpFactor p) * distanceTo cam targetCamPos
   \<and> 1 - lerpFactor p = (if p \<le> 0.51 then 0.988 else 0.96)
   \<and> distanceTo (smooth_camera p targetCamPos cam) targetCamPos \<le> distanceTo cam targetCamPos
   \<and> vx targetCamPos - vx (smooth_camera p targetCamPos cam)
       = (1 - lerpFactor p) * (vx targetCamPos - vx cam)
   \<and> vy targetCamPos - vy (smooth_camera p targetCamPos cam)
       = (1 - lerpFactor p) * (vy targetCamPos - vy cam)
   \<and> vz targetCamPos - vz (smooth_camera p targetCamPos cam)
       = (1 - lerpFactor p) * (vz targetCamPos - vz cam)
   \<and> distanceTo (camera_frames ps targetCamPos cam) targetCamPos
       \<le> 0.988 ^ length ps * distanceTo cam targetCamPos
   \<and> (\<lambda>n. distanceTo (camera_frames (map progress [0..<n]) targetCamPos cam) targetCamPos)
       \<longlonglongrightarrow> 0"
proof -
  have a: "camera_position (frame_scene (animate rnd fround localToWorld mode deltaTime percent s))
     = smooth_camera (percent / 100)
         (frame_targetCamPos (animate rnd fround localToWorld mode deltaTime percent s)) (camera_position s)"
    by (simp add: animate_scene camera_untouched_by_phases)
  have b: "1 - lerpFactor p = (if p \<le> 0.51 then 0.988 else 0.96)"
    by (simp add: lerpFactor_def)
  have c: "distanceTo (smooth_camera p targetCamPos cam) targetCamPos \<le> distanceTo cam targetCamPos"
  proof -
    have "(1 - lerpFactor p) * distanceTo cam targetCamPos \<le> 1 * distanceTo cam targetCamPos"
      using lerpFactor_range[of p] distanceTo_nonneg[of cam targetCamPos]
      by (intro mult_right_mono) simp_all
    then show ?thesis by (simp add: distance_after_smoothing)
  qed
  show ?thesis
    using a b c distance_after_smoothing[of p targetCamPos cam] smooth_camera_offset[of targetCamPos p cam]
      camera_frames_bound[of ps targetCamPos cam] camera_frames_converge[of progress targetCamPos cam]
    by simp
qed

theorem camera_smoothing_converges_witness:
  "distanceTo (smooth_camera 0.3 (Vec3 0 0 0) (Vec3 0 100 300)) (Vec3 0 0 0)
     = 0.988 * distanceTo (Vec3 0 100 300) (Vec3 0 0 0)
   \<and> distanceTo (smooth_camera 0.6 (Vec3 0 0 0) (Vec3 0 100 300)) (Vec3 0 0 0)
     = 0.96 * distanceTo (Vec3 0 100 300) (Vec3 0 0 0)"
  using camera_smoothing_converges [of "\<lambda>n. 0" "\<lambda>x. x" "\<lambda>sub v. v" cinematic 0 0 initial_scene "0.3" "Vec3 0 0 0" "Vec3 0 100 300" "[]" "\<lambda>n. 0"]
    camera_smoothing_converges [of "\<lambda>n. 0" "\<lambda>x. x" "\<lambda>sub v. v" cinematic 0 0 initial_scene "0.6" "Vec3 0 0 0" "Vec3 0 100 300" "[]" "\<lambda>n. 0"]
  by simp

subsection \<open>Progress values outside the unit interval\<close>












subsection \<open>What a frame recomputes and what it keeps\<close>

lemma telemetry_from_progress:
  "missionData (animation_phases p deltaTime s) = missionData (animation_phases p deltaTime s')"
  "exhaustIntensity (animation_phases p deltaTime s) = exhaustIntensity (animation_phases p deltaTime s')"
  by (simp_all add: animation_phases_def phase_defs)

lemma visibility_from_progress:
  assumes "p \<le> 0.94"
  shows "groundGroup_visible (scene_after (animation_phases p deltaTime s))
           = groundGroup_visible (scene_after (animation_phases p deltaTime s'))"
    and "earthGroup_visible (scene_after (animation_phases p deltaTime s))
           = earthGroup_visible (scene_after (animation_phases p deltaTime s'))"
    and "stars_visible (scene_after (animation_phases p deltaTime s))
           = stars_visible (scene_after (animation_phases p deltaTime s'))"
  using assms by (simp_all add: animation_phases_def phase_defs)

lemma boosters_in_separation_phase:
  assumes "0.72 < p" "p \<le> 0.84"
  shows "vx (booster0_position (scene_after (animation_phases p deltaTime s)))
           = vx (booster0_position (scene_after (animation_phases p deltaTime s')))"
    and "vy (booster0_position (scene_after (animation_phases p deltaTime s)))
           = vy (booster0_position (scene_after (animation_phases p deltaTime s')))"
    and "vx (booster1_position (scene_after (animation_phases p deltaTime s)))
           = vx (booster1_position (scene_after (animation_phases p deltaTime s')))"
    and "vy (booster1_position (scene_after (animation_phases p deltaTime s)))
           = vy (booster1_position (scene_after (animation_phases p deltaTime s')))"
    and "booster0_rotation_z (scene_after (animation_phases p deltaTime s))
           = booster0_rotation_z (scene_after (animation_phases p deltaTime s'))"
    and "booster1_rotation_z (scene_after (animation_phases p deltaTime s))
           = booster1_rotation_z (scene_after (animation_phases p deltaTime s'))"
  using assms by (simp_all add: animation_phases_def phase_defs)

lemma fairings_in_separation_phase:
  assumes "0.84 < p" "p \<le> 0.94"
  shows "fairingL_position_x (scene_after (animation_phases p deltaTime s))
           = fairingL_position_x (scene_after (animation_phases p deltaTime s'))"
    and "fairingL_rotation_z (scene_after (animation_phases p deltaTime s))
           = fairingL_rotation_z (scene_after (animation_phases p deltaTime s'))"
    and "fairingR_position_x (scene_after (animation_phases p deltaTime s))
           = fairingR_position_x (scene_after (animation_phases p deltaTime s'))"
    and "fairingR_rotation_z (scene_after (animation_phases p deltaTime s))
           = fairingR_rotation_z (scene_after (animation_phases p deltaTime s'))"
  using assms by (simp_all add: animation_phases_def phase_defs)

lemma satellite_in_orbit_phase:
  assumes "0.94 < p" "orbitTime s = orbitTime s'"
  shows "satelliteGroup_position (scene_after (animation_phases p deltaTime s))
           = satelliteGroup_position (scene_after (animation_phases p deltaTime s'))"
    and "satelliteGroup_rotation_x (scene_after (animation_phases p deltaTime s))
           = satelliteGroup_rotation_x (scene_after (animation_phases p deltaTime s'))"
    and "satelliteGroup_rotation_y (scene_after (animation_phases p deltaTime s))
           = satelliteGroup_rotation_y (scene_after (animation_phases p deltaTime s'))"
    and "solarPanel0_rotation_y (scene_after (animation_phases p deltaTime s))
           = solarPanel0_rotation_y (scene_after (animation_phases p deltaTime s'))"
    and "solarPanel1_rotation_y (scene_after (animation_phases p deltaTime s))
           = solarPanel1_rotation_y (scene_after (animation_phases p deltaTime s'))"
    and "orbitTime (scene_after (animation_phases p deltaTime s))
           = orbitTime (scene_after (animation_phases p deltaTime s'))"
  using assms by (simp_all add: animation_phases_def phase_defs)

text \<open>
  C2, amended. Two frames with the same inputs that start from any two scenes agree on
  the telemetry, the exhaust intensity and the rocket height, which depend on progress
  alone. They agree on the ground, earth and star visibility for \<open>p \<le> 0.94\<close>, on the
  boosters' \<open>x\<close>, \<open>y\<close> and roll for \<open>0.72 < p \<le> 0.84\<close>, on the fairing poses for
  \<open>0.84 < p \<le> 0.94\<close>, and, when the two scenes hold the same orbit accumulator, on the
  satellite pose, the panel angles and the new accumulator for \<open>p > 0.94\<close>. Outside those
  ranges the frame does not assign these values: they, and the satellite's visibility,
  are whatever earlier frames left in the scene.
\<close>

theorem derived_state_from_inputs:
  "frame_missionData (animate rnd fround localToWorld mode deltaTime percent s)
     = frame_missionData (animate rnd fround localToWorld mode deltaTime percent s')
   \<and> frame_exhaustIntensity (animate rnd fround localToWorld mode deltaTime percent s)
     = frame_exhaustIntensity (animate rnd fround localToWorld mode deltaTime percent s')
   \<and> vy (rocketGroup_position (frame_scene (animate rnd fround localToWorld mode deltaTime percent s)))
     = vy (rocketGroup_position (frame_scene (animate rnd fround localToWorld mode deltaTime percent s')))
   \<and> (percent \<le> 94 \<longrightarrow>
        groundGroup_visible (frame_scene (animate rnd fround localToWorld mode deltaTime percent s))
          = groundGroup_visible (frame_scene (animate rnd fround localToWorld mode deltaTime percent s'))
      \<and> earthGroup_visible (frame_scene (animate rnd fround localToWorld mode deltaTime percent s))
          = earthGroup_visible (frame_scene (animate rnd fround localToWorld mode deltaTime percent s'))
      \<and> stars_visible (frame_scene (animate rnd fround localToWorld mode deltaTime percent s))
          = stars_visible (frame_scene (animate rnd fround localToWorld mode deltaTime percent s')))
   \<and> (72 < percent \<and> percent \<le> 84 \<longrightarrow>
        vx (booster0_position (frame_scene (animate rnd fround localToWorld mode deltaTime percent s)))
          = vx (booster0_position (frame_scene (animate rnd fround localToWorld mode deltaTime percent s')))
      \<and> vy (booster0_position (frame_scene (animate rnd fround localToWorld mode deltaTime percent s)))
          = vy (booster0_position (frame_scene (animate rnd fround localToWorld mode deltaTime percent s')))
      \<and> vx (booster1_position (frame_scene (animate rnd fround localToWorld mode deltaTime percent s)))
          = vx (booster1_position (frame_scene (animate rnd fround localToWorld mode deltaTime percent s')))
      \<and> vy (booster1_position (frame_scene (animate rnd fround localToWorld mode deltaTime percent s)))
          = vy (booster1_position (frame_scene (animate rnd fround localToWorld mode deltaTime percent s')))
      \<and> booster0_rotation_z (frame_scene (animate rnd fround localToWorld mode deltaTime percent s))
          = booster0_rotation_z (frame_scene (animate rnd fround localToWorld mode deltaTime percent s'))
      \<and> booster1_rotation_z (frame_scene (animate rnd fround localToWorld mode deltaTime percent s))
          = booster1_rotation_z (frame_scene (animate rnd fround localToWorld mode deltaTime percent s')))
   \<and> (84 < percent \<and> percent \<le> 94 \<longrightarrow>
        fairingL_position_x (frame_scene (animate rnd fround localToWorld mode deltaTime percent s))
          = fairingL_position_x (frame_scene (animate rnd fround localToWorld mode deltaTime percent s'))
      \<and> fairingL_rotation_z (frame_scene (animate rnd fround localToWorld mode deltaTime percent s))
          = fairingL_rotation_z (frame_scene (animate rnd fround localToWorld mode deltaTime percent s'))
      \<and> fairingR_position_x (frame_scene (animate rnd fround localToWorld mode deltaTime percent s))
          = fairingR_position_x (frame_scene (animate rnd fround localToWorld mode deltaTime percent s'))
      \<and> fairingR_rotation_z (frame_scene (animate rnd fround localToWorld mode deltaTime percent s))
          = fairingR_rotation_z (frame_scene (animate rnd fround localToWorld mode deltaTime percent s')))
   \<and> (94 < percent \<and> orbitTime s = orbitTime s' \<longrightarrow>
        satelliteGroup_position (frame_scene (animate rnd fround localToWorld mode deltaTime percent s))
          = satelliteGroup_position (frame_scene (animate rnd fround localToWorld mode deltaTime percent s'))
      \<and> satelliteGroup_rotation_x (frame_scene (animate rnd fround localToWorld mode deltaTime percent s))
          = satelliteGroup_rotation_x (frame_scene (animate rnd fround localToWorld mode deltaTime percent s'))
      \<and> satelliteGroup_rotation_y (frame_scene (animate rnd fround localToWorld mode deltaTime percent s))
          = satelliteGroup_rotation_y (frame_scene (animate rnd fround localToWorld mode deltaTime percent s'))
      \<and> solarPanel0_rotation_y (frame_scene (animate rnd fround localToWorld mode deltaTime percent s))
          = solarPanel0_rotation_y (frame_scene (animate rnd fround localToWorld mode deltaTime percent s'))
      \<and> solarPanel1_rotation_y (frame_scene (animate rnd fround localToWorld mode deltaTime percent s))
          = solarPanel1_rotation_y (frame_scene (animate rnd fround localToWorld mode deltaTime percent s'))
      \<and> orbitTime (frame_scene (animate rnd fround localToWorld mode deltaTime percent s))
          = orbitTime (frame_scene (animate rnd fround localToWorld mode deltaTime percent s')))"
proof (intro conjI impI; (elim conjE)?)
  show "frame_missionData (animate rnd fround localToWorld mode deltaTime percent s)
     = frame_missionData (animate rnd fround localToWorld mode deltaTime percent s')"
    "frame_exhaustIntensity (animate rnd fround localToWorld mode deltaTime percent s)
     = frame_exhaustIntensity (animate rnd fround localToWorld mode deltaTime percent s')"
    unfolding animate_outputs by (rule telemetry_from_progress)+
  show "vy (rocketGroup_position (frame_scene (animate rnd fround localToWorld mode deltaTime percent s)))
     = vy (rocketGroup_position (frame_scene (animate rnd fround localToWorld mode deltaTime percent s')))"
    by (simp add: animate_scene rocket_y_after_phases)
next
  assume "percent \<le> 94"
  then have p: "percent / 100 \<le> 0.94" by simp
  show "groundGroup_visible (frame_scene (animate rnd fround localToWorld mode deltaTime percent s))
          = groundGroup_visible (frame_scene (animate rnd fround localToWorld mode deltaTime percent s'))"
    "earthGroup_visible (frame_scene (animate rnd fround localToWorld mode deltaTime percent s))
          = earthGroup_visible (frame_scene (animate rnd fround localToWorld mode deltaTime percent s'))"
    "stars_visible (frame_scene (animate rnd fround localToWorld mode deltaTime percent s))
          = stars_visible (frame_scene (animate rnd fround localToWorld mode deltaTime percent s'))"
    using visibility_from_progress[OF p, of deltaTime s s'] by (simp_all add: animate_scene)
next
  assume "72 < percent" "percent \<le> 84"
  then have p: "0.72 < percent / 100" "percent / 100 \<le> 0.84" by simp_all
  show "vx (booster0_position (frame_scene (animate rnd fround localToWorld mode deltaTime percent s)))
          = vx (booster0_position (frame_scene (animate rnd fround localToWorld mode deltaTime percent s')))"
    "vy (booster0_position (frame_scene (animate rnd fround localToWorld mode deltaTime percent s)))
          = vy (booster0_position (frame_scene (animate rnd fround localToWorld mode deltaTime percent s')))"
    "vx (booster1_position (frame_scene (animate rnd fround localToWorld mode deltaTime percent s)))
          = vx (booster1_position (frame_scene (animate rnd fround localToWorld mode deltaTime percent s')))"
    "vy (booster1_position (frame_scene (animate rnd fround localToWorld mode deltaTime percent s)))
          = vy (booster1_position (frame_scene (animate rnd fround localToWorld mode deltaTime percent s')))"
    "booster0_rotation_z (frame_scene (animate rnd fround localToWorld mode deltaTime percent s))
          = booster0_rotation_z (frame_scene (animate rnd fround localToWorld mode deltaTime percent s'))"
    "booster1_rotation_z (frame_scene (animate rnd fround localToWorld mode deltaTime percent s))
          = booster1_rotation_z (frame_scene (animate rnd fround localToWorld mode deltaTime percent s'))"
    using boosters_in_separation_phase[OF p, of deltaTime s s'] by (simp_all add: animate_scene)
next
  assume "84 < percent" "percent \<le> 94"
  then have p: "0.84 < percent / 100" "percent / 100 \<le> 0.94" by simp_all
  show "fairingL_position_x (frame_scene (animate rnd fround localToWorld mode deltaTime percent s))
          = fairingL_position_x (frame_scene (animate rnd fround localToWorld mode deltaTime percent s'))"
    "fairingL_rotation_z (frame_scene (animate rnd fround localToWorld mode deltaTime percent s))
          = fairingL_rotation_z (frame_scene (animate rnd fround localToWorld mode deltaTime percent s'))"
    "fairingR_position_x (frame_scene (animate rnd fround localToWorld mode deltaTime percent s))
          = fairingR_position_x (frame_scene (animate rnd fround localToWorld mode deltaTime percent s'))"
    "fairingR_rotation_z (frame_scene (animate rnd fround localToWorld mode deltaTime percent s))
          = fairingR_rotation_z (frame_scene (animate rnd fround localToWorld mode deltaTime percent s'))"
    using fairings_in_separation_phase[OF p, of deltaTime s s'] by (simp_all add: animate_scene)
next
  assume "94 < percent" and o: "orbitTime s = orbitTime s'"
  then have p: "0.94 < percent / 100" by simp
  show "satelliteGroup_position (frame_scene (animate rnd fround localToWorld mode deltaTime percent s))
          = satelliteGroup_position (frame_scene (animate rnd fround localToWorld mode deltaTime percent s'))"
    "satelliteGroup_rotation_x (frame_scene (animate rnd fround localToWorld mode deltaTime percent s))
          = satelliteGroup_rotation_x (frame_scene (animate rnd fround localToWorld mode deltaTime percent s'))"
    "satelliteGroup_rotation_y (frame_scene (animate rnd fround localToWorld mode deltaTime percent s))
          = satelliteGroup_rotation_y (frame_scene (animate rnd fround localToWorld mode deltaTime percent s'))"
    "solarPanel0_rotation_y (frame_scene (animate rnd fround localToWorld mode deltaTime percent s))
          = solarPanel0_rotation_y (frame_scene (animate rnd fround localToWorld mode deltaTime percent s'))"
    "solarPanel1_rotation_y (frame_scene (animate rnd fround localToWorld mode deltaTime percent s))
          = solarPanel1_rotation_y (frame_scene (animate rnd fround localToWorld mode deltaTime percent s'))"
    "orbitTime (frame_scene (animate rnd fround localToWorld mode deltaTime percent s))
          = orbitTime (frame_scene (animate rnd fround localToWorld mode deltaTime percent s'))"
    using satellite_in_orbit_phase[OF p o, of deltaTime] by (simp_all add: animate_scene)
qed

lemma after_fairing_frame:
  "orbitTime (frame_scene (animate rnd fround localToWorld mode deltaTime 90 initial_scene)) = 0"
  "satelliteGroup_visible (frame_scene (animate rnd fround localToWorld mode deltaTime 90 initial_scene))"
  by (simp_all add: animate_scene animation_phases_def phase_defs initial_scene_def)

theorem derived_state_from_inputs_witness:
  "stars_visible (frame_scene (animate (\<lambda>n. 0) (\<lambda>x. x) (\<lambda>sub v. v) cinematic 0 50 initial_scene))
     = stars_visible (frame_scene (animate (\<lambda>n. 0) (\<lambda>x. x) (\<lambda>sub v. v) cinematic 0 50
         (frame_scene (animate (\<lambda>n. 0) (\<lambda>x. x) (\<lambda>sub v. v) cinematic 0 90 initial_scene))))
   \<and> booster0_rotation_z (frame_scene (animate (\<lambda>n. 0) (\<lambda>x. x) (\<lambda>sub v. v) cinematic 0 80 initial_scene))
     = booster0_rotation_z (frame_scene (animate (\<lambda>n. 0) (\<lambda>x. x) (\<lambda>sub v. v) cinematic 0 80
         (frame_scene (animate (\<lambda>n. 0) (\<lambda>x. x) (\<lambda>sub v. v) cinematic 0 90 initial_scene))))
   \<and> fairingL_position_x (frame_scene (animate (\<lambda>n. 0) (\<lambda>x. x) (\<lambda>sub v. v) cinematic 0 90 initial_scene))
     = fairingL_position_x (frame_scene (animate (\<lambda>n. 0) (\<lambda>x. x) (\<lambda>sub v. v) cinematic 0 90
         (frame_scene (animate (\<lambda>n. 0) (\<lambda>x. x) (\<lambda>sub v. v) cinematic 0 90 initial_scene))))
   \<and> satelliteGroup_position (frame_scene (animate (\<lambda>n. 0) (\<lambda>x. x) (\<lambda>sub v. v) cinematic 0 100 initial_scene))
     = satelliteGroup_position (frame_scene (animate (\<lambda>n. 0) (\<lambda>x. x) (\<lambda>sub v. v) cinematic 0 100
         (frame_scene (animate (\<lambda>n. 0) (\<lambda>x. x) (\<lambda>sub v. v) cinematic 0 90 initial_scene))))"
proof -
  have o: "orbitTime initial_scene
      = orbitTime (frame_scene (animate (\<lambda>n. 0) (\<lambda>x. x) (\<lambda>sub v. v) cinematic 0 90 initial_scene))"
    by (simp add: after_fairing_frame) (simp add: initial_scene_def)
  note t = derived_state_from_inputs [where rnd="\<lambda>n. 0" and fround="\<lambda>x. x" and localToWorld="\<lambda>sub v. v"
      and mode=cinematic and deltaTime=0 and s=initial_scene
      and s'="frame_scene (animate (\<lambda>n. 0) (\<lambda>x. x) (\<lambda>sub v. v) cinematic 0 90 initial_scene)"]
  show ?thesis
    using t[where percent=50] t[where percent=80] t[where percent=90] t[where percent=100] o
    by simp
qed

text \<open>
  A frame at \<open>p = 0.5\<close> run on the initial scene and the same frame run after frames at
  \<open>p = 0.8\<close> and \<open>p = 0.9\<close>: same progress, camera mode and orbit accumulator, different
  satellite visibility, booster pose and fairing pose.
\<close>

theorem earlier_phases_show_in_later_frames:
  "orbitTime (frames (\<lambda>n. 0) (\<lambda>x. x) (\<lambda>sub v. v) cinematic [(0, 80), (0, 90)] initial_scene)
     = orbitTime initial_scene
   \<and> satelliteGroup_visible
       (frame_scene (animate (\<lambda>n. 0) (\<lambda>x. x) (\<lambda>sub v. v) cinematic 0 50 initial_scene)) = False
   \<and> satelliteGroup_visible
       (frame_scene (animate (\<lambda>n. 0) (\<lambda>x. x) (\<lambda>sub v. v) cinematic 0 50
          (frames (\<lambda>n. 0) (\<lambda>x. x) (\<lambda>sub v. v) cinematic [(0, 80), (0, 90)] initial_scene))) = True
   \<and> booster0_position
       (frame_scene (animate (\<lambda>n. 0) (\<lambda>x. x) (\<lambda>sub v. v) cinematic 0 50 initial_scene)) = Vec3 (-3.5) 7 0
   \<and> vy (booster0_position
       (frame_scene (animate (\<lambda>n. 0) (\<lambda>x. x) (\<lambda>sub v. v) cinematic 0 50
          (frames (\<lambda>n. 0) (\<lambda>x. x) (\<lambda>sub v. v) cinematic [(0, 80), (0, 90)] initial_scene)))) = - 1490 / 189
   \<and> fairingL_position_x
       (frame_scene (animate (\<lambda>n. 0) (\<lambda>x. x) (\<lambda>sub v. v) cinematic 0 50 initial_scene)) = 0
   \<and> fairingL_position_x
       (frame_scene (animate (\<lambda>n. 0) (\<lambda>x. x) (\<lambda>sub v. v) cinematic 0 50
          (frames (\<lambda>n. 0) (\<lambda>x. x) (\<lambda>sub v. v) cinematic [(0, 80), (0, 90)] initial_scene))) = - 93 / 25"
  by (simp add: animate_scene animation_phases_def phase_defs initial_scene_def
      easeInOutCubic_def easeInOutQuint_def lerp_def stageSep_def power3_eq_cube)

subsection \<open>Poses at the phase boundaries\<close>

lemma continuous_in_percent:
  fixes f :: "real \<Rightarrow> real"
  assumes "continuous_on UNIV f"
  shows "continuous_on UNIV (\<lambda>percent. f (percent / 100))"
  unfolding divide_inverse
  by (rule continuous_on_compose2[OF assms]) (intro continuous_intros, simp)

lemma continuous_on_agree:
  fixes f g :: "real \<Rightarrow> real"
  assumes "continuous_on UNIV g" "\<And>x. x \<in> A \<Longrightarrow> f x = g x"
  shows "continuous_on A f"
proof -
  have "continuous_on A g" using assms(1) continuous_on_subset by blast
  then show ?thesis using assms(2) by (simp cong: continuous_on_cong)
qed

lemma rocket_height_of_frame:
  "vy (rocketGroup_position (frame_scene (animate rnd fround localToWorld mode deltaTime percent s)))
     = rocket_height (percent / 100)"
  by (simp add: animate_scene rocket_y_after_phases)

lemma rocket_continuous:
  "continuous_on UNIV (\<lambda>percent.
     vy (rocketGroup_position (frame_scene (animate rnd fround localToWorld mode deltaTime percent s))))"
  unfolding rocket_height_of_frame
  by (rule continuous_in_percent[OF continuous_rocket_height])

lemma rocket_stays_on_axis:
  "vx (rocketGroup_position (frame_scene (animate rnd fround localToWorld mode deltaTime percent s)))
     = vx (rocketGroup_position s)"
  "vz (rocketGroup_position (frame_scene (animate rnd fround localToWorld mode deltaTime percent s)))
     = vz (rocketGroup_position s)"
  by (simp_all add: animate_scene animation_phases_def phase_defs)

lemma continuous_fairing_ramp: "continuous_on UNIV (fairing_ramp c)"
proof -
  have "continuous_on UNIV
      (\<lambda>p. if p \<le> 0.84 then 0 else lerp 0 c (easeInOutCubic ((p - 0.84) / 0.10)))"
    by (intro continuous_if_le continuous_cubic_ramp continuous_on_const)
       (simp add: ease_ends lerp_ends)
  then show ?thesis by (simp add: fairing_ramp_def[abs_def])
qed

lemma fairings_of_frame:
  assumes "percent \<le> 94"
  shows "fairingL_position_x (frame_scene (animate rnd fround localToWorld mode deltaTime percent s))
           = (if percent \<le> 84 then fairingL_position_x s else fairing_ramp (-5) (percent / 100))"
    and "fairingL_rotation_z (frame_scene (animate rnd fround localToWorld mode deltaTime percent s))
           = (if percent \<le> 84 then fairingL_rotation_z s else fairing_ramp (-0.2) (percent / 100))"
    and "fairingR_position_x (frame_scene (animate rnd fround localToWorld mode deltaTime percent s))
           = (if percent \<le> 84 then fairingR_position_x s else fairing_ramp 5 (percent / 100))"
    and "fairingR_rotation_z (frame_scene (animate rnd fround localToWorld mode deltaTime percent s))
           = (if percent \<le> 84 then fairingR_rotation_z s else fairing_ramp 0.2 (percent / 100))"
  using assms
  by (simp_all add: animate_scene animation_phases_def phase_defs fairing_ramp_def)

lemma fairings_continuous:
  assumes "fairingL_position_x s = 0" "fairingL_rotation_z s = 0"
    "fairingR_position_x s = 0" "fairingR_rotation_z s = 0"
  shows "continuous_on {..94} (\<lambda>percent.
           fairingL_position_x (frame_scene (animate rnd fround localToWorld mode deltaTime percent s)))"
    and "continuous_on {..94} (\<lambda>percent.
           fairingL_rotation_z (frame_scene (animate rnd fround localToWorld mode deltaTime percent s)))"
    and "continuous_on {..94} (\<lambda>percent.
           fairingR_position_x (frame_scene (animate rnd fround localToWorld mode deltaTime percent s)))"
    and "continuous_on {..94} (\<lambda>percent.
           fairingR_rotation_z (frame_scene (animate rnd fround localToWorld mode deltaTime percent s)))"
proof -
  have g: "continuous_on UNIV (\<lambda>percent. fairing_ramp c (percent / 100))" for c
    by (rule continuous_in_percent[OF continuous_fairing_ramp])
  have z: "percent \<le> 84 \<Longrightarrow> fairing_ramp c (percent / 100) = 0" for percent c
    by (simp add: fairing_ramp_def)
  show "continuous_on {..94} (\<lambda>percent.
           fairingL_position_x (frame_scene (animate rnd fround localToWorld mode deltaTime percent s)))"
    by (rule continuous_on_agree[OF g[of "-5"]]) (simp add: fairings_of_frame assms z)
  show "continuous_on {..94} (\<lambda>percent.
           fairingL_rotation_z (frame_scene (animate rnd fround localToWorld mode deltaTime percent s)))"
    by (rule continuous_on_agree[OF g[of "-0.2"]]) (simp add: fairings_of_frame assms z)
  show "continuous_on {..94} (\<lambda>percent.
           fairingR_position_x (frame_scene (animate rnd fround localToWorld mode deltaTime percent s)))"
    by (rule continuous_on_agree[OF g[of 5]]) (simp add: fairings_of_frame assms z)
  show "continuous_on {..94} (\<lambda>percent.
           fairingR_rotation_z (frame_scene (animate rnd fround localToWorld mode deltaTime percent s)))"
    by (rule continuous_on_agree[OF g[of "0.2"]]) (simp add: fairings_of_frame assms z)
qed

lemma kept_in_orbit_phase:
  assumes "94 < percent"
  shows "fairingL_position_x (frame_scene (animate rnd fround localToWorld mode deltaTime percent s))
           = fairingL_position_x s"
    and "fairingL_rotation_z (frame_scene (animate rnd fround localToWorld mode deltaTime percent s))
           = fairingL_rotation_z s"
    and "fairingR_position_x (frame_scene (animate rnd fround localToWorld mode deltaTime percent s))
           = fairingR_position_x s"
    and "fairingR_rotation_z (frame_scene (animate rnd fround localToWorld mode deltaTime percent s))
           = fairingR_rotation_z s"
  using assms by (simp_all add: animate_scene animation_phases_def phase_defs)

lemma if_greater_swap: "(if (c::real) < x then A else B) = (if x \<le> c then B else A)"
  by auto

lemma continuous_after_stageSep:
  fixes h :: "real \<Rightarrow> real"
  assumes "continuous_on UNIV h" "h 0 = a"
  shows "continuous_on UNIV
     (\<lambda>p. if easeInOutCubic ((p - 0.72) / 0.12) > stageSep
           then h ((easeInOutCubic ((p - 0.72) / 0.12) - stageSep) / (1 - stageSep)) else a)"
proof -
  have g: "continuous_on UNIV (\<lambda>e. if e \<le> stageSep then a else h ((e - stageSep) / (1 - stageSep)))"
  proof (rule continuous_if_le)
    show "continuous_on UNIV (\<lambda>e::real. a)" by simp
    show "continuous_on UNIV (\<lambda>e. h ((e - stageSep) / (1 - stageSep)))"
      unfolding divide_inverse
      by (rule continuous_on_compose2[OF assms(1)]) (intro continuous_intros, simp)
    show "a = h ((stageSep - stageSep) / (1 - stageSep))" using assms(2) by simp
  qed
  have e: "continuous_on UNIV (\<lambda>p. easeInOutCubic ((p - 0.72) / 0.12))"
    unfolding divide_inverse
    by (rule continuous_on_compose2[OF continuous_easeInOutCubic]) (intro continuous_intros, simp)
  have c: "continuous_on UNIV
     (\<lambda>p. if easeInOutCubic ((p - 0.72) / 0.12) \<le> stageSep then a
           else h ((easeInOutCubic ((p - 0.72) / 0.12) - stageSep) / (1 - stageSep)))"
    by (rule continuous_on_compose2[OF g e]) simp
  have eq: "(\<lambda>p. if easeInOutCubic ((p - 0.72) / 0.12) > stageSep
           then h ((easeInOutCubic ((p - 0.72) / 0.12) - stageSep) / (1 - stageSep)) else a)
     = (\<lambda>p. if easeInOutCubic ((p - 0.72) / 0.12) \<le> stageSep then a
           else h ((easeInOutCubic ((p - 0.72) / 0.12) - stageSep) / (1 - stageSep)))"
    by (rule ext) (rule if_greater_swap)
  show ?thesis unfolding eq by (rule c)
qed

lemma boosters_of_phase:
  assumes "0.72 < p" "p \<le> 0.84"
  shows "vx (booster0_position (scene_after (animation_phases p deltaTime s))) =
     (if easeInOutCubic ((p - 0.72) / 0.12) > stageSep
      then (\<lambda>sepProg. lerp (-3.5) (-20 - sepProg * 30) sepProg)
             ((easeInOutCubic ((p - 0.72) / 0.12) - stageSep) / (1 - stageSep)) else -3.5)"
    and "vx (booster1_position (scene_after (animation_phases p deltaTime s))) =
     (if easeInOutCubic ((p - 0.72) / 0.12) > stageSep
      then (\<lambda>sepProg. lerp 3.5 (20 + sepProg * 30) sepProg)
             ((easeInOutCubic ((p - 0.72) / 0.12) - stageSep) / (1 - stageSep)) else 3.5)"
    and "vy (booster0_position (scene_after (animation_phases p deltaTime s))) =
     (if easeInOutCubic ((p - 0.72) / 0.12) > stageSep
      then (\<lambda>sepProg. lerp 0 (-10) sepProg)
             ((easeInOutCubic ((p - 0.72) / 0.12) - stageSep) / (1 - stageSep)) else 0)"
    and "vy (booster1_position (scene_after (animation_phases p deltaTime s))) =
     (if easeInOutCubic ((p - 0.72) / 0.12) > stageSep
      then (\<lambda>sepProg. lerp 0 (-10) sepProg)
             ((easeInOutCubic ((p - 0.72) / 0.12) - stageSep) / (1 - stageSep)) else 0)"
    and "booster0_rotation_z (scene_after (animation_phases p deltaTime s)) =
     (if easeInOutCubic ((p - 0.72) / 0.12) > stageSep
      then (\<lambda>sepProg. lerp 0 (-0.3) sepProg)
             ((easeInOutCubic ((p - 0.72) / 0.12) - stageSep) / (1 - stageSep)) else 0)"
    and "booster1_rotation_z (scene_after (animation_phases p deltaTime s)) =
     (if easeInOutCubic ((p - 0.72) / 0.12) > stageSep
      then (\<lambda>sepProg. lerp 0 0.3 sepProg)
             ((easeInOutCubic ((p - 0.72) / 0.12) - stageSep) / (1 - stageSep)) else 0)"
proof -
  have sel: "animation_phases p deltaTime s = phase_booster_separation p s"
    using assms by (simp add: animation_phases_def)
  show "vx (booster0_position (scene_after (animation_phases p deltaTime s))) =
     (if easeInOutCubic ((p - 0.72) / 0.12) > stageSep
      then (\<lambda>sepProg. lerp (-3.5) (-20 - sepProg * 30) sepProg)
             ((easeInOutCubic ((p - 0.72) / 0.12) - stageSep) / (1 - stageSep)) else -3.5)"
    and "vx (booster1_position (scene_after (animation_phases p deltaTime s))) =
     (if easeInOutCubic ((p - 0.72) / 0.12) > stageSep
      then (\<lambda>sepProg. lerp 3.5 (20 + sepProg * 30) sepProg)
             ((easeInOutCubic ((p - 0.72) / 0.12) - stageSep) / (1 - stageSep)) else 3.5)"
    and "vy (booster0_position (scene_after (animation_phases p deltaTime s))) =
     (if easeInOutCubic ((p - 0.72) / 0.12) > stageSep
      then (\<lambda>sepProg. lerp 0 (-10) sepProg)
             ((easeInOutCubic ((p - 0.72) / 0.12) - stageSep) / (1 - stageSep)) else 0)"
    and "vy (booster1_position (scene_after (animation_phases p deltaTime s))) =
     (if easeInOutCubic ((p - 0.72) / 0.12) > stageSep
      then (\<lambda>sepProg. lerp 0 (-10) sepProg)
             ((easeInOutCubic ((p - 0.72) / 0.12) - stageSep) / (1 - stageSep)) else 0)"
    and "booster0_rotation_z (scene_after (animation_phases p deltaTime s)) =
     (if easeInOutCubic ((p - 0.72) / 0.12) > stageSep
      then (\<lambda>sepProg. lerp 0 (-0.3) sepProg)
             ((easeInOutCubic ((p - 0.72) / 0.12) - stageSep) / (1 - stageSep)) else 0)"
    and "booster1_rotation_z (scene_after (animation_phases p deltaTime s)) =
     (if easeInOutCubic ((p - 0.72) / 0.12) > stageSep
      then (\<lambda>sepProg. lerp 0 0.3 sepProg)
             ((easeInOutCubic ((p - 0.72) / 0.12) - stageSep) / (1 - stageSep)) else 0)"
    unfolding sel phase_booster_separation_def move_boosters_def Let_def
    by (simp_all add: set_x_def set_y_def)
qed

lemma continuous_lerp_moving:
  "continuous_on UNIV (\<lambda>sepProg. lerp a (b + sepProg * c) sepProg)"
  unfolding lerp_def by (intro continuous_intros)

lemma continuous_lerp_fixed:
  "continuous_on UNIV (\<lambda>sepProg. lerp a b sepProg)"
  unfolding lerp_def by (intro continuous_intros)

lemma boosters_continuous_in_phase:
  "continuous_on {0.72<..0.84}
     (\<lambda>p. vx (booster0_position (scene_after (animation_phases p deltaTime s))))"
  "continuous_on {0.72<..0.84}
     (\<lambda>p. vx (booster1_position (scene_after (animation_phases p deltaTime s))))"
  "continuous_on {0.72<..0.84}
     (\<lambda>p. vy (booster0_position (scene_after (animation_phases p deltaTime s))))"
  "continuous_on {0.72<..0.84}
     (\<lambda>p. vy (booster1_position (scene_after (animation_phases p deltaTime s))))"
  "continuous_on {0.72<..0.84}
     (\<lambda>p. booster0_rotation_z (scene_after (animation_phases p deltaTime s)))"
  "continuous_on {0.72<..0.84}
     (\<lambda>p. booster1_rotation_z (scene_after (animation_phases p deltaTime s)))"
proof -
  have m0: "continuous_on UNIV (\<lambda>sepProg. lerp (-3.5) (-20 - sepProg * 30) sepProg)"
    using continuous_lerp_moving[of "-3.5" "-20" "-30"] by simp
  have m1: "continuous_on UNIV (\<lambda>sepProg. lerp 3.5 (20 + sepProg * 30) sepProg)"
    by (rule continuous_lerp_moving)
  show "continuous_on {0.72<..0.84}
     (\<lambda>p. vx (booster0_position (scene_after (animation_phases p deltaTime s))))"
    by (rule continuous_on_agree[OF continuous_after_stageSep[OF m0]])
       (simp_all add: lerp_ends boosters_of_phase)
  show "continuous_on {0.72<..0.84}
     (\<lambda>p. vx (booster1_position (scene_after (animation_phases p deltaTime s))))"
    by (rule continuous_on_agree[OF continuous_after_stageSep[OF m1]])
       (simp_all add: lerp_ends boosters_of_phase)
  show "continuous_on {0.72<..0.84}
     (\<lambda>p. vy (booster0_position (scene_after (animation_phases p deltaTime s))))"
    by (rule continuous_on_agree[OF continuous_after_stageSep[OF continuous_lerp_fixed[of 0 "-10"]]])
       (simp_all add: lerp_ends boosters_of_phase)
  show "continuous_on {0.72<..0.84}
     (\<lambda>p. vy (booster1_position (scene_after (animation_phases p deltaTime s))))"
    by (rule continuous_on_agree[OF continuous_after_stageSep[OF continuous_lerp_fixed[of 0 "-10"]]])
       (simp_all add: lerp_ends boosters_of_phase)
  show "continuous_on {0.72<..0.84}
     (\<lambda>p. booster0_rotation_z (scene_after (animation_phases p deltaTime s)))"
    by (rule continuous_on_agree[OF continuous_after_stageSep[OF continuous_lerp_fixed[of 0 "-0.3"]]])
       (simp_all add: lerp_ends boosters_of_phase)
  show "continuous_on {0.72<..0.84}
     (\<lambda>p. booster1_rotation_z (scene_after (animation_phases p deltaTime s)))"
    by (rule continuous_on_agree[OF continuous_after_stageSep[OF continuous_lerp_fixed[of 0 "0.3"]]])
       (simp_all add: lerp_ends boosters_of_phase)
qed


lemma continuous_in_percent_on:
  fixes f :: "real \<Rightarrow> real"
  assumes "continuous_on A f" "\<And>percent. percent \<in> B \<Longrightarrow> percent / 100 \<in> A"
  shows "continuous_on B (\<lambda>percent. f (percent / 100))"
proof (rule continuous_on_compose2[OF assms(1)])
  show "continuous_on B (\<lambda>percent::real. percent / 100)"
    unfolding divide_inverse by (intro continuous_intros)
  show "(\<lambda>percent. percent / 100) ` B \<subseteq> A" using assms(2) by auto
qed

lemma boosters_of_frame:
  "booster0_position (frame_scene (animate rnd fround localToWorld mode deltaTime percent s))
     = booster0_position (scene_after (animation_phases (percent / 100) deltaTime s))"
  "booster1_position (frame_scene (animate rnd fround localToWorld mode deltaTime percent s))
     = booster1_position (scene_after (animation_phases (percent / 100) deltaTime s))"
  "booster0_rotation_z (frame_scene (animate rnd fround localToWorld mode deltaTime percent s))
     = booster0_rotation_z (scene_after (animation_phases (percent / 100) deltaTime s))"
  "booster1_rotation_z (frame_scene (animate rnd fround localToWorld mode deltaTime percent s))
     = booster1_rotation_z (scene_after (animation_phases (percent / 100) deltaTime s))"
  by (simp_all add: animate_scene)

lemma boosters_continuous:
  "continuous_on {72<..84} (\<lambda>percent.
     vx (booster0_position (frame_scene (animate rnd fround localToWorld mode deltaTime percent s))))"
  "continuous_on {72<..84} (\<lambda>percent.
     vx (booster1_position (frame_scene (animate rnd fround localToWorld mode deltaTime percent s))))"
  "continuous_on {72<..84} (\<lambda>percent.
     vy (booster0_position (frame_scene (animate rnd fround localToWorld mode deltaTime percent s))))"
  "continuous_on {72<..84} (\<lambda>percent.
     vy (booster1_position (frame_scene (animate rnd fround localToWorld mode deltaTime percent s))))"
  "continuous_on {72<..84} (\<lambda>percent.
     booster0_rotation_z (frame_scene (animate rnd fround localToWorld mode deltaTime percent s)))"
  "continuous_on {72<..84} (\<lambda>percent.
     booster1_rotation_z (frame_scene (animate rnd fround localToWorld mode deltaTime percent s)))"
  unfolding boosters_of_frame
  subgoal by (rule continuous_in_percent_on[OF boosters_continuous_in_phase(1)]) simp
  subgoal by (rule continuous_in_percent_on[OF boosters_continuous_in_phase(2)]) simp
  subgoal by (rule continuous_in_percent_on[OF boosters_continuous_in_phase(3)]) simp
  subgoal by (rule continuous_in_percent_on[OF boosters_continuous_in_phase(4)]) simp
  subgoal by (rule continuous_in_percent_on[OF boosters_continuous_in_phase(5)]) simp
  subgoal by (rule continuous_in_percent_on[OF boosters_continuous_in_phase(6)]) simp
  done

lemma satellite_on_orbit_circle:
  assumes "94 < percent"
  shows "vlength (satelliteGroup_position
           (frame_scene (animate rnd fround localToWorld mode deltaTime percent s))) = earthRadius + 75"
proof -
  have p: "0.94 < percent / 100" using assms by simp
  show ?thesis
    using orbit_position[OF p, of deltaTime s]
    by (simp add: animate_scene orbit_radius earthRadius_def)
qed

lemma boosters_kept:
  assumes "percent \<le> 72 \<or> 84 < percent"
  shows "booster0_position (frame_scene (animate rnd fround localToWorld mode deltaTime percent s))
           = booster0_position s"
    and "booster1_position (frame_scene (animate rnd fround localToWorld mode deltaTime percent s))
           = booster1_position s"
    and "booster0_rotation_z (frame_scene (animate rnd fround localToWorld mode deltaTime percent s))
           = booster0_rotation_z s"
    and "booster1_rotation_z (frame_scene (animate rnd fround localToWorld mode deltaTime percent s))
           = booster1_rotation_z s"
  using assms by (auto simp add: animate_scene animation_phases_def phase_defs)

lemma boosters_at_84:
  "vx (booster0_position (frame_scene (animate rnd fround localToWorld mode deltaTime 84 s))) = - 50"
  "vy (booster0_position (frame_scene (animate rnd fround localToWorld mode deltaTime 84 s))) = - 10"
  "booster0_rotation_z (frame_scene (animate rnd fround localToWorld mode deltaTime 84 s)) = - 0.3"
  "vx (booster1_position (frame_scene (animate rnd fround localToWorld mode deltaTime 84 s))) = 50"
  "vy (booster1_position (frame_scene (animate rnd fround localToWorld mode deltaTime 84 s))) = - 10"
  "booster1_rotation_z (frame_scene (animate rnd fround localToWorld mode deltaTime 84 s)) = 0.3"
  by (simp_all add: animate_scene animation_phases_def phase_defs easeInOutCubic_def stageSep_def
      lerp_def)

lemma boosters_depth:
  assumes "72 < percent" "percent \<le> 84"
  shows "vz (booster0_position (frame_scene (animate rnd fround localToWorld mode deltaTime percent s)))
      = (if easeInOutCubic ((percent / 100 - 0.72) / 0.12) > stageSep
         then vz (booster0_position s) else - 2)"
    and "vz (booster1_position (frame_scene (animate rnd fround localToWorld mode deltaTime percent s)))
      = (if easeInOutCubic ((percent / 100 - 0.72) / 0.12) > stageSep
         then vz (booster1_position s) else - 2)"
proof -
  have p: "0.72 < percent / 100" "percent / 100 \<le> 0.84" using assms by simp_all
  have sel: "animation_phases (percent / 100) deltaTime s = phase_booster_separation (percent / 100) s"
    using p by (simp add: animation_phases_def)
  show "vz (booster0_position (frame_scene (animate rnd fround localToWorld mode deltaTime percent s)))
      = (if easeInOutCubic ((percent / 100 - 0.72) / 0.12) > stageSep
         then vz (booster0_position s) else - 2)"
    and "vz (booster1_position (frame_scene (animate rnd fround localToWorld mode deltaTime percent s)))
      = (if easeInOutCubic ((percent / 100 - 0.72) / 0.12) > stageSep
         then vz (booster1_position s) else - 2)"
    unfolding boosters_of_frame sel phase_booster_separation_def move_boosters_def Let_def
    by (simp_all add: set_x_def set_y_def set_visible_def set_rocket_y_def)
qed

lemma satellite_kept:
  assumes "percent \<le> 84"
  shows "satelliteGroup_position (frame_scene (animate rnd fround localToWorld mode deltaTime percent s))
           = satelliteGroup_position s"
    and "satelliteGroup_visible (frame_scene (animate rnd fround localToWorld mode deltaTime percent s))
           = satelliteGroup_visible s"
  using assms by (simp_all add: animate_scene animation_phases_def phase_defs)

lemma satellite_turn_kept:
  assumes "percent \<le> 94"
  shows "satelliteGroup_rotation_x (frame_scene (animate rnd fround localToWorld mode deltaTime percent s))
           = satelliteGroup_rotation_x s"
    and "satelliteGroup_rotation_y (frame_scene (animate rnd fround localToWorld mode deltaTime percent s))
           = satelliteGroup_rotation_y s"
  using assms by (simp_all add: animate_scene animation_phases_def phase_defs)

lemma satellite_in_fairing_phase:
  assumes "84 < percent" "percent \<le> 94"
  shows "satelliteGroup_visible (frame_scene (animate rnd fround localToWorld mode deltaTime percent s))"
    and "satelliteGroup_position (frame_scene (animate rnd fround localToWorld mode deltaTime percent s))
     = (if satelliteGroup_visible s then satelliteGroup_position s
        else Vec3 (vx (rocketGroup_position s))
            (vy (rocketGroup_position
                  (frame_scene (animate rnd fround localToWorld mode deltaTime percent s))) + 30)
            (vz (rocketGroup_position s)))"
  using assms by (simp_all add: animate_scene animation_phases_def phase_defs)

lemma satellite_in_last_phase:
  assumes "94 < percent"
  shows "satelliteGroup_position (frame_scene (animate rnd fround localToWorld mode deltaTime percent s)) =
           Vec3 (cos (orbitTime s + deltaTime * 0.5) * (earthRadius + 75))
                (sin (orbitTime s + deltaTime * 0.5) * (earthRadius + 75) * sin (pi / 8))
                (sin (orbitTime s + deltaTime * 0.5) * (earthRadius + 75) * cos (pi / 8))"
    and "satelliteGroup_rotation_y (frame_scene (animate rnd fround localToWorld mode deltaTime percent s))
           = orbitTime s + deltaTime * 0.5 + pi / 2"
    and "satelliteGroup_rotation_x (frame_scene (animate rnd fround localToWorld mode deltaTime percent s))
           = sin (orbitTime s + deltaTime * 0.5) * 0.15"
    and "satelliteGroup_visible (frame_scene (animate rnd fround localToWorld mode deltaTime percent s))
           = satelliteGroup_visible s"
  using assms by (simp_all add: animate_scene animation_phases_def phase_defs)

lemma rocket_in_fairing_phase:
  assumes "84 < percent" "percent \<le> 94"
  shows "launchpadY + 500 \<le> vy (rocketGroup_position
                  (frame_scene (animate rnd fround localToWorld mode deltaTime percent s)))"
proof -
  have "0 \<le> (percent / 100 - 0.84) / 0.10 \<and> (percent / 100 - 0.84) / 0.10 \<le> 1"
    using assms by simp
  then have "0 \<le> easeInOutCubic ((percent / 100 - 0.84) / 0.10)
      \<and> easeInOutCubic ((percent / 100 - 0.84) / 0.10) \<le> 1"
    using easeInOutCubic_range by blast
  then have "launchpadY + 500 \<le> lerp (launchpadY + 500) (launchpadY + 600)
          (easeInOutCubic ((percent / 100 - 0.84) / 0.10))"
    using lerp_between[of "easeInOutCubic ((percent / 100 - 0.84) / 0.10)"
        "launchpadY + 500" "launchpadY + 600"] by simp
  moreover have "rocket_height (percent / 100) = lerp (launchpadY + 500) (launchpadY + 600)
          (easeInOutCubic ((percent / 100 - 0.84) / 0.10))"
    using assms by (simp add: rocket_height_def)
  ultimately show ?thesis
    by (simp add: rocket_height_of_frame)
qed

lemma panels_kept:
  assumes "percent \<le> 94"
  shows "solarPanel0_rotation_y (frame_scene (animate rnd fround localToWorld mode deltaTime percent s))
           = solarPanel0_rotation_y s"
    and "solarPanel1_rotation_y (frame_scene (animate rnd fround localToWorld mode deltaTime percent s))
           = solarPanel1_rotation_y s"
  using assms by (simp_all add: animate_scene animation_phases_def phase_defs)

lemma vlength_ge_height: "\<bar>vy v\<bar> \<le> vlength v"
proof -
  have "(vy v)\<^sup>2 \<le> (vx v)\<^sup>2 + (vy v)\<^sup>2 + (vz v)\<^sup>2" by simp
  then have "sqrt ((vy v)\<^sup>2) \<le> sqrt ((vx v)\<^sup>2 + (vy v)\<^sup>2 + (vz v)\<^sup>2)"
    by (rule real_sqrt_le_mono)
  then show ?thesis by (simp add: vlength_def)
qed

lemma reveal_is_off_the_orbit:
  assumes "84 < percent" "percent \<le> 94" "\<not> satelliteGroup_visible s" "94 < percent'"
  shows "launchpadY + 530 \<le> vlength (satelliteGroup_position
            (frame_scene (animate rnd fround localToWorld mode deltaTime percent s)))"
    and "satelliteGroup_position (frame_scene (animate rnd fround localToWorld mode deltaTime percent s))
       \<noteq> satelliteGroup_position
            (frame_scene (animate rnd' fround' localToWorld' mode' deltaTime' percent' s'))"
proof -
  let ?f = "frame_scene (animate rnd fround localToWorld mode deltaTime percent s)"
  have h: "launchpadY + 500 \<le> vy (rocketGroup_position ?f)"
    by (rule rocket_in_fairing_phase[OF assms(1,2)])
  have "vy (satelliteGroup_position ?f) = vy (rocketGroup_position ?f) + 30"
    using satellite_in_fairing_phase(2)[OF assms(1,2), of rnd fround localToWorld mode deltaTime s]
      assms(3) by simp
  then have "launchpadY + 530 \<le> \<bar>vy (satelliteGroup_position ?f)\<bar>" using h by simp
  then show far: "launchpadY + 530 \<le> vlength (satelliteGroup_position ?f)"
    using vlength_ge_height[of "satelliteGroup_position ?f"] by simp
  have "vlength (satelliteGroup_position
            (frame_scene (animate rnd' fround' localToWorld' mode' deltaTime' percent' s')))
        = earthRadius + 75"
    by (rule satellite_on_orbit_circle[OF assms(4)])
  then show "satelliteGroup_position ?f
       \<noteq> satelliteGroup_position
            (frame_scene (animate rnd' fround' localToWorld' mode' deltaTime' percent' s'))"
    using far by (auto simp add: launchpadY_def earthRadius_def)
qed

lemma continuous_panel_ramp:
  "continuous_on UNIV (\<lambda>p. lerp a 0 (min 1 (easeInOutCubic ((p - 0.94) / 0.06) * 3)))"
proof -
  have e: "continuous_on UNIV (\<lambda>p. easeInOutCubic ((p - 0.94) / 0.06))"
    unfolding divide_inverse
    by (rule continuous_on_compose2[OF continuous_easeInOutCubic]) (intro continuous_intros, simp)
  show ?thesis unfolding lerp_def by (intro continuous_intros e)
qed

lemma panels_of_frame:
  "solarPanel0_rotation_y (frame_scene (animate rnd fround localToWorld mode deltaTime percent s))
     = (if percent / 100 \<le> 0.94 then solarPanel0_rotation_y s
        else lerp (pi / 2) 0 (min 1 (easeInOutCubic ((percent / 100 - 0.94) / 0.06) * 3)))"
  "solarPanel1_rotation_y (frame_scene (animate rnd fround localToWorld mode deltaTime percent s))
     = (if percent / 100 \<le> 0.94 then solarPanel1_rotation_y s
        else lerp (- pi / 2) 0 (min 1 (easeInOutCubic ((percent / 100 - 0.94) / 0.06) * 3)))"
  by (simp_all add: animate_scene animation_phases_def phase_defs)

lemma panels_continuous:
  assumes "solarPanel0_rotation_y s = pi / 2" "solarPanel1_rotation_y s = - pi / 2"
  shows "continuous_on UNIV (\<lambda>percent.
           solarPanel0_rotation_y (frame_scene (animate rnd fround localToWorld mode deltaTime percent s)))"
    and "continuous_on UNIV (\<lambda>percent.
           solarPanel1_rotation_y (frame_scene (animate rnd fround localToWorld mode deltaTime percent s)))"
proof -
  have g: "continuous_on UNIV (\<lambda>p. if p \<le> 0.94 then a
        else lerp a 0 (min 1 (easeInOutCubic ((p - 0.94) / 0.06) * 3)))" for a
    by (intro continuous_if_le continuous_panel_ramp continuous_on_const)
       (simp add: ease_ends lerp_ends)
  show "continuous_on UNIV (\<lambda>percent.
           solarPanel0_rotation_y (frame_scene (animate rnd fround localToWorld mode deltaTime percent s)))"
    unfolding panels_of_frame assms by (rule continuous_in_percent[OF g[of "pi / 2"]])
  show "continuous_on UNIV (\<lambda>percent.
           solarPanel1_rotation_y (frame_scene (animate rnd fround localToWorld mode deltaTime percent s)))"
    unfolding panels_of_frame assms by (rule continuous_in_percent[OF g[of "- pi / 2"]])
qed

lemma fairings_kept_low:
  assumes "percent \<le> 84"
  shows "fairingL_position_x (frame_scene (animate rnd fround localToWorld mode deltaTime percent s))
           = fairingL_position_x s"
    and "fairingL_rotation_z (frame_scene (animate rnd fround localToWorld mode deltaTime percent s))
           = fairingL_rotation_z s"
    and "fairingR_position_x (frame_scene (animate rnd fround localToWorld mode deltaTime percent s))
           = fairingR_position_x s"
    and "fairingR_rotation_z (frame_scene (animate rnd fround localToWorld mode deltaTime percent s))
           = fairingR_rotation_z s"
proof -
  have a: "percent \<le> 94" using assms by simp
  show "fairingL_position_x (frame_scene (animate rnd fround localToWorld mode deltaTime percent s))
           = fairingL_position_x s"
    and "fairingL_rotation_z (frame_scene (animate rnd fround localToWorld mode deltaTime percent s))
           = fairingL_rotation_z s"
    and "fairingR_position_x (frame_scene (animate rnd fround localToWorld mode deltaTime percent s))
           = fairingR_position_x s"
    and "fairingR_rotation_z (frame_scene (animate rnd fround localToWorld mode deltaTime percent s))
           = fairingR_rotation_z s"
    using assms by (simp_all add: fairings_of_frame[OF a])
qed

text \<open>
  C1, amended. The rocket position that a frame computes is a continuous function of
  progress, so at each of the nine boundaries the phase below and the phase above give
  the same rocket pose (its \<open>x\<close> and \<open>z\<close> are never assigned). The other subjects are assigned
  in some phases only and kept from the scene in the rest, so at a boundary between
  such phases the two sides agree when the frame above the boundary runs on the scene
  that the frame below it left.

  \<^item> Fairings: kept for \<open>p \<le> 0.84\<close> and for \<open>p > 0.94\<close>; starting from fairings at rest their
    poses are continuous in progress up to \<open>p = 0.94\<close>, across the boundary 0.84 where
    their phase begins, and a frame of the last phase keeps the pose that a frame of
    the fairing phase left.
  \<^item> Boosters: kept for \<open>p \<le> 0.72\<close> and for \<open>p > 0.84\<close>. Inside \<open>0.72 < p \<le> 0.84\<close> their \<open>x\<close>,
    \<open>y\<close> and roll are continuous in progress, across the \<open>stageSep\<close> threshold where
    ``Orbital Ascent'' turns into ``Booster Separation'', and reach \<open>x = -50\<close> and \<open>50\<close>,
    \<open>y = -10\<close>, roll \<open>-0.3\<close> and \<open>0.3\<close> at \<open>p = 0.84\<close>; their \<open>z\<close> is \<open>-2\<close> up to the threshold and
    kept after it. A frame above 0.84 keeps the pose that a frame of the booster phase
    left, so the poses agree across 0.84.
  \<^item> Solar panels: kept for \<open>p \<le> 0.94\<close>; starting from their construction angles they are
    continuous in progress everywhere, across 0.94.
  \<^item> Satellite: position and visibility are kept for \<open>p \<le> 0.84\<close> and the rotation for
    \<open>p \<le> 0.94\<close>. A frame of the fairing phase shows the satellite; it keeps the position
    if the satellite was visible already and otherwise puts it 30 units above the
    rocket of that frame, at a distance of at least \<open>launchpadY + 530\<close> from the origin. A
    frame of the last phase puts the satellite on the orbit circle of radius
    \<open>earthRadius + 75\<close> at the angle of the orbit accumulator, whatever the scene held. So
    the position that a reveal frame gives differs from every position that a frame
    of the last phase gives: on the pass that reveals it the satellite is not
    continuous at \<open>p = 0.94\<close>.

  Nothing is stated about the booster poses at \<open>p = 0.72\<close>.
\<close>

theorem phase_boundary_continuity:
  "continuous_on UNIV (\<lambda>percent.
        vy (rocketGroup_position
            (frame_scene (animate rnd fround localToWorld mode deltaTime percent s))))
   \<and> vx (rocketGroup_position
       (frame_scene (animate rnd fround localToWorld mode deltaTime percent s)))
           = vx (rocketGroup_position s)
   \<and> vz (rocketGroup_position
       (frame_scene (animate rnd fround localToWorld mode deltaTime percent s)))
           = vz (rocketGroup_position s)
   \<and> (percent \<le> 84 \<or> 94 < percent \<longrightarrow>
        fairingL_position_x (frame_scene (animate rnd fround localToWorld mode deltaTime percent s))
            = fairingL_position_x s
      \<and> fairingL_rotation_z
          (frame_scene (animate rnd fround localToWorld mode deltaTime percent s))
              = fairingL_rotation_z s
      \<and> fairingR_position_x
          (frame_scene (animate rnd fround localToWorld mode deltaTime percent s))
              = fairingR_position_x s
      \<and> fairingR_rotation_z
          (frame_scene (animate rnd fround localToWorld mode deltaTime percent s))
              = fairingR_rotation_z s)
   \<and> (fairingL_position_x s = 0 \<and> fairingL_rotation_z s = 0
        \<and> fairingR_position_x s = 0 \<and> fairingR_rotation_z s = 0 \<longrightarrow>
        continuous_on {..94} (\<lambda>percent.
        fairingL_position_x
            (frame_scene (animate rnd fround localToWorld mode deltaTime percent s)))
      \<and> continuous_on {..94} (\<lambda>percent.
        fairingL_rotation_z
            (frame_scene (animate rnd fround localToWorld mode deltaTime percent s)))
      \<and> continuous_on {..94} (\<lambda>percent.
        fairingR_position_x
            (frame_scene (animate rnd fround localToWorld mode deltaTime percent s)))
      \<and> continuous_on {..94} (\<lambda>percent.
        fairingR_rotation_z
            (frame_scene (animate rnd fround localToWorld mode deltaTime percent s))))
   \<and> (84 < percent \<and> percent \<le> 94 \<and> 94 < percent' \<longrightarrow>
        fairingL_position_x
            (frame_scene (animate rnd' fround' localToWorld' mode' deltaTime' percent'
                (frame_scene (animate rnd fround localToWorld mode deltaTime percent s))))
          = fairingL_position_x
              (frame_scene (animate rnd fround localToWorld mode deltaTime percent s))
      \<and> fairingL_rotation_z
          (frame_scene (animate rnd' fround' localToWorld' mode' deltaTime' percent'
              (frame_scene (animate rnd fround localToWorld mode deltaTime percent s))))
          = fairingL_rotation_z
              (frame_scene (animate rnd fround localToWorld mode deltaTime percent s))
      \<and> fairingR_position_x
          (frame_scene (animate rnd' fround' localToWorld' mode' deltaTime' percent'
              (frame_scene (animate rnd fround localToWorld mode deltaTime percent s))))
          = fairingR_position_x
              (frame_scene (animate rnd fround localToWorld mode deltaTime percent s))
      \<and> fairingR_rotation_z
          (frame_scene (animate rnd' fround' localToWorld' mode' deltaTime' percent'
              (frame_scene (animate rnd fround localToWorld mode deltaTime percent s))))
          = fairingR_rotation_z
              (frame_scene (animate rnd fround localToWorld mode deltaTime percent s)))
   \<and> continuous_on {72<..84} (\<lambda>percent.
        vx (booster0_position
            (frame_scene (animate rnd fround localToWorld mode deltaTime percent s))))
   \<and> continuous_on {72<..84} (\<lambda>percent.
        vx (booster1_position
            (frame_scene (animate rnd fround localToWorld mode deltaTime percent s))))
   \<and> continuous_on {72<..84} (\<lambda>percent.
        vy (booster0_position
            (frame_scene (animate rnd fround localToWorld mode deltaTime percent s))))
   \<and> continuous_on {72<..84} (\<lambda>percent.
        vy (booster1_position
            (frame_scene (animate rnd fround localToWorld mode deltaTime percent s))))
   \<and> continuous_on {72<..84} (\<lambda>percent.
        booster0_rotation_z
            (frame_scene (animate rnd fround localToWorld mode deltaTime percent s)))
   \<and> continuous_on {72<..84} (\<lambda>percent.
        booster1_rotation_z
            (frame_scene (animate rnd fround localToWorld mode deltaTime percent s)))
   \<and> (percent \<le> 72 \<or> 84 < percent \<longrightarrow>
        booster0_position (frame_scene (animate rnd fround localToWorld mode deltaTime percent s))
            = booster0_position s
      \<and> booster1_position
          (frame_scene (animate rnd fround localToWorld mode deltaTime percent s))
              = booster1_position s
      \<and> booster0_rotation_z
          (frame_scene (animate rnd fround localToWorld mode deltaTime percent s))
              = booster0_rotation_z s
      \<and> booster1_rotation_z
          (frame_scene (animate rnd fround localToWorld mode deltaTime percent s))
              = booster1_rotation_z s)
   \<and> vx (booster0_position (frame_scene (animate rnd fround localToWorld mode deltaTime 84 s)))
       = - 50
   \<and> vy (booster0_position (frame_scene (animate rnd fround localToWorld mode deltaTime 84 s)))
       = - 10
   \<and> booster0_rotation_z (frame_scene (animate rnd fround localToWorld mode deltaTime 84 s))
       = - 0.3
   \<and> vx (booster1_position (frame_scene (animate rnd fround localToWorld mode deltaTime 84 s)))
       = 50
   \<and> vy (booster1_position (frame_scene (animate rnd fround localToWorld mode deltaTime 84 s)))
       = - 10
   \<and> booster1_rotation_z (frame_scene (animate rnd fround localToWorld mode deltaTime 84 s))
       = 0.3
   \<and> (72 < percent \<and> percent \<le> 84 \<longrightarrow>
        vz (booster0_position
            (frame_scene (animate rnd fround localToWorld mode deltaTime percent s)))
          = (if easeInOutCubic ((percent / 100 - 0.72) / 0.12) > stageSep
             then vz (booster0_position s) else - 2)
      \<and> vz (booster1_position
          (frame_scene (animate rnd fround localToWorld mode deltaTime percent s)))
          = (if easeInOutCubic ((percent / 100 - 0.72) / 0.12) > stageSep
             then vz (booster1_position s) else - 2))
   \<and> (72 < percent \<and> percent \<le> 84 \<and> 84 < percent' \<longrightarrow>
        booster0_position
            (frame_scene (animate rnd' fround' localToWorld' mode' deltaTime' percent'
                (frame_scene (animate rnd fround localToWorld mode deltaTime percent s))))
          = booster0_position
              (frame_scene (animate rnd fround localToWorld mode deltaTime percent s))
      \<and> booster1_position
          (frame_scene (animate rnd' fround' localToWorld' mode' deltaTime' percent'
              (frame_scene (animate rnd fround localToWorld mode deltaTime percent s))))
          = booster1_position
              (frame_scene (animate rnd fround localToWorld mode deltaTime percent s))
      \<and> booster0_rotation_z
          (frame_scene (animate rnd' fround' localToWorld' mode' deltaTime' percent'
              (frame_scene (animate rnd fround localToWorld mode deltaTime percent s))))
          = booster0_rotation_z
              (frame_scene (animate rnd fround localToWorld mode deltaTime percent s))
      \<and> booster1_rotation_z
          (frame_scene (animate rnd' fround' localToWorld' mode' deltaTime' percent'
              (frame_scene (animate rnd fround localToWorld mode deltaTime percent s))))
          = booster1_rotation_z
              (frame_scene (animate rnd fround localToWorld mode deltaTime percent s)))
   \<and> (percent \<le> 84 \<longrightarrow>
        satelliteGroup_position
            (frame_scene (animate rnd fround localToWorld mode deltaTime percent s))
                = satelliteGroup_position s
      \<and> satelliteGroup_visible
          (frame_scene (animate rnd fround localToWorld mode deltaTime percent s))
              = satelliteGroup_visible s)
   \<and> (percent \<le> 94 \<longrightarrow>
        satelliteGroup_rotation_x
            (frame_scene (animate rnd fround localToWorld mode deltaTime percent s))
                = satelliteGroup_rotation_x s
      \<and> satelliteGroup_rotation_y
          (frame_scene (animate rnd fround localToWorld mode deltaTime percent s))
              = satelliteGroup_rotation_y s
      \<and> solarPanel0_rotation_y
          (frame_scene (animate rnd fround localToWorld mode deltaTime percent s))
              = solarPanel0_rotation_y s
      \<and> solarPanel1_rotation_y
          (frame_scene (animate rnd fround localToWorld mode deltaTime percent s))
              = solarPanel1_rotation_y s)
   \<and> (84 < percent \<and> percent \<le> 94 \<longrightarrow>
        satelliteGroup_visible
            (frame_scene (animate rnd fround localToWorld mode deltaTime percent s))
      \<and> satelliteGroup_position
          (frame_scene (animate rnd fround localToWorld mode deltaTime percent s))
          = (if satelliteGroup_visible s then satelliteGroup_position s
             else Vec3 (vx (rocketGroup_position s))
                       (vy (rocketGroup_position
                           (frame_scene (animate rnd fround localToWorld mode deltaTime percent
                               s))) + 30)
                       (vz (rocketGroup_position s)))
      \<and> launchpadY + 500 \<le> vy (rocketGroup_position
          (frame_scene (animate rnd fround localToWorld mode deltaTime percent s))))
   \<and> (94 < percent \<longrightarrow>
        satelliteGroup_position
            (frame_scene (animate rnd fround localToWorld mode deltaTime percent s))
          = Vec3 (cos (orbitTime s + deltaTime * 0.5) * (earthRadius + 75))
                 (sin (orbitTime s + deltaTime * 0.5) * (earthRadius + 75) * sin (pi / 8))
                 (sin (orbitTime s + deltaTime * 0.5) * (earthRadius + 75) * cos (pi / 8))
      \<and> vlength (satelliteGroup_position
          (frame_scene (animate rnd fround localToWorld mode deltaTime percent s)))
              = earthRadius + 75
      \<and> satelliteGroup_rotation_y
          (frame_scene (animate rnd fround localToWorld mode deltaTime percent s))
              = orbitTime s + deltaTime * 0.5 + pi / 2
      \<and> satelliteGroup_rotation_x
          (frame_scene (animate rnd fround localToWorld mode deltaTime percent s))
              = sin (orbitTime s + deltaTime * 0.5) * 0.15
      \<and> satelliteGroup_visible
          (frame_scene (animate rnd fround localToWorld mode deltaTime percent s))
              = satelliteGroup_visible s)
   \<and> (84 < percent \<and> percent \<le> 94 \<and> \<not> satelliteGroup_visible s
        \<and> 94 < percent' \<longrightarrow>
        launchpadY + 530 \<le> vlength (satelliteGroup_position
            (frame_scene (animate rnd fround localToWorld mode deltaTime percent s)))
      \<and> satelliteGroup_position
          (frame_scene (animate rnd fround localToWorld mode deltaTime percent s))
          \<noteq> satelliteGroup_position
              (frame_scene (animate rnd' fround' localToWorld' mode' deltaTime' percent' s')))
   \<and> (solarPanel0_rotation_y s = pi / 2
        \<and> solarPanel1_rotation_y s = - pi / 2 \<longrightarrow>
        continuous_on UNIV (\<lambda>percent.
        solarPanel0_rotation_y
            (frame_scene (animate rnd fround localToWorld mode deltaTime percent s)))
      \<and> continuous_on UNIV (\<lambda>percent.
        solarPanel1_rotation_y
            (frame_scene (animate rnd fround localToWorld mode deltaTime percent s))))"
proof -
  let ?F = "frame_scene (animate rnd fround localToWorld mode deltaTime percent s)"
  have p1: "continuous_on UNIV (\<lambda>percent.
            vy (rocketGroup_position
                (frame_scene (animate rnd fround localToWorld mode deltaTime percent s))))"
    using rocket_continuous[of rnd fround localToWorld mode deltaTime s] by blast
  have p2: "vx (rocketGroup_position
      (frame_scene (animate rnd fround localToWorld mode deltaTime percent s)))
          = vx (rocketGroup_position s)"
    using rocket_stays_on_axis(1)[of rnd fround localToWorld mode deltaTime percent s] by blast
  have p3: "vz (rocketGroup_position
      (frame_scene (animate rnd fround localToWorld mode deltaTime percent s)))
          = vz (rocketGroup_position s)"
    using rocket_stays_on_axis(2)[of rnd fround localToWorld mode deltaTime percent s] by blast
  have p4: "(percent \<le> 84 \<or> 94 < percent \<longrightarrow>
            fairingL_position_x
                (frame_scene (animate rnd fround localToWorld mode deltaTime percent s))
                    = fairingL_position_x s
          \<and> fairingL_rotation_z
              (frame_scene (animate rnd fround localToWorld mode deltaTime percent s))
                  = fairingL_rotation_z s
          \<and> fairingR_position_x
              (frame_scene (animate rnd fround localToWorld mode deltaTime percent s))
                  = fairingR_position_x s
          \<and> fairingR_rotation_z
              (frame_scene (animate rnd fround localToWorld mode deltaTime percent s))
                  = fairingR_rotation_z s)"
    using fairings_kept_low[of percent rnd fround localToWorld mode deltaTime s]
      kept_in_orbit_phase[of percent rnd fround localToWorld mode deltaTime s] by blast
  have p5: "(fairingL_position_x s = 0 \<and> fairingL_rotation_z s = 0
            \<and> fairingR_position_x s = 0 \<and> fairingR_rotation_z s = 0 \<longrightarrow>
            continuous_on {..94} (\<lambda>percent.
            fairingL_position_x
                (frame_scene (animate rnd fround localToWorld mode deltaTime percent s)))
          \<and> continuous_on {..94} (\<lambda>percent.
            fairingL_rotation_z
                (frame_scene (animate rnd fround localToWorld mode deltaTime percent s)))
          \<and> continuous_on {..94} (\<lambda>percent.
            fairingR_position_x
                (frame_scene (animate rnd fround localToWorld mode deltaTime percent s)))
          \<and> continuous_on {..94} (\<lambda>percent.
            fairingR_rotation_z
                (frame_scene (animate rnd fround localToWorld mode deltaTime percent s))))"
    using fairings_continuous[of s rnd fround localToWorld mode deltaTime] by blast
  have p6: "(84 < percent \<and> percent \<le> 94 \<and> 94 < percent' \<longrightarrow>
            fairingL_position_x
                (frame_scene (animate rnd' fround' localToWorld' mode' deltaTime' percent'
                    (frame_scene (animate rnd fround localToWorld mode deltaTime percent s))))
              = fairingL_position_x
                  (frame_scene (animate rnd fround localToWorld mode deltaTime percent s))
          \<and> fairingL_rotation_z
              (frame_scene (animate rnd' fround' localToWorld' mode' deltaTime' percent'
                  (frame_scene (animate rnd fround localToWorld mode deltaTime percent s))))
              = fairingL_rotation_z
                  (frame_scene (animate rnd fround localToWorld mode deltaTime percent s))
          \<and> fairingR_position_x
              (frame_scene (animate rnd' fround' localToWorld' mode' deltaTime' percent'
                  (frame_scene (animate rnd fround localToWorld mode deltaTime percent s))))
              = fairingR_position_x
                  (frame_scene (animate rnd fround localToWorld mode deltaTime percent s))
          \<and> fairingR_rotation_z
              (frame_scene (animate rnd' fround' localToWorld' mode' deltaTime' percent'
                  (frame_scene (animate rnd fround localToWorld mode deltaTime percent s))))
              = fairingR_rotation_z
                  (frame_scene (animate rnd fround localToWorld mode deltaTime percent s)))"
    using kept_in_orbit_phase[of percent' rnd' fround' localToWorld' mode' deltaTime' ?F] by blast
  have p7: "continuous_on {72<..84} (\<lambda>percent.
            vx (booster0_position
                (frame_scene (animate rnd fround localToWorld mode deltaTime percent s))))"
    using boosters_continuous(1)[of rnd fround localToWorld mode deltaTime s] by blast
  have p8: "continuous_on {72<..84} (\<lambda>percent.
            vx (booster1_position
                (frame_scene (animate rnd fround localToWorld mode deltaTime percent s))))"
    using boosters_continuous(2)[of rnd fround localToWorld mode deltaTime s] by blast
  have p9: "continuous_on {72<..84} (\<lambda>percent.
            vy (booster0_position
                (frame_scene (animate rnd fround localToWorld mode deltaTime percent s))))"
    using boosters_continuous(3)[of rnd fround localToWorld mode deltaTime s] by blast
  have p10: "continuous_on {72<..84} (\<lambda>percent.
            vy (booster1_position
                (frame_scene (animate rnd fround localToWorld mode deltaTime percent s))))"
    using boosters_continuous(4)[of rnd fround localToWorld mode deltaTime s] by blast
  have p11: "continuous_on {72<..84} (\<lambda>percent.
            booster0_rotation_z
                (frame_scene (animate rnd fround localToWorld mode deltaTime percent s)))"
    using boosters_continuous(5)[of rnd fround localToWorld mode deltaTime s] by blast
  have p12: "continuous_on {72<..84} (\<lambda>percent.
            booster1_rotation_z
                (frame_scene (animate rnd fround localToWorld mode deltaTime percent s)))"
    using boosters_continuous(6)[of rnd fround localToWorld mode deltaTime s] by blast
  have p13: "(percent \<le> 72 \<or> 84 < percent \<longrightarrow>
            booster0_position
                (frame_scene (animate rnd fround localToWorld mode deltaTime percent s))
                    = booster0_position s
          \<and> booster1_position
              (frame_scene (animate rnd fround localToWorld mode deltaTime percent s))
                  = booster1_position s
          \<and> booster0_rotation_z
              (frame_scene (animate rnd fround localToWorld mode deltaTime percent s))
                  = booster0_rotation_z s
          \<and> booster1_rotation_z
              (frame_scene (animate rnd fround localToWorld mode deltaTime percent s))
                  = booster1_rotation_z s)"
    using boosters_kept[of percent rnd fround localToWorld mode deltaTime s] by blast
  have p14: "vx (booster0_position
      (frame_scene (animate rnd fround localToWorld mode deltaTime 84 s))) = - 50"
    using boosters_at_84(1)[of rnd fround localToWorld mode deltaTime s] by blast
  have p15: "vy (booster0_position
      (frame_scene (animate rnd fround localToWorld mode deltaTime 84 s))) = - 10"
    using boosters_at_84(2)[of rnd fround localToWorld mode deltaTime s] by blast
  have p16: "booster0_rotation_z (frame_scene (animate rnd fround localToWorld mode deltaTime 84 s))
      = - 0.3"
    using boosters_at_84(3)[of rnd fround localToWorld mode deltaTime s] by blast
  have p17: "vx (booster1_position
      (frame_scene (animate rnd fround localToWorld mode deltaTime 84 s))) = 50"
    using boosters_at_84(4)[of rnd fround localToWorld mode deltaTime s] by blast
  have p18: "vy (booster1_position
      (frame_scene (animate rnd fround localToWorld mode deltaTime 84 s))) = - 10"
    using boosters_at_84(5)[of rnd fround localToWorld mode deltaTime s] by blast
  have p19: "booster1_rotation_z (frame_scene (animate rnd fround localToWorld mode deltaTime 84 s))
      = 0.3"
    using boosters_at_84(6)[of rnd fround localToWorld mode deltaTime s] by blast
  have p20: "(72 < percent \<and> percent \<le> 84 \<longrightarrow>
            vz (booster0_position
                (frame_scene (animate rnd fround localToWorld mode deltaTime percent s)))
              = (if easeInOutCubic ((percent / 100 - 0.72) / 0.12) > stageSep
                 then vz (booster0_position s) else - 2)
          \<and> vz (booster1_position
              (frame_scene (animate rnd fround localToWorld mode deltaTime percent s)))
              = (if easeInOutCubic ((percent / 100 - 0.72) / 0.12) > stageSep
                 then vz (booster1_position s) else - 2))"
    using boosters_depth[of percent rnd fround localToWorld mode deltaTime s] by blast
  have p21: "(72 < percent \<and> percent \<le> 84 \<and> 84 < percent' \<longrightarrow>
            booster0_position
                (frame_scene (animate rnd' fround' localToWorld' mode' deltaTime' percent'
                    (frame_scene (animate rnd fround localToWorld mode deltaTime percent s))))
              = booster0_position
                  (frame_scene (animate rnd fround localToWorld mode deltaTime percent s))
          \<and> booster1_position
              (frame_scene (animate rnd' fround' localToWorld' mode' deltaTime' percent'
                  (frame_scene (animate rnd fround localToWorld mode deltaTime percent s))))
              = booster1_position
                  (frame_scene (animate rnd fround localToWorld mode deltaTime percent s))
          \<and> booster0_rotation_z
              (frame_scene (animate rnd' fround' localToWorld' mode' deltaTime' percent'
                  (frame_scene (animate rnd fround localToWorld mode deltaTime percent s))))
              = booster0_rotation_z
                  (frame_scene (animate rnd fround localToWorld mode deltaTime percent s))
          \<and> booster1_rotation_z
              (frame_scene (animate rnd' fround' localToWorld' mode' deltaTime' percent'
                  (frame_scene (animate rnd fround localToWorld mode deltaTime percent s))))
              = booster1_rotation_z
                  (frame_scene (animate rnd fround localToWorld mode deltaTime percent s)))"
    using boosters_kept[of percent' rnd' fround' localToWorld' mode' deltaTime' ?F] by blast
  have p22: "(percent \<le> 84 \<longrightarrow>
            satelliteGroup_position
                (frame_scene (animate rnd fround localToWorld mode deltaTime percent s))
                    = satelliteGroup_position s
          \<and> satelliteGroup_visible
              (frame_scene (animate rnd fround localToWorld mode deltaTime percent s))
                  = satelliteGroup_visible s)"
    using satellite_kept[of percent rnd fround localToWorld mode deltaTime s] by blast
  have p23: "(percent \<le> 94 \<longrightarrow>
            satelliteGroup_rotation_x
                (frame_scene (animate rnd fround localToWorld mode deltaTime percent s))
                    = satelliteGroup_rotation_x s
          \<and> satelliteGroup_rotation_y
              (frame_scene (animate rnd fround localToWorld mode deltaTime percent s))
                  = satelliteGroup_rotation_y s
          \<and> solarPanel0_rotation_y
              (frame_scene (animate rnd fround localToWorld mode deltaTime percent s))
                  = solarPanel0_rotation_y s
          \<and> solarPanel1_rotation_y
              (frame_scene (animate rnd fround localToWorld mode deltaTime percent s))
                  = solarPanel1_rotation_y s)"
    using satellite_turn_kept[of percent rnd fround localToWorld mode deltaTime s]
      panels_kept[of percent rnd fround localToWorld mode deltaTime s] by blast
  have p24: "(84 < percent \<and> percent \<le> 94 \<longrightarrow>
            satelliteGroup_visible
                (frame_scene (animate rnd fround localToWorld mode deltaTime percent s))
          \<and> satelliteGroup_position
              (frame_scene (animate rnd fround localToWorld mode deltaTime percent s))
              = (if satelliteGroup_visible s then satelliteGroup_position s
                 else Vec3 (vx (rocketGroup_position s))
                           (vy (rocketGroup_position
                               (frame_scene (animate rnd fround localToWorld mode deltaTime percent
                                   s))) + 30)
                           (vz (rocketGroup_position s)))
          \<and> launchpadY + 500 \<le> vy (rocketGroup_position
              (frame_scene (animate rnd fround localToWorld mode deltaTime percent s))))"
    using satellite_in_fairing_phase[of percent rnd fround localToWorld mode deltaTime s]
      rocket_in_fairing_phase[of percent rnd fround localToWorld mode deltaTime s] by blast
  have p25: "(94 < percent \<longrightarrow>
            satelliteGroup_position
                (frame_scene (animate rnd fround localToWorld mode deltaTime percent s))
              = Vec3 (cos (orbitTime s + deltaTime * 0.5) * (earthRadius + 75))
                     (sin (orbitTime s + deltaTime * 0.5) * (earthRadius + 75) * sin (pi / 8))
                     (sin (orbitTime s + deltaTime * 0.5) * (earthRadius + 75) * cos (pi / 8))
          \<and> vlength (satelliteGroup_position
              (frame_scene (animate rnd fround localToWorld mode deltaTime percent s)))
                  = earthRadius + 75
          \<and> satelliteGroup_rotation_y
              (frame_scene (animate rnd fround localToWorld mode deltaTime percent s))
                  = orbitTime s + deltaTime * 0.5 + pi / 2
          \<and> satelliteGroup_rotation_x
              (frame_scene (animate rnd fround localToWorld mode deltaTime percent s))
                  = sin (orbitTime s + deltaTime * 0.5) * 0.15
          \<and> satelliteGroup_visible
              (frame_scene (animate rnd fround localToWorld mode deltaTime percent s))
                  = satelliteGroup_visible s)"
    using satellite_in_last_phase[of percent rnd fround localToWorld mode deltaTime s]
      satellite_on_orbit_circle[of percent rnd fround localToWorld mode deltaTime s] by blast
  have p26: "(84 < percent \<and> percent \<le> 94 \<and> \<not> satelliteGroup_visible s
            \<and> 94 < percent' \<longrightarrow>
            launchpadY + 530 \<le> vlength (satelliteGroup_position
                (frame_scene (animate rnd fround localToWorld mode deltaTime percent s)))
          \<and> satelliteGroup_position
              (frame_scene (animate rnd fround localToWorld mode deltaTime percent s))
              \<noteq> satelliteGroup_position
                  (frame_scene (animate rnd' fround' localToWorld' mode' deltaTime' percent' s')))"
    using reveal_is_off_the_orbit(1)[of percent s percent' rnd fround localToWorld mode deltaTime]
      reveal_is_off_the_orbit(2)[of percent s percent' rnd fround localToWorld mode deltaTime rnd' fround' localToWorld' mode' deltaTime' s'] by blast
  have p27: "(solarPanel0_rotation_y s = pi / 2
            \<and> solarPanel1_rotation_y s = - pi / 2 \<longrightarrow>
            continuous_on UNIV (\<lambda>percent.
            solarPanel0_rotation_y
                (frame_scene (animate rnd fround localToWorld mode deltaTime percent s)))
          \<and> continuous_on UNIV (\<lambda>percent.
            solarPanel1_rotation_y
                (frame_scene (animate rnd fround localToWorld mode deltaTime percent s))))"
    using panels_continuous[of s rnd fround localToWorld mode deltaTime] by blast
  show ?thesis
    by (intro conjI p1 p2 p3 p4 p5 p6 p7 p8 p9 p10 p11 p12 p13 p14 p15 p16 p17 p18 p19 p20 p21 p22 p23 p24 p25 p26 p27)
qed

theorem phase_boundary_continuity_witness:
  "continuous_on {..94} (\<lambda>percent.
      fairingL_position_x (frame_scene (animate (\<lambda>n. 0) (\<lambda>x. x) (\<lambda>sub v. v) cinematic 0 percent initial_scene)))
   \<and> continuous_on UNIV (\<lambda>percent.
      solarPanel0_rotation_y (frame_scene (animate (\<lambda>n. 0) (\<lambda>x. x) (\<lambda>sub v. v) cinematic 0 percent initial_scene)))
   \<and> satelliteGroup_position
        (frame_scene (animate (\<lambda>n. 0) (\<lambda>x. x) (\<lambda>sub v. v) cinematic 0 94 initial_scene)) = Vec3 0 683 0
   \<and> vlength (satelliteGroup_position
        (frame_scene (animate (\<lambda>n. 0) (\<lambda>x. x) (\<lambda>sub v. v) cinematic 0 100 initial_scene))) = 125
   \<and> satelliteGroup_position
        (frame_scene (animate (\<lambda>n. 0) (\<lambda>x. x) (\<lambda>sub v. v) cinematic 0 94 initial_scene))
      \<noteq> satelliteGroup_position
        (frame_scene (animate (\<lambda>n. 0) (\<lambda>x. x) (\<lambda>sub v. v) cinematic 0 95
          (frame_scene (animate (\<lambda>n. 0) (\<lambda>x. x) (\<lambda>sub v. v) cinematic 0 94 initial_scene))))
   \<and> fairingL_position_x
        (frame_scene (animate (\<lambda>n. 0) (\<lambda>x. x) (\<lambda>sub v. v) cinematic 0 100 initial_scene)) = 0
   \<and> booster0_position
        (frame_scene (animate (\<lambda>n. 0) (\<lambda>x. x) (\<lambda>sub v. v) cinematic 0 90 initial_scene)) = Vec3 (- 3.5) 7 0
   \<and> vz (booster0_position
        (frame_scene (animate (\<lambda>n. 0) (\<lambda>x. x) (\<lambda>sub v. v) cinematic 0 73 initial_scene))) = - 2
   \<and> booster0_position
        (frame_scene (animate (\<lambda>n. 0) (\<lambda>x. x) (\<lambda>sub v. v) cinematic 0 85
          (frame_scene (animate (\<lambda>n. 0) (\<lambda>x. x) (\<lambda>sub v. v) cinematic 0 84 initial_scene))))
      = booster0_position
        (frame_scene (animate (\<lambda>n. 0) (\<lambda>x. x) (\<lambda>sub v. v) cinematic 0 84 initial_scene))
   \<and> satelliteGroup_position
        (frame_scene (animate (\<lambda>n. 0) (\<lambda>x. x) (\<lambda>sub v. v) cinematic 0 80 initial_scene)) = Vec3 0 0 0"
proof -
  note t = phase_boundary_continuity [where rnd="\<lambda>n. 0" and fround="\<lambda>x. x" and localToWorld="\<lambda>sub v. v"
      and mode=cinematic and deltaTime=0 and s=initial_scene
      and rnd'="\<lambda>n. 0" and fround'="\<lambda>x. x" and localToWorld'="\<lambda>sub v. v"
      and mode'=cinematic and deltaTime'=0]
  note d5 = conjunct2[THEN conjunct2, THEN conjunct2, THEN conjunct2, THEN conjunct2]
  have late: "(94::real) < 100" by simp
  have rest: "fairingL_position_x initial_scene = 0 \<and> fairingL_rotation_z initial_scene = 0
        \<and> fairingR_position_x initial_scene = 0 \<and> fairingR_rotation_z initial_scene = 0"
    by (simp add: initial_scene_def)
  have panels: "solarPanel0_rotation_y initial_scene = pi / 2
        \<and> solarPanel1_rotation_y initial_scene = - pi / 2"
    by (simp add: initial_scene_def)
  have hidden: "\<not> satelliteGroup_visible initial_scene" by (simp add: initial_scene_def)
  have axis: "rocketGroup_position initial_scene = Vec3 0 0 0" by (simp add: initial_scene_def)
  have b0: "booster0_position initial_scene = Vec3 (- 3.5) 7 0" by (simp add: initial_scene_def)
  have sat0: "satelliteGroup_position initial_scene = Vec3 0 0 0" by (simp add: initial_scene_def)
  have y94: "vy (rocketGroup_position
        (frame_scene (animate (\<lambda>n. 0) (\<lambda>x. x) (\<lambda>sub v. v) cinematic 0 94 initial_scene))) = 653"
    by (simp add: rocket_height_of_frame rocket_height_def easeInOutCubic_def lerp_def
        launchpadY_def earthRadius_def)
  have e73: "\<not> easeInOutCubic ((73 / 100 - 0.72) / 0.12) > stageSep"
    by (simp add: easeInOutCubic_def stageSep_def power3_eq_cube)
  have a: "continuous_on {..94} (\<lambda>percent.
      fairingL_position_x (frame_scene (animate (\<lambda>n. 0) (\<lambda>x. x) (\<lambda>sub v. v) cinematic 0 percent initial_scene)))"
    using t[where percent=0 and percent'=0 and s'=initial_scene,
        THEN conjunct2, THEN conjunct2, THEN conjunct2, THEN conjunct2, THEN conjunct1] rest by blast
  have a': "continuous_on UNIV (\<lambda>percent.
      solarPanel0_rotation_y (frame_scene (animate (\<lambda>n. 0) (\<lambda>x. x) (\<lambda>sub v. v) cinematic 0 percent initial_scene)))"
    using t[where percent=0 and percent'=0 and s'=initial_scene,
        THEN d5, THEN d5, THEN d5, THEN d5, THEN d5, THEN conjunct2] panels by blast
  note t94 = t[where percent=94 and percent'=95
      and s'="frame_scene (animate (\<lambda>n. 0) (\<lambda>x. x) (\<lambda>sub v. v) cinematic 0 94 initial_scene)"]
  have b: "satelliteGroup_position
        (frame_scene (animate (\<lambda>n. 0) (\<lambda>x. x) (\<lambda>sub v. v) cinematic 0 94 initial_scene)) = Vec3 0 683 0"
  proof -
    have "satelliteGroup_position
        (frame_scene (animate (\<lambda>n. 0) (\<lambda>x. x) (\<lambda>sub v. v) cinematic 0 94 initial_scene))
       = Vec3 (vx (rocketGroup_position initial_scene))
           (vy (rocketGroup_position
              (frame_scene (animate (\<lambda>n. 0) (\<lambda>x. x) (\<lambda>sub v. v) cinematic 0 94 initial_scene))) + 30)
           (vz (rocketGroup_position initial_scene))"
      using t94[THEN d5, THEN d5, THEN d5, THEN d5, THEN conjunct2, THEN conjunct2, THEN conjunct2,
          THEN conjunct1] hidden by simp
    then show ?thesis by (simp add: y94 axis)
  qed
  have j: "satelliteGroup_position
        (frame_scene (animate (\<lambda>n. 0) (\<lambda>x. x) (\<lambda>sub v. v) cinematic 0 94 initial_scene))
      \<noteq> satelliteGroup_position
        (frame_scene (animate (\<lambda>n. 0) (\<lambda>x. x) (\<lambda>sub v. v) cinematic 0 95
          (frame_scene (animate (\<lambda>n. 0) (\<lambda>x. x) (\<lambda>sub v. v) cinematic 0 94 initial_scene))))"
    using t94[THEN d5, THEN d5, THEN d5, THEN d5, THEN d5, THEN conjunct1] hidden by simp
  note t100 = t[where percent=100 and percent'=0 and s'=initial_scene]
  have c: "vlength (satelliteGroup_position
        (frame_scene (animate (\<lambda>n. 0) (\<lambda>x. x) (\<lambda>sub v. v) cinematic 0 100 initial_scene))) = 125"
    using t100[THEN d5, THEN d5, THEN d5, THEN d5, THEN conjunct2, THEN conjunct2, THEN conjunct2,
        THEN conjunct2, THEN conjunct1, THEN mp, OF late, THEN conjunct2, THEN conjunct1]
    by (simp add: earthRadius_def)
  have d: "fairingL_position_x
        (frame_scene (animate (\<lambda>n. 0) (\<lambda>x. x) (\<lambda>sub v. v) cinematic 0 100 initial_scene)) = 0"
    using t100[THEN conjunct2, THEN conjunct2, THEN conjunct2, THEN conjunct1] rest by simp
  have e: "booster0_position
        (frame_scene (animate (\<lambda>n. 0) (\<lambda>x. x) (\<lambda>sub v. v) cinematic 0 90 initial_scene)) = Vec3 (- 3.5) 7 0"
    using t[where percent=90 and percent'=0 and s'=initial_scene,
        THEN d5, THEN d5, THEN conjunct2, THEN conjunct2, THEN conjunct1] b0 by simp
  have f: "vz (booster0_position
        (frame_scene (animate (\<lambda>n. 0) (\<lambda>x. x) (\<lambda>sub v. v) cinematic 0 73 initial_scene))) = - 2"
    using t[where percent=73 and percent'=0 and s'=initial_scene,
        THEN d5, THEN d5, THEN d5, THEN conjunct2, THEN conjunct2, THEN conjunct2, THEN conjunct2,
        THEN conjunct1] e73 by simp
  have g: "booster0_position
        (frame_scene (animate (\<lambda>n. 0) (\<lambda>x. x) (\<lambda>sub v. v) cinematic 0 85
          (frame_scene (animate (\<lambda>n. 0) (\<lambda>x. x) (\<lambda>sub v. v) cinematic 0 84 initial_scene))))
      = booster0_position
        (frame_scene (animate (\<lambda>n. 0) (\<lambda>x. x) (\<lambda>sub v. v) cinematic 0 84 initial_scene))"
    using t[where percent=84 and percent'=85 and s'=initial_scene,
        THEN d5, THEN d5, THEN d5, THEN d5, THEN conjunct1] by simp
  have h: "satelliteGroup_position
        (frame_scene (animate (\<lambda>n. 0) (\<lambda>x. x) (\<lambda>sub v. v) cinematic 0 80 initial_scene)) = Vec3 0 0 0"
    using t[where percent=80 and percent'=0 and s'=initial_scene,
        THEN d5, THEN d5, THEN d5, THEN d5, THEN conjunct2, THEN conjunct1] sat0 by simp
  show ?thesis using a a' b j c d e f g h by blast
qed

text \<open>
  A forward pass over two boundaries from the initial scene, with no time elapsing: the
  satellite is at \<open>(0, 683, 0)\<close> at \<open>p = 0.94\<close> and at \<open>(125, 0, 0)\<close> just above it; booster 0 is
  at its construction pose \<open>(-3.5, 7, 0)\<close> at \<open>p = 0.72\<close> and at \<open>(-3.5, 0, -2)\<close> just above it.
\<close>

theorem satellite_and_boosters_jump_at_boundaries:
  "satelliteGroup_position
     (frame_scene (animate (\<lambda>n. 0) (\<lambda>x. x) (\<lambda>sub v. v) cinematic 0 94 initial_scene)) = Vec3 0 683 0
   \<and> satelliteGroup_position
     (frame_scene (animate (\<lambda>n. 0) (\<lambda>x. x) (\<lambda>sub v. v) cinematic 0 (94 + 1 / 1000)
        (frame_scene (animate (\<lambda>n. 0) (\<lambda>x. x) (\<lambda>sub v. v) cinematic 0 94 initial_scene)))) = Vec3 125 0 0
   \<and> booster0_position
     (frame_scene (animate (\<lambda>n. 0) (\<lambda>x. x) (\<lambda>sub v. v) cinematic 0 72 initial_scene)) = Vec3 (-3.5) 7 0
   \<and> booster0_position
     (frame_scene (animate (\<lambda>n. 0) (\<lambda>x. x) (\<lambda>sub v. v) cinematic 0 (72 + 1 / 1000)
        (frame_scene (animate (\<lambda>n. 0) (\<lambda>x. x) (\<lambda>sub v. v) cinematic 0 72 initial_scene))))
     = Vec3 (-3.5) 0 (-2)"
  by (simp add: animate_scene animation_phases_def phase_defs initial_scene_def
      easeInOutCubic_def lerp_def stageSep_def power3_eq_cube launchpadY_def earthRadius_def)

subsection \<open>The particle pool\<close>

lemma exhaust_loop_0: "exhaust_loop rnd fround deltaTime intensity 0 e = e"
  by (simp add: exhaust_loop_def)

lemma exhaust_loop_Suc:
  "exhaust_loop rnd fround deltaTime intensity (Suc n) e
     = updateParticle rnd fround deltaTime intensity n (exhaust_loop rnd fround deltaTime intensity n e)"
  by (simp add: exhaust_loop_def)

lemma updateExhaust_loop:
  "updateExhaust rnd fround deltaTime intensity e = exhaust_loop rnd fround deltaTime intensity PARTICLE_COUNT e"
  by (simp add: updateExhaust_def exhaust_loop_def)

lemma updateParticle_lengths:
  "length (particles (updateParticle rnd fround deltaTime intensity i e)) = length (particles e)"
  "length (positions (updateParticle rnd fround deltaTime intensity i e)) = length (positions e)"
  by (simp_all add: updateParticle_def Let_def write_position_def)

lemma updateParticle_other_particle:
  "j \<noteq> i \<Longrightarrow> particles (updateParticle rnd fround deltaTime intensity i e) ! j = particles e ! j"
  by (simp add: updateParticle_def Let_def)

lemma updateParticle_other_slot:
  "k \<noteq> i * 3 \<Longrightarrow> k \<noteq> i * 3 + 1 \<Longrightarrow> k \<noteq> i * 3 + 2
     \<Longrightarrow> positions (updateParticle rnd fround deltaTime intensity i e) ! k = positions e ! k"
  by (simp add: updateParticle_def Let_def write_position_def)

lemma updateParticle_own_particle:
  assumes "i < length (particles e)"
  shows "particles (updateParticle rnd fround deltaTime intensity i e) ! i
     = particle_after rnd deltaTime intensity (cursor e) (particles e ! i)"
  using assms by (simp add: updateParticle_def particle_after_def expired_def Let_def)

lemma updateParticle_own_slots:
  assumes "i * 3 + 2 < length (positions e)"
  shows "positions (updateParticle rnd fround deltaTime intensity i e) ! (i * 3 + 1)
     = (if expired deltaTime (particles e ! i) \<and> \<not> rnd (cursor e) < intensity then - 999
        else fround (vy (position (particle_after rnd deltaTime intensity (cursor e) (particles e ! i)))))"
    and "positions (updateParticle rnd fround deltaTime intensity i e) ! (i * 3)
     = (if expired deltaTime (particles e ! i) \<and> \<not> rnd (cursor e) < intensity
        then positions e ! (i * 3)
        else fround (vx (position (particle_after rnd deltaTime intensity (cursor e) (particles e ! i)))))"
    and "positions (updateParticle rnd fround deltaTime intensity i e) ! (i * 3 + 2)
     = (if expired deltaTime (particles e ! i) \<and> \<not> rnd (cursor e) < intensity
        then positions e ! (i * 3 + 2)
        else fround (vz (position (particle_after rnd deltaTime intensity (cursor e) (particles e ! i)))))"
  using assms
  by (simp_all add: updateParticle_def particle_after_def expired_def Let_def write_position_def)

lemma exhaust_loop_lengths:
  "length (particles (exhaust_loop rnd fround deltaTime intensity n e)) = length (particles e)"
  "length (positions (exhaust_loop rnd fround deltaTime intensity n e)) = length (positions e)"
  by (induction n) (simp_all add: exhaust_loop_0 exhaust_loop_Suc updateParticle_lengths)

lemma exhaust_loop_untouched_particle:
  "n \<le> j \<Longrightarrow> particles (exhaust_loop rnd fround deltaTime intensity n e) ! j = particles e ! j"
  by (induction n) (simp_all add: exhaust_loop_0 exhaust_loop_Suc updateParticle_other_particle)

lemma exhaust_loop_untouched_slot:
  "n * 3 \<le> k \<Longrightarrow> positions (exhaust_loop rnd fround deltaTime intensity n e) ! k = positions e ! k"
  by (induction n) (simp_all add: exhaust_loop_0 exhaust_loop_Suc updateParticle_other_slot)

lemma exhaust_loop_particle:
  assumes "i < n" "n \<le> length (particles e)"
  shows "particles (exhaust_loop rnd fround deltaTime intensity n e) ! i
     = particle_after rnd deltaTime intensity
         (cursor (exhaust_loop rnd fround deltaTime intensity i e)) (particles e ! i)"
  using assms
proof (induction n)
  case 0
  then show ?case by simp
next
  case (Suc n)
  show ?case
  proof (cases "i = n")
    case True
    have "i < length (particles (exhaust_loop rnd fround deltaTime intensity i e))"
      using Suc.prems True by (simp add: exhaust_loop_lengths)
    then show ?thesis
      using True
      by (simp add: exhaust_loop_Suc updateParticle_own_particle exhaust_loop_untouched_particle)
  next
    case False
    then have "i < n" using Suc.prems by simp
    then show ?thesis
      using Suc False by (simp add: exhaust_loop_Suc updateParticle_other_particle)
  qed
qed

lemma exhaust_loop_slots:
  assumes "i < n" "n * 3 \<le> length (positions e)"
  shows "positions (exhaust_loop rnd fround deltaTime intensity n e) ! (i * 3 + 1)
     = (if expired deltaTime (particles e ! i)
           \<and> \<not> rnd (cursor (exhaust_loop rnd fround deltaTime intensity i e)) < intensity then - 999
        else fround (vy (position (particle_after rnd deltaTime intensity
               (cursor (exhaust_loop rnd fround deltaTime intensity i e)) (particles e ! i)))))
   \<and> positions (exhaust_loop rnd fround deltaTime intensity n e) ! (i * 3)
     = (if expired deltaTime (particles e ! i)
           \<and> \<not> rnd (cursor (exhaust_loop rnd fround deltaTime intensity i e)) < intensity
        then positions e ! (i * 3)
        else fround (vx (position (particle_after rnd deltaTime intensity
               (cursor (exhaust_loop rnd fround deltaTime intensity i e)) (particles e ! i)))))
   \<and> positions (exhaust_loop rnd fround deltaTime intensity n e) ! (i * 3 + 2)
     = (if expired deltaTime (particles e ! i)
           \<and> \<not> rnd (cursor (exhaust_loop rnd fround deltaTime intensity i e)) < intensity
        then positions e ! (i * 3 + 2)
        else fround (vz (position (particle_after rnd deltaTime intensity
               (cursor (exhaust_loop rnd fround deltaTime intensity i e)) (particles e ! i)))))"
  using assms
proof (induction n)
  case 0
  then show ?case by simp
next
  case (Suc n)
  show ?case
  proof (cases "i = n")
    case True
    define E where "E = exhaust_loop rnd fround deltaTime intensity n e"
    have len: "n * 3 + 2 < length (positions E)"
      using Suc.prems by (simp add: E_def exhaust_loop_lengths)
    note own = updateParticle_own_slots[OF len, of rnd fround deltaTime intensity]
    have pe: "particles E ! n = particles e ! n"
      unfolding E_def by (rule exhaust_loop_untouched_particle) simp
    have s0: "positions E ! (n * 3) = positions e ! (n * 3)"
      unfolding E_def by (rule exhaust_loop_untouched_slot) simp
    have s2: "positions E ! (n * 3 + 2) = positions e ! (n * 3 + 2)"
      unfolding E_def by (rule exhaust_loop_untouched_slot) simp
    show ?thesis
      unfolding True exhaust_loop_Suc E_def[symmetric] own pe s0 s2
      by (intro conjI refl)
  next
    case False
    then have less: "i < n" and fits: "n * 3 \<le> length (positions e)" using Suc.prems by simp_all
    have apart: "i * 3 \<noteq> n * 3" "i * 3 \<noteq> n * 3 + 1" "i * 3 \<noteq> n * 3 + 2"
      "i * 3 + 1 \<noteq> n * 3" "i * 3 + 1 \<noteq> n * 3 + 1" "i * 3 + 1 \<noteq> n * 3 + 2"
      "i * 3 + 2 \<noteq> n * 3" "i * 3 + 2 \<noteq> n * 3 + 1" "i * 3 + 2 \<noteq> n * 3 + 2"
      using less by simp_all
    show ?thesis
      using Suc.IH[OF less fits] apart
      by (simp add: exhaust_loop_Suc updateParticle_other_slot)
  qed
qed


lemma lerp_affine: "lerp a b t = a + (b - a) * t"
  by (simp add: lerp_def algebra_simps)

lemma centred_draw:
  fixes r k :: real
  assumes "0 \<le> r" "r < 1" "0 \<le> k"
  shows "\<bar>(r - 0.5) * k\<bar> \<le> k / 2"
proof -
  have "\<bar>r - 0.5\<bar> \<le> 1 / 2" using assms(1,2) by arith
  then have "\<bar>r - 0.5\<bar> * k \<le> 1 / 2 * k" using assms(3) by (rule mult_right_mono)
  then show ?thesis using assms(3) by (simp add: abs_mult)
qed

lemma respawn_ranges:
  assumes "\<forall>n. 0 \<le> rnd n \<and> rnd n < 1"
  shows "age (respawn rnd c q) = 0"
    and "0.8 \<le> lifetime (respawn rnd c q)" and "lifetime (respawn rnd c q) < 1.5"
    and "\<bar>vx (position (respawn rnd c q))\<bar> \<le> 0.75" and "vy (position (respawn rnd c q)) = 0"
    and "\<bar>vz (position (respawn rnd c q))\<bar> \<le> 0.75"
    and "\<bar>vx (velocity (respawn rnd c q))\<bar> \<le> 4" and "\<bar>vz (velocity (respawn rnd c q))\<bar> \<le> 4"
    and "- 80 \<le> vy (velocity (respawn rnd c q))" and "vy (velocity (respawn rnd c q)) \<le> - 50"
proof -
  have r: "0 \<le> rnd n" "rnd n < 1" for n using assms by simp_all
  show "age (respawn rnd c q) = 0" by (simp add: respawn_def)
  show "0.8 \<le> lifetime (respawn rnd c q)"
    using r[of "c + 1"] by (simp add: respawn_def lerp_affine)
  show "lifetime (respawn rnd c q) < 1.5"
    using r[of "c + 1"] by (simp add: respawn_def lerp_affine)
  show "\<bar>vx (position (respawn rnd c q))\<bar> \<le> 0.75"
    using centred_draw[OF r[of "c + 2"], of "1.5"] by (simp add: respawn_def)
  show "vy (position (respawn rnd c q)) = 0" by (simp add: respawn_def)
  show "\<bar>vz (position (respawn rnd c q))\<bar> \<le> 0.75"
    using centred_draw[OF r[of "c + 3"], of "1.5"] by (simp add: respawn_def)
  show "\<bar>vx (velocity (respawn rnd c q))\<bar> \<le> 4"
    using centred_draw[OF r[of "c + 4"], of "8"] by (simp add: respawn_def)
  show "\<bar>vz (velocity (respawn rnd c q))\<bar> \<le> 4"
    using centred_draw[OF r[of "c + 6"], of "8"] by (simp add: respawn_def)
  show "- 80 \<le> vy (velocity (respawn rnd c q))"
    using r[of "c + 5"] by (simp add: respawn_def lerp_affine)
  show "vy (velocity (respawn rnd c q)) \<le> - 50"
    using r[of "c + 5"] by (simp add: respawn_def lerp_affine)
qed

lemma integrate_fields:
  "age (integrate deltaTime q) = age q" "lifetime (integrate deltaTime q) = lifetime q"
  "position (integrate deltaTime q) = addScaledVector (position q) (velocity q) deltaTime"
  "velocity (integrate deltaTime q)
     = Vec3 (vx (velocity q)) (vy (velocity q) * 0.99) (vz (velocity q))"
  by (simp_all add: integrate_def set_y_def)

text \<open>
  C3, amended. For every particle \<open>i\<close> of a pool of the construction size and every call
  of \<open>updateExhaust\<close> with draws in \<open>[0, 1)\<close>, the age is increased by the delta first. If
  the new age exceeds the lifetime and the draw at the cursor is below the intensity,
  the particle respawns (age 0, lifetime in \<open>[0.8, 1.5]\<close>, an offset with \<open>x\<close>, \<open>z\<close> in
  \<open>[-0.75, 0.75]\<close> and \<open>y = 0\<close>, a velocity with \<open>x\<close>, \<open>z\<close> in \<open>[-4, 4]\<close> and \<open>y\<close> in
  \<open>[-80, -50]\<close>) and is integrated in the same call: its position is the offset plus the
  velocity times the delta, its velocity has \<open>y\<close> multiplied by 0.99, and the three buffer
  slots hold the coordinates of that position rounded to single precision (\<open>fround\<close>). If
  the new age exceeds the lifetime and the draw is not below the intensity, only the age
  changes, the \<open>y\<close> slot is set to \<open>-999\<close> and the other two slots keep their values.
  Otherwise the particle is integrated and its rounded coordinates are written to the
  buffer. The statement holds for every rounding function.
\<close>

theorem particle_update_rule:
  assumes "i < PARTICLE_COUNT" "length (particles e) = PARTICLE_COUNT"
    and "length (positions e) = 3 * PARTICLE_COUNT" "\<forall>n. 0 \<le> rnd n \<and> rnd n < 1"
  shows
    "let q = particles e ! i;
         c = cursor (fold (updateParticle rnd fround deltaTime intensity) [0..<i] e);
         e' = updateExhaust rnd fround deltaTime intensity e;
         q' = particles e' ! i
     in (age q + deltaTime > lifetime q \<and> rnd c < intensity \<longrightarrow>
           age q' = 0 \<and> 0.8 \<le> lifetime q' \<and> lifetime q' \<le> 1.5
           \<and> (\<exists>x0 z0 v. \<bar>x0\<bar> \<le> 0.75 \<and> \<bar>z0\<bar> \<le> 0.75 \<and> \<bar>vx v\<bar> \<le> 4 \<and> \<bar>vz v\<bar> \<le> 4
                 \<and> - 80 \<le> vy v \<and> vy v \<le> - 50
                 \<and> position q' = addScaledVector (Vec3 x0 0 z0) v deltaTime
                 \<and> velocity q' = Vec3 (vx v) (vy v * 0.99) (vz v))
           \<and> positions e' ! (i * 3) = fround (vx (position q'))
           \<and> positions e' ! (i * 3 + 1) = fround (vy (position q'))
           \<and> positions e' ! (i * 3 + 2) = fround (vz (position q')))
      \<and> (age q + deltaTime > lifetime q \<and> \<not> rnd c < intensity \<longrightarrow>
           q' = q\<lparr>age := age q + deltaTime\<rparr>
           \<and> positions e' ! (i * 3 + 1) = - 999
           \<and> positions e' ! (i * 3) = positions e ! (i * 3)
           \<and> positions e' ! (i * 3 + 2) = positions e ! (i * 3 + 2))
      \<and> (\<not> age q + deltaTime > lifetime q \<longrightarrow>
           q' = q\<lparr>age := age q + deltaTime,
                  position := addScaledVector (position q) (velocity q) deltaTime,
                  velocity := Vec3 (vx (velocity q)) (vy (velocity q) * 0.99) (vz (velocity q))\<rparr>
           \<and> positions e' ! (i * 3) = fround (vx (position q'))
           \<and> positions e' ! (i * 3 + 1) = fround (vy (position q'))
           \<and> positions e' ! (i * 3 + 2) = fround (vz (position q')))"
proof -
  define q where "q = particles e ! i"
  define c where "c = cursor (exhaust_loop rnd fround deltaTime intensity i e)"
  define e' where "e' = exhaust_loop rnd fround deltaTime intensity PARTICLE_COUNT e"
  define q' where "q' = particles e' ! i"
  have fits: "PARTICLE_COUNT \<le> length (particles e)" "PARTICLE_COUNT * 3 \<le> length (positions e)"
    using assms by simp_all
  have qa: "q' = particle_after rnd deltaTime intensity c q"
    unfolding q'_def e'_def c_def q_def by (rule exhaust_loop_particle[OF assms(1) fits(1)])
  note sl = exhaust_loop_slots[OF assms(1) fits(2), of rnd fround deltaTime intensity,
      folded q_def c_def e'_def, folded qa]
  have A: "age q' = 0 \<and> 0.8 \<le> lifetime q' \<and> lifetime q' \<le> 1.5
           \<and> (\<exists>x0 z0 v. \<bar>x0\<bar> \<le> 0.75 \<and> \<bar>z0\<bar> \<le> 0.75 \<and> \<bar>vx v\<bar> \<le> 4 \<and> \<bar>vz v\<bar> \<le> 4
                 \<and> - 80 \<le> vy v \<and> vy v \<le> - 50
                 \<and> position q' = addScaledVector (Vec3 x0 0 z0) v deltaTime
                 \<and> velocity q' = Vec3 (vx v) (vy v * 0.99) (vz v))
           \<and> positions e' ! (i * 3) = fround (vx (position q'))
           \<and> positions e' ! (i * 3 + 1) = fround (vy (position q'))
           \<and> positions e' ! (i * 3 + 2) = fround (vz (position q'))"
    if ex: "age q + deltaTime > lifetime q" and dr: "rnd c < intensity"
  proof -
    define r where "r = respawn rnd c (q\<lparr>age := age q + deltaTime\<rparr>)"
    have q'r: "q' = integrate deltaTime r"
      using ex dr by (simp add: qa particle_after_def expired_def r_def)
    note rr = respawn_ranges[OF assms(4), of c "q\<lparr>age := age q + deltaTime\<rparr>", folded r_def]
    have pos: "position r = Vec3 (vx (position r)) 0 (vz (position r))"
      using rr(5) by (cases "position r") simp
    have "\<bar>vx (position r)\<bar> \<le> 0.75 \<and> \<bar>vz (position r)\<bar> \<le> 0.75
        \<and> \<bar>vx (velocity r)\<bar> \<le> 4 \<and> \<bar>vz (velocity r)\<bar> \<le> 4
        \<and> - 80 \<le> vy (velocity r) \<and> vy (velocity r) \<le> - 50
        \<and> position q' = addScaledVector (Vec3 (vx (position r)) 0 (vz (position r))) (velocity r) deltaTime
        \<and> velocity q' = Vec3 (vx (velocity r)) (vy (velocity r) * 0.99) (vz (velocity r))"
      using rr pos by (simp add: q'r integrate_fields)
    then have B: "\<exists>x0 z0 v. \<bar>x0\<bar> \<le> 0.75 \<and> \<bar>z0\<bar> \<le> 0.75 \<and> \<bar>vx v\<bar> \<le> 4 \<and> \<bar>vz v\<bar> \<le> 4
                 \<and> - 80 \<le> vy v \<and> vy v \<le> - 50
                 \<and> position q' = addScaledVector (Vec3 x0 0 z0) v deltaTime
                 \<and> velocity q' = Vec3 (vx v) (vy v * 0.99) (vz v)"
      by blast
    have C: "age q' = 0 \<and> 0.8 \<le> lifetime q' \<and> lifetime q' \<le> 1.5"
      using rr(1,2,3) by (simp add: q'r integrate_fields)
    show ?thesis using B C sl dr by simp
  qed
  have H: "q' = q\<lparr>age := age q + deltaTime\<rparr>
           \<and> positions e' ! (i * 3 + 1) = - 999
           \<and> positions e' ! (i * 3) = positions e ! (i * 3)
           \<and> positions e' ! (i * 3 + 2) = positions e ! (i * 3 + 2)"
    if ex: "age q + deltaTime > lifetime q" and dr: "\<not> rnd c < intensity"
    using ex dr sl by (simp add: qa particle_after_def expired_def)
  have I: "q' = q\<lparr>age := age q + deltaTime,
                  position := addScaledVector (position q) (velocity q) deltaTime,
                  velocity := Vec3 (vx (velocity q)) (vy (velocity q) * 0.99) (vz (velocity q))\<rparr>
           \<and> positions e' ! (i * 3) = fround (vx (position q'))
           \<and> positions e' ! (i * 3 + 1) = fround (vy (position q'))
           \<and> positions e' ! (i * 3 + 2) = fround (vz (position q'))"
    if ex: "\<not> age q + deltaTime > lifetime q"
  proof -
    have "q' = integrate deltaTime (q\<lparr>age := age q + deltaTime\<rparr>)"
      using ex by (simp add: qa particle_after_def expired_def)
    then have "q' = q\<lparr>age := age q + deltaTime,
                  position := addScaledVector (position q) (velocity q) deltaTime,
                  velocity := Vec3 (vx (velocity q)) (vy (velocity q) * 0.99) (vz (velocity q))\<rparr>"
      by (simp add: integrate_def set_y_def)
    moreover have "\<not> expired deltaTime q" using ex by (simp add: expired_def)
    ultimately show ?thesis using sl by simp
  qed
  show ?thesis
    unfolding Let_def updateExhaust_loop
    unfolding exhaust_loop_def[symmetric] q_def[symmetric] c_def[symmetric] e'_def[symmetric] q'_def[symmetric]
    using A H I by blast
qed


lemma nth_concat_replicate_triple:
  "i < n \<Longrightarrow> concat (replicate n [a, b, c]) ! (i * 3 + 1) = b"
proof (induction n arbitrary: i)
  case 0
  then show ?case by simp
next
  case (Suc n)
  show ?case
  proof (cases i)
    case 0
    then show ?thesis by simp
  next
    case (Suc j)
    then have "j < n" using Suc.prems by simp
    then have "concat (replicate n [a, b, c]) ! (j * 3 + 1) = b" by (rule Suc.IH)
    then show ?thesis using Suc by simp
  qed
qed

lemma initial_lengths:
  "length (particles initial_exhaust) = PARTICLE_COUNT"
  "length (positions initial_exhaust) = 3 * PARTICLE_COUNT"
  by (simp_all add: initial_exhaust_def length_concat sum_list_replicate)

lemma initial_particle:
  "i < PARTICLE_COUNT \<Longrightarrow> particles initial_exhaust ! i = dead_particle"
  by (simp add: initial_exhaust_def)

lemma initial_slot:
  "i < PARTICLE_COUNT \<Longrightarrow> positions initial_exhaust ! (i * 3 + 1) = - 999"
  by (simp only: initial_exhaust_def exhaust.simps nth_concat_replicate_triple)

lemma updateExhaust_lengths:
  "length (particles (updateExhaust rnd fround deltaTime intensity e)) = length (particles e)"
  "length (positions (updateExhaust rnd fround deltaTime intensity e)) = length (positions e)"
  by (simp_all add: updateExhaust_loop exhaust_loop_lengths)

lemma advance_all_lengths:
  "length (particles (advance_all rnd fround ticks e)) = length (particles e)
   \<and> length (positions (advance_all rnd fround ticks e)) = length (positions e)"
  by (induction rnd fround ticks e rule: advance_all.induct) (simp_all add: updateExhaust_lengths)

lemma updateExhaust_particle:
  assumes "i < PARTICLE_COUNT" "length (particles e) = PARTICLE_COUNT"
  shows "particles (updateExhaust rnd fround deltaTime intensity e) ! i
     = particle_after rnd deltaTime intensity
         (cursor (exhaust_loop rnd fround deltaTime intensity i e)) (particles e ! i)"
  unfolding updateExhaust_loop using assms by (intro exhaust_loop_particle) simp_all

lemma updateExhaust_y_slot:
  assumes "i < PARTICLE_COUNT" "length (positions e) = 3 * PARTICLE_COUNT"
  shows "positions (updateExhaust rnd fround deltaTime intensity e) ! (i * 3 + 1)
     = (if expired deltaTime (particles e ! i)
           \<and> \<not> rnd (cursor (exhaust_loop rnd fround deltaTime intensity i e)) < intensity then - 999
        else fround (vy (position (particle_after rnd deltaTime intensity
               (cursor (exhaust_loop rnd fround deltaTime intensity i e)) (particles e ! i)))))"
proof -
  have "PARTICLE_COUNT * 3 \<le> length (positions e)" using assms by simp
  from exhaust_loop_slots[OF assms(1) this, of rnd fround deltaTime intensity]
  show ?thesis unfolding updateExhaust_loop by blast
qed

lemma dead_only_when_hidden:
  assumes "\<forall>n. 0 \<le> rnd n" "dead (particle_after rnd deltaTime intensity c q)"
  shows "expired deltaTime q \<and> \<not> rnd c < intensity"
proof (rule ccontr)
  assume n: "\<not> (expired deltaTime q \<and> \<not> rnd c < intensity)"
  show False
  proof (cases "expired deltaTime q")
    case True
    then have dr: "rnd c < intensity" using n by simp
    have "0 \<le> rnd (c + 1)" using assms(1) by simp
    then have "0 \<le> lifetime (respawn rnd c (q\<lparr>age := age q + deltaTime\<rparr>))"
      by (simp add: respawn_def lerp_affine)
    then show False
      using assms(2) True dr
      by (simp add: dead_def particle_after_def integrate_fields) (simp add: respawn_def)
  next
    case False
    then show False
      using assms(2) by (simp add: dead_def particle_after_def integrate_fields expired_def)
  qed
qed

lemma sentinel_after_update:
  assumes "length (particles e) = PARTICLE_COUNT" "length (positions e) = 3 * PARTICLE_COUNT"
    and "\<forall>n. 0 \<le> rnd n" "i < PARTICLE_COUNT"
    and "dead (particles (updateExhaust rnd fround deltaTime intensity e) ! i)"
  shows "positions (updateExhaust rnd fround deltaTime intensity e) ! (i * 3 + 1) = - 999"
proof -
  have "dead (particle_after rnd deltaTime intensity
         (cursor (exhaust_loop rnd fround deltaTime intensity i e)) (particles e ! i))"
    using assms(5) by (simp add: updateExhaust_particle[OF assms(4) assms(1)])
  from dead_only_when_hidden[OF assms(3) this]
  have h: "expired deltaTime (particles e ! i)
      \<and> \<not> rnd (cursor (exhaust_loop rnd fround deltaTime intensity i e)) < intensity" .
  show ?thesis unfolding updateExhaust_y_slot[OF assms(4) assms(2)] using h by simp
qed

lemma sentinel_invariant:
  assumes "\<forall>n. 0 \<le> rnd n"
    and "length (particles e) = PARTICLE_COUNT" "length (positions e) = 3 * PARTICLE_COUNT"
    and "\<And>i. i < PARTICLE_COUNT \<Longrightarrow> dead (particles e ! i) \<Longrightarrow> positions e ! (i * 3 + 1) = - 999"
    and "i < PARTICLE_COUNT" "dead (particles (advance_all rnd fround ticks e) ! i)"
  shows "positions (advance_all rnd fround ticks e) ! (i * 3 + 1) = - 999"
  using assms(2-)
proof (induction ticks arbitrary: e)
  case Nil
  then show ?case by simp
next
  case (Cons tick rest)
  obtain deltaTime intensity where tick: "tick = (deltaTime, intensity)" by (cases tick)
  show ?case
    unfolding tick advance_all.simps
  proof (rule Cons.IH)
    show "length (particles (updateExhaust rnd fround deltaTime intensity e)) = PARTICLE_COUNT"
      "length (positions (updateExhaust rnd fround deltaTime intensity e)) = 3 * PARTICLE_COUNT"
      using Cons.prems(1,2) by (simp_all add: updateExhaust_lengths)
    show "positions (updateExhaust rnd fround deltaTime intensity e) ! (j * 3 + 1) = - 999"
      if "j < PARTICLE_COUNT" "dead (particles (updateExhaust rnd fround deltaTime intensity e) ! j)" for j
      using sentinel_after_update[OF Cons.prems(1,2) assms(1) that] .
    show "i < PARTICLE_COUNT" by (rule Cons.prems(4))
    show "dead (particles (advance_all rnd fround rest (updateExhaust rnd fround deltaTime intensity e)) ! i)"
      using Cons.prems(5) by (simp add: tick)
  qed
qed

text \<open>
  C6. After any number of \<open>updateExhaust\<close> calls, with any deltas, intensities and draws,
  the pool built at construction still has \<open>PARTICLE_COUNT = 5001\<close> particles and three
  buffer slots for each; no slot is added or removed. With non-negative draws, every
  dead particle has the sentinel \<open>-999\<close> in its \<open>y\<close> slot.
\<close>

theorem pool_capacity_fixed:
  "length (particles (advance_all rnd fround ticks initial_exhaust)) = PARTICLE_COUNT
   \<and> length (positions (advance_all rnd fround ticks initial_exhaust)) = 3 * PARTICLE_COUNT
   \<and> PARTICLE_COUNT = 5001
   \<and> ((\<forall>n. 0 \<le> rnd n) \<and> i < PARTICLE_COUNT
        \<and> dead (particles (advance_all rnd fround ticks initial_exhaust) ! i)
       \<longrightarrow> positions (advance_all rnd fround ticks initial_exhaust) ! (i * 3 + 1) = - 999)"
proof -
  have a: "length (particles (advance_all rnd fround ticks initial_exhaust)) = PARTICLE_COUNT"
    "length (positions (advance_all rnd fround ticks initial_exhaust)) = 3 * PARTICLE_COUNT"
    using advance_all_lengths[of rnd fround ticks initial_exhaust] by (simp_all add: initial_lengths)
  have b: "PARTICLE_COUNT = 5001" by (simp add: PARTICLE_COUNT_def)
  have c: "positions (advance_all rnd fround ticks initial_exhaust) ! (i * 3 + 1) = - 999"
    if "\<forall>n. 0 \<le> rnd n" "i < PARTICLE_COUNT"
      "dead (particles (advance_all rnd fround ticks initial_exhaust) ! i)"
    using that(1) initial_lengths initial_slot that(2,3) by (rule sentinel_invariant)
  show ?thesis using a b c by blast
qed


lemma no_respawn_at_zero:
  assumes "\<forall>n. 0 \<le> rnd n"
  shows "age (particle_after rnd deltaTime 0 c q) = age q + deltaTime"
    and "lifetime (particle_after rnd deltaTime 0 c q) = lifetime q"
proof -
  have "\<not> rnd c < 0" using assms by (simp add: not_less)
  then show "age (particle_after rnd deltaTime 0 c q) = age q + deltaTime"
    and "lifetime (particle_after rnd deltaTime 0 c q) = lifetime q"
    by (simp_all add: particle_after_def integrate_fields)
qed

lemma drain_tick:
  assumes "\<forall>n. 0 \<le> rnd n" "i < PARTICLE_COUNT"
    and "length (particles e) = PARTICLE_COUNT" "length (positions e) = 3 * PARTICLE_COUNT"
  shows "age (particles (updateExhaust rnd fround deltaTime 0 e) ! i) = age (particles e ! i) + deltaTime"
    and "lifetime (particles (updateExhaust rnd fround deltaTime 0 e) ! i) = lifetime (particles e ! i)"
    and "age (particles e ! i) + deltaTime > lifetime (particles e ! i)
           \<Longrightarrow> positions (updateExhaust rnd fround deltaTime 0 e) ! (i * 3 + 1) = - 999"
proof -
  show "age (particles (updateExhaust rnd fround deltaTime 0 e) ! i) = age (particles e ! i) + deltaTime"
    and "lifetime (particles (updateExhaust rnd fround deltaTime 0 e) ! i) = lifetime (particles e ! i)"
    unfolding updateExhaust_particle[OF assms(2,3)]
    by (rule no_respawn_at_zero[OF assms(1)])+
  assume ex: "age (particles e ! i) + deltaTime > lifetime (particles e ! i)"
  have "\<not> rnd (cursor (exhaust_loop rnd fround deltaTime 0 i e)) < 0" using assms(1) by (simp add: not_less)
  then have h: "expired deltaTime (particles e ! i)
      \<and> \<not> rnd (cursor (exhaust_loop rnd fround deltaTime 0 i e)) < 0"
    using ex by (simp add: expired_def)
  show "positions (updateExhaust rnd fround deltaTime 0 e) ! (i * 3 + 1) = - 999"
    unfolding updateExhaust_y_slot[OF assms(2,4)] using h by simp
qed

lemma drain_ages:
  assumes "\<forall>n. 0 \<le> rnd n" "i < PARTICLE_COUNT"
    and "length (particles e) = PARTICLE_COUNT" "length (positions e) = 3 * PARTICLE_COUNT"
  shows "age (particles (advance_all rnd fround (map (\<lambda>d. (d, 0)) dts) e) ! i)
           = age (particles e ! i) + sum_list dts
       \<and> lifetime (particles (advance_all rnd fround (map (\<lambda>d. (d, 0)) dts) e) ! i)
           = lifetime (particles e ! i)"
  using assms(3,4)
proof (induction dts arbitrary: e)
  case Nil
  then show ?case by simp
next
  case (Cons d dts)
  have l: "length (particles (updateExhaust rnd fround d 0 e)) = PARTICLE_COUNT"
    "length (positions (updateExhaust rnd fround d 0 e)) = 3 * PARTICLE_COUNT"
    using Cons.prems by (simp_all add: updateExhaust_lengths)
  show ?case
    using Cons.IH[OF l] drain_tick(1,2)[OF assms(1,2) Cons.prems, where fround=fround and deltaTime=d]
    by simp
qed

lemma advance_all_append:
  "advance_all rnd fround (xs @ ys) e = advance_all rnd fround ys (advance_all rnd fround xs e)"
  by (induction rnd fround xs e rule: advance_all.induct) simp_all

lemma drained_particle:
  assumes "\<forall>n. 0 \<le> rnd n" "i < PARTICLE_COUNT" "pool_ok e" "dts \<noteq> []" "1.5 \<le> sum_list dts"
  shows "dead (particles (advance_all rnd fround (map (\<lambda>d. (d, 0)) dts) e) ! i)"
    and "positions (advance_all rnd fround (map (\<lambda>d. (d, 0)) dts) e) ! (i * 3 + 1) = - 999"
proof -
  have len: "length (particles e) = PARTICLE_COUNT" "length (positions e) = 3 * PARTICLE_COUNT"
    and ok: "particle_ok (particles e ! i)"
    using assms(2,3) by (simp_all add: pool_ok_def list_all_length)
  obtain ds d where split: "dts = ds @ [d]"
    using assms(4) by (metis append_butlast_last_id)
  define e1 where "e1 = advance_all rnd fround (map (\<lambda>d. (d, 0)) ds) e"
  have l1: "length (particles e1) = PARTICLE_COUNT" "length (positions e1) = 3 * PARTICLE_COUNT"
    unfolding e1_def using advance_all_lengths[of rnd fround "map (\<lambda>d. (d, 0)) ds" e] len by simp_all
  have a1: "age (particles e1 ! i) = age (particles e ! i) + sum_list ds"
    and t1: "lifetime (particles e1 ! i) = lifetime (particles e ! i)"
    unfolding e1_def using drain_ages[OF assms(1,2) len, where fround=fround and dts=ds] by simp_all
  have fin: "advance_all rnd fround (map (\<lambda>d. (d, 0)) dts) e = updateExhaust rnd fround d 0 e1"
    by (simp add: split advance_all_append e1_def)
  have ex: "age (particles e1 ! i) + d > lifetime (particles e1 ! i)"
    using ok assms(5) by (simp add: a1 t1 split particle_ok_def)
  show "dead (particles (advance_all rnd fround (map (\<lambda>d. (d, 0)) dts) e) ! i)"
    unfolding fin dead_def drain_tick(1,2)[OF assms(1,2) l1] by (rule ex)
  show "positions (advance_all rnd fround (map (\<lambda>d. (d, 0)) dts) e) ! (i * 3 + 1) = - 999"
    unfolding fin by (rule drain_tick(3)[OF assms(1,2) l1 ex])
qed

text \<open>
  C7. With intensity exactly 0 and non-negative draws no particle respawns: calls with
  deltas \<open>dts\<close> leave every lifetime as it was and add the sum of the deltas to every age,
  and a particle whose new age exceeds its lifetime gets the sentinel in its \<open>y\<close> slot.
  Once the deltas sum to 1.5 or more, no particle is alive and every \<open>y\<close> slot holds the
  sentinel. The pool is assumed well formed (\<open>pool_ok\<close>), which holds for every pool that
  calls with non-negative deltas produce (\<open>pool_ok_advance_all\<close>).
\<close>

theorem zero_intensity_drain:
  assumes "pool_ok e" "\<forall>n. 0 \<le> rnd n"
  shows "(\<forall>i<PARTICLE_COUNT.
            lifetime (particles (advance_all rnd fround (map (\<lambda>d. (d, 0)) dts) e) ! i)
              = lifetime (particles e ! i)
          \<and> age (particles (advance_all rnd fround (map (\<lambda>d. (d, 0)) dts) e) ! i)
              = age (particles e ! i) + sum_list dts)
       \<and> (\<forall>i<PARTICLE_COUNT.
            age (particles e ! i) + deltaTime > lifetime (particles e ! i)
            \<longrightarrow> positions (updateExhaust rnd fround deltaTime 0 e) ! (i * 3 + 1) = - 999)
       \<and> (dts \<noteq> [] \<and> 1.5 \<le> sum_list dts \<longrightarrow>
            alive_count (advance_all rnd fround (map (\<lambda>d. (d, 0)) dts) e) = 0
          \<and> (\<forall>i<PARTICLE_COUNT.
                positions (advance_all rnd fround (map (\<lambda>d. (d, 0)) dts) e) ! (i * 3 + 1) = - 999))"
proof -
  have len: "length (particles e) = PARTICLE_COUNT" "length (positions e) = 3 * PARTICLE_COUNT"
    using assms(1) by (simp_all add: pool_ok_def)
  have A: "\<forall>i<PARTICLE_COUNT.
            lifetime (particles (advance_all rnd fround (map (\<lambda>d. (d, 0)) dts) e) ! i)
              = lifetime (particles e ! i)
          \<and> age (particles (advance_all rnd fround (map (\<lambda>d. (d, 0)) dts) e) ! i)
              = age (particles e ! i) + sum_list dts"
    using drain_ages[OF assms(2) _ len, where fround=fround and dts=dts] by blast
  have B: "\<forall>i<PARTICLE_COUNT.
            age (particles e ! i) + deltaTime > lifetime (particles e ! i)
            \<longrightarrow> positions (updateExhaust rnd fround deltaTime 0 e) ! (i * 3 + 1) = - 999"
    using drain_tick(3)[OF assms(2) _ len, where fround=fround and deltaTime=deltaTime] by blast
  have C: "alive_count (advance_all rnd fround (map (\<lambda>d. (d, 0)) dts) e) = 0
          \<and> (\<forall>i<PARTICLE_COUNT.
                positions (advance_all rnd fround (map (\<lambda>d. (d, 0)) dts) e) ! (i * 3 + 1) = - 999)"
    if ne: "dts \<noteq> []" and long: "1.5 \<le> sum_list dts"
  proof -
    let ?e' = "advance_all rnd fround (map (\<lambda>d. (d, 0)) dts) e"
    have l': "length (particles ?e') = PARTICLE_COUNT"
      using advance_all_lengths[of rnd fround "map (\<lambda>d. (d, 0)) dts" e] len by simp
    have "\<forall>i<length (particles ?e'). dead (particles ?e' ! i)"
      using drained_particle(1)[OF assms(2) _ assms(1) ne long] l' by simp
    then have "\<forall>q\<in>set (particles ?e'). dead q" by (auto simp: in_set_conv_nth)
    then have "filter (\<lambda>q. \<not> dead q) (particles ?e') = []" by (simp add: filter_empty_conv)
    then have "alive_count ?e' = 0" by (simp add: alive_count_def)
    moreover have "\<forall>i<PARTICLE_COUNT. positions ?e' ! (i * 3 + 1) = - 999"
      using drained_particle(2)[OF assms(2) _ assms(1) ne long] by blast
    ultimately show ?thesis by blast
  qed
  show ?thesis using A B C by blast
qed

lemma particle_ok_after:
  assumes "\<forall>n. 0 \<le> rnd n \<and> rnd n < 1" "0 \<le> deltaTime" "particle_ok q"
  shows "particle_ok (particle_after rnd deltaTime intensity c q)"
proof -
  note rr = respawn_ranges[OF assms(1), of c "q\<lparr>age := age q + deltaTime\<rparr>"]
  show ?thesis
    using assms(2,3) rr(1,2,3)
    by (simp add: particle_after_def particle_ok_def integrate_fields)
qed

lemma pool_ok_initial: "pool_ok initial_exhaust"
  by (simp add: pool_ok_def initial_lengths list_all_length initial_particle
      particle_ok_def dead_particle_def)

lemma pool_ok_updateExhaust:
  assumes "\<forall>n. 0 \<le> rnd n \<and> rnd n < 1" "0 \<le> deltaTime" "pool_ok e"
  shows "pool_ok (updateExhaust rnd fround deltaTime intensity e)"
proof -
  have len: "length (particles e) = PARTICLE_COUNT" "length (positions e) = 3 * PARTICLE_COUNT"
    and ok: "\<And>i. i < PARTICLE_COUNT \<Longrightarrow> particle_ok (particles e ! i)"
    using assms(3) by (simp_all add: pool_ok_def list_all_length)
  have "particle_ok (particles (updateExhaust rnd fround deltaTime intensity e) ! i)"
    if "i < PARTICLE_COUNT" for i
    unfolding updateExhaust_particle[OF that len(1)]
    by (rule particle_ok_after[OF assms(1,2) ok[OF that]])
  then show ?thesis
    by (simp add: pool_ok_def updateExhaust_lengths len list_all_length)
qed


lemma pool_ok_advance_all:
  assumes "\<forall>n. 0 \<le> rnd n \<and> rnd n < 1" "list_all (\<lambda>tick. 0 \<le> fst tick) ticks" "pool_ok e"
  shows "pool_ok (advance_all rnd fround ticks e)"
  using assms(2,3)
proof (induction ticks arbitrary: e)
  case Nil
  then show ?case by simp
next
  case (Cons tick rest)
  obtain deltaTime intensity where tick: "tick = (deltaTime, intensity)" by (cases tick)
  have "pool_ok (updateExhaust rnd fround deltaTime intensity e)"
    using Cons.prems by (intro pool_ok_updateExhaust[OF assms(1)]) (simp_all add: tick)
  then show ?case using Cons.IH Cons.prems(1) by (simp add: tick)
qed

lemma first_slot: "0 < PARTICLE_COUNT"
  by (simp add: PARTICLE_COUNT_def)

lemma initial_cursor: "cursor initial_exhaust = 0"
  by (simp add: initial_exhaust_def)

lemma zero_draws: "\<forall>n. 0 \<le> (\<lambda>n. 0::real) n \<and> (\<lambda>n. 0::real) n < 1"
  by simp

theorem particle_update_rule_witness:
  "age (particles (updateExhaust (\<lambda>n. 0) (\<lambda>x. x) (1 / 60) 1 initial_exhaust) ! 0) = 0
   \<and> 0.8 \<le> lifetime (particles (updateExhaust (\<lambda>n. 0) (\<lambda>x. x) (1 / 60) 1 initial_exhaust) ! 0)
   \<and> positions (updateExhaust (\<lambda>n. 0) (\<lambda>x. x) (1 / 60) 0 initial_exhaust) ! (0 * 3 + 1) = - 999"
proof -
  note t = particle_update_rule [OF first_slot initial_lengths(1) initial_lengths(2) zero_draws,
      unfolded Let_def]
  have q0: "particles initial_exhaust ! 0 = dead_particle"
    by (rule initial_particle[OF first_slot])
  have c0: "cursor (fold (updateParticle (\<lambda>n. 0) (\<lambda>x. x) d k) [0..<0] initial_exhaust) = 0" for d k
    by (simp add: initial_cursor)
  have ex: "age dead_particle + 1 / 60 > lifetime dead_particle" by (simp add: dead_particle_def)
  have a: "age (particles (updateExhaust (\<lambda>n. 0) (\<lambda>x. x) (1 / 60) 1 initial_exhaust) ! 0) = 0
      \<and> 0.8 \<le> lifetime (particles (updateExhaust (\<lambda>n. 0) (\<lambda>x. x) (1 / 60) 1 initial_exhaust) ! 0)"
    using t[where fround="\<lambda>x. x" and deltaTime="1 / 60" and intensity=1, THEN conjunct1] ex unfolding q0 c0 by simp
  have b: "positions (updateExhaust (\<lambda>n. 0) (\<lambda>x. x) (1 / 60) 0 initial_exhaust) ! (0 * 3 + 1) = - 999"
    using t[where fround="\<lambda>x. x" and deltaTime="1 / 60" and intensity=0, THEN conjunct2, THEN conjunct1] ex unfolding q0 c0 by simp
  show ?thesis using a b by blast
qed

text \<open>
  With every draw 0, a delta of 0.1 and intensity 1, the first particle is respawned and
  ends the call at \<open>x = -1.15\<close>, outside \<open>[-0.75, 0.75]\<close>, with \<open>velocity.y = -49.5\<close>,
  outside \<open>[-80, -50]\<close>.
\<close>

theorem respawned_particle_moves_in_same_tick:
  "position (particles (updateExhaust (\<lambda>n. 0) (\<lambda>x. x) (1 / 10) 1 initial_exhaust) ! 0)
     = Vec3 (- 1.15) (- 5) (- 1.15)
   \<and> velocity (particles (updateExhaust (\<lambda>n. 0) (\<lambda>x. x) (1 / 10) 1 initial_exhaust) ! 0)
     = Vec3 (- 4) (- 49.5) (- 4)"
  by (simp add: updateExhaust_particle[OF first_slot initial_lengths(1)] exhaust_loop_0
      initial_particle[OF first_slot] initial_cursor particle_after_def expired_def
      dead_particle_def respawn_def integrate_def lerp_def addScaledVector_def set_y_def)

theorem pool_capacity_fixed_witness:
  "length (particles (advance_all (\<lambda>n. 0) (\<lambda>x. x) [(1 / 60, 0)] initial_exhaust)) = 5001
   \<and> dead (particles (advance_all (\<lambda>n. 0) (\<lambda>x. x) [(1 / 60, 0)] initial_exhaust) ! 0)
   \<and> positions (advance_all (\<lambda>n. 0) (\<lambda>x. x) [(1 / 60, 0)] initial_exhaust) ! (0 * 3 + 1) = - 999"
proof -
  note t = pool_capacity_fixed [of "\<lambda>n. 0" "\<lambda>x. x" "[(1 / 60, 0)]" 0]
  have r: "\<forall>n. 0 \<le> (\<lambda>n. 0::real) n" by simp
  have d: "dead (particles (advance_all (\<lambda>n. 0) (\<lambda>x. x) [(1 / 60, 0)] initial_exhaust) ! 0)"
    using drain_tick(1,2)[OF r first_slot initial_lengths, where fround="\<lambda>x. x" and deltaTime="1 / 60"]
    by (simp add: dead_def initial_particle[OF first_slot] dead_particle_def)
  show ?thesis using t r d first_slot by simp
qed

lemma all_alive_after_full_burn:
  assumes "i < PARTICLE_COUNT"
  shows "\<not> dead (particles (updateExhaust (\<lambda>n. 0) (\<lambda>x. x) (1 / 60) 1 initial_exhaust) ! i)"
  by (simp add: updateExhaust_particle[OF assms initial_lengths(1)] initial_particle[OF assms]
      particle_after_def expired_def dead_particle_def dead_def integrate_fields respawn_def
      lerp_def)

theorem zero_intensity_drain_witness:
  "alive_count (updateExhaust (\<lambda>n. 0) (\<lambda>x. x) (1 / 60) 1 initial_exhaust) = PARTICLE_COUNT
   \<and> alive_count (advance_all (\<lambda>n. 0) (\<lambda>x. x) [(1, 0), (1, 0)]
        (updateExhaust (\<lambda>n. 0) (\<lambda>x. x) (1 / 60) 1 initial_exhaust)) = 0"
proof -
  let ?e = "updateExhaust (\<lambda>n. 0) (\<lambda>x. x) (1 / 60) 1 initial_exhaust"
  have ok: "pool_ok ?e"
    by (rule pool_ok_updateExhaust[OF zero_draws _ pool_ok_initial]) simp
  have r: "\<forall>n. 0 \<le> (\<lambda>n. 0::real) n" by simp
  have len: "length (particles ?e) = PARTICLE_COUNT"
    by (simp add: updateExhaust_lengths initial_lengths)
  have "\<forall>q\<in>set (particles ?e). \<not> dead q"
    using all_alive_after_full_burn len by (auto simp: in_set_conv_nth)
  then have full: "alive_count ?e = PARTICLE_COUNT"
    by (simp add: alive_count_def len)
  have "alive_count (advance_all (\<lambda>n. 0) (\<lambda>x. x) (map (\<lambda>d. (d, 0)) [1, 1]) ?e) = 0"
    using zero_intensity_drain [OF ok r, where fround="\<lambda>x. x" and dts="[1, 1]" and deltaTime=0] by simp
  then show ?thesis using full by simp
qed

subsection \<open>Out-of-range progress: what is computed, faults and later frames\<close>


lemma updateExhaust_from_fault:
  assumes "i \<in> set idx" "\<not> i < length (particles e)"
  shows "updateExhaust_from rnd fround deltaTime intensity idx e = Inl TypeError"
  using assms
proof (induction idx arbitrary: e)
  case Nil
  then show ?case by simp
next
  case (Cons a rest)
  show ?case
  proof (cases "a < length (particles e)")
    case True
    then have "i \<in> set rest" using Cons.prems by auto
    moreover have "\<not> i < length (particles (updateParticle rnd fround deltaTime intensity a e))"
      using Cons.prems by (simp add: updateParticle_lengths)
    ultimately show ?thesis using Cons.IH True by (simp add: updateParticle_checked_def)
  next
    case False
    then show ?thesis by (simp add: updateParticle_checked_def)
  qed
qed


lemma updateExhaust_checked_fault:
  assumes "length (particles e) < PARTICLE_COUNT"
  shows "updateExhaust_checked rnd fround deltaTime intensity e = Inl TypeError"
  unfolding updateExhaust_checked_def
  by (rule updateExhaust_from_fault[of "length (particles e)"]) (simp_all add: assms)

lemma exhaust_untouched_by_phases:
  "exhaustSystem (scene_after (animation_phases p deltaTime s)) = exhaustSystem s"
  by (simp add: animation_phases_def phase_defs)


lemma animate_checked_fault:
  assumes "length (particles (exhaustSystem s)) < PARTICLE_COUNT"
  shows "animate_checked rnd fround localToWorld mode deltaTime percent s = Inl TypeError"
proof -
  have len: "length (particles (exhaustSystem
        (scene_after (animation_phases (percent / 100) deltaTime s)))) < PARTICLE_COUNT"
    using assms by (simp add: exhaust_untouched_by_phases)
  show ?thesis
    unfolding animate_checked_def Let_def
    by (simp add: updateExhaust_checked_fault[OF len])
qed















end
